theory Spec2Isabelle
  imports Complex_Main "HOL-Library.Word" "HOL-Library.Log_Nat"
begin

unbundle bit_operations_syntax

section \<open>APPA transport protocol (tp/appa.h, tp/appa.c)\<close>

type_synonym u8 = "8 word"

text \<open>
  The sigrok status codes used by the driver. \<^verbatim>\<open>SR_OK\<close>, \<^verbatim>\<open>TRUE\<close> and \<^verbatim>\<open>FALSE\<close> are the
  right-hand side of a sum; every negative \<^verbatim>\<open>SR_ERR_...\<close> return is a value of this type
  on the left.
\<close>

datatype sr_error = SR_ERR_ARG | SR_ERR_BUG | SR_ERR_DATA | SR_ERR_IO | SR_ERR_NA

definition SR_TP_APPA_MAX_DATA_SIZE :: nat where
  "SR_TP_APPA_MAX_DATA_SIZE = 64"

definition SR_TP_APPA_HEADER_SIZE :: nat where
  "SR_TP_APPA_HEADER_SIZE = 4"

definition SR_TP_APPA_MAX_PAYLOAD_SIZE :: nat where
  "SR_TP_APPA_MAX_PAYLOAD_SIZE = 68"

definition SR_TP_APPA_MAX_FRAME_SIZE :: nat where
  "SR_TP_APPA_MAX_FRAME_SIZE = 69"

text \<open>
  Modelled from the spec: \<^verbatim>\<open>SR_TP_APPA_MAX_PACKET_SIZE\<close> is used by \<^verbatim>\<open>sr_tp_appa_receive\<close>
  but declared nowhere in the sources at hand (tp/appa.h declares only
  \<^verbatim>\<open>SR_TP_APPA_MAX_FRAME_SIZE\<close>). The specification gives the absolute maximum frame size
  as 69 bytes: 64 payload + 4 header + 1 checksum.
\<close>

definition SR_TP_APPA_MAX_PACKET_SIZE :: nat where
  "SR_TP_APPA_MAX_PACKET_SIZE = 69"

definition SR_TP_APPA_START_BYTE :: u8 where
  "SR_TP_APPA_START_BYTE = 0x55"

text \<open>
  \<^verbatim>\<open>struct sr_tp_appa_inst\<close>: the receive buffer is the C array of
  \<^verbatim>\<open>SR_TP_APPA_MAX_FRAME_SIZE\<close> bytes, held as a list of that length and written by index;
  \<^verbatim>\<open>buffer_size\<close> is a \<^verbatim>\<open>uint8_t\<close>. The serial port handle is not part of the model: what
  a read returns is an argument of the receiver, what is written is the result of the
  sender.
\<close>

record sr_tp_appa_inst =
  tpai_buffer :: "u8 list"
  tpai_buffer_size :: u8

text \<open>\<^verbatim>\<open>struct sr_tp_appa_packet\<close>; \<^verbatim>\<open>data\<close> is the array of 64 bytes.\<close>

record sr_tp_appa_packet =
  pkt_command :: u8
  pkt_length :: u8
  pkt_data :: "u8 list"

text \<open>
  \<^verbatim>\<open>sr_tp_appa_checksum\<close>: \<^verbatim>\<open>while (arg_size-- > 0) checksum += arg_data[arg_size];\<close>
  on a \<^verbatim>\<open>uint8_t\<close> accumulator. The loop runs from the last index down to 0. The
  \<^verbatim>\<open>NULL\<close> test is not modelled: every call site passes an array.
\<close>

fun checksum_loop :: "u8 list \<Rightarrow> nat \<Rightarrow> u8 \<Rightarrow> u8" where
  "checksum_loop arg_data 0 checksum = checksum"
| "checksum_loop arg_data (Suc arg_size) checksum =
     checksum_loop arg_data arg_size (checksum + arg_data ! arg_size)"

definition sr_tp_appa_checksum :: "u8 list \<Rightarrow> u8 \<Rightarrow> u8" where
  "sr_tp_appa_checksum arg_data arg_size = checksum_loop arg_data (unat arg_size) 0"

text \<open>\<^verbatim>\<open>sr_tp_appa_buffer_reset\<close>: length 0 and the four header bytes cleared.\<close>

definition sr_tp_appa_buffer_reset :: "sr_tp_appa_inst \<Rightarrow> sr_tp_appa_inst" where
  "sr_tp_appa_buffer_reset arg_tpai =
     arg_tpai\<lparr>tpai_buffer_size := 0,
              tpai_buffer := (tpai_buffer arg_tpai)[0 := 0, 1 := 0, 2 := 0, 3 := 0]\<rparr>"

text \<open>
  \<^verbatim>\<open>arg_tpai->buffer[arg_tpai->buffer_size++] = buf[xloop];\<close> The header checks bound the
  declared length by 64, so from an initialised instance the index stays below the 69 bytes
  of the array. A store behind the array is undefined in C; the list update of the model
  leaves the array as it is there.
\<close>

definition buffer_add :: "u8 \<Rightarrow> sr_tp_appa_inst \<Rightarrow> sr_tp_appa_inst" where
  "buffer_add b arg_tpai =
     arg_tpai\<lparr>tpai_buffer := (tpai_buffer arg_tpai)[unat (tpai_buffer_size arg_tpai) := b],
              tpai_buffer_size := tpai_buffer_size arg_tpai + 1\<rparr>"

text \<open>
  The body of the \<^verbatim>\<open>for\<close> loop of \<^verbatim>\<open>sr_tp_appa_receive\<close>, one byte of the read per
  recursive call. The result is the instance, the caller's packet and the return value:
  \<^verbatim>\<open>TRUE\<close> is \<open>Inr True\<close>, \<^verbatim>\<open>FALSE\<close> is \<open>Inr False\<close>. Leaving the loop (by \<^verbatim>\<open>break\<close> or at
  the end of the read) runs the unconditional \<^verbatim>\<open>sr_tp_appa_buffer_reset\<close> that precedes
  \<^verbatim>\<open>return retr\<close>. \<^verbatim>\<open>memcpy\<close> returns its destination, so the \<^verbatim>\<open>SR_ERR_BUG\<close> arm of
  the copy is dead and left out.
\<close>

fun receive_loop ::
  "sr_tp_appa_inst \<Rightarrow> sr_tp_appa_packet \<Rightarrow> u8 list
     \<Rightarrow> sr_tp_appa_inst \<times> sr_tp_appa_packet \<times> (sr_error + bool)" where
  "receive_loop arg_tpai arg_r_packet [] =
     (sr_tp_appa_buffer_reset arg_tpai, arg_r_packet, Inr False)"
| "receive_loop arg_tpai arg_r_packet (b # buf) =
     (if unat (tpai_buffer_size arg_tpai) < 1 \<and> b \<noteq> SR_TP_APPA_START_BYTE
      then receive_loop arg_tpai arg_r_packet buf
      else if \<not> unat (tpai_buffer_size arg_tpai) < 1
            \<and> unat (tpai_buffer_size arg_tpai) < 2 \<and> b \<noteq> SR_TP_APPA_START_BYTE
      then receive_loop (sr_tp_appa_buffer_reset arg_tpai) arg_r_packet buf
      else if \<not> unat (tpai_buffer_size arg_tpai) < 2
            \<and> unat (tpai_buffer_size arg_tpai) < 4 \<and> unat b > SR_TP_APPA_MAX_DATA_SIZE
      then receive_loop (sr_tp_appa_buffer_reset arg_tpai) arg_r_packet buf
      else
        let t = buffer_add b arg_tpai in
        if unat (tpai_buffer_size t) > 4
           \<and> unat (tpai_buffer t ! 3) + SR_TP_APPA_HEADER_SIZE + 1 = unat (tpai_buffer_size t)
        then
          (if sr_tp_appa_checksum (tpai_buffer t) (tpai_buffer t ! 3)
                = tpai_buffer t ! (unat (tpai_buffer_size t) - 1)
           then (sr_tp_appa_buffer_reset t,
                 arg_r_packet\<lparr>pkt_command := tpai_buffer t ! 2,
                              pkt_length := tpai_buffer t ! 3,
                              pkt_data := take (unat (tpai_buffer t ! 3)) (drop 4 (tpai_buffer t))
                                          @ drop (unat (tpai_buffer t ! 3)) (pkt_data arg_r_packet)\<rparr>,
                 Inr True)
           else (sr_tp_appa_buffer_reset t, arg_r_packet, Inl SR_ERR_IO))
        else if unat (tpai_buffer_size t) > SR_TP_APPA_MAX_PACKET_SIZE
        then (sr_tp_appa_buffer_reset t, arg_r_packet, Inl SR_ERR_BUG)
        else receive_loop t arg_r_packet buf)"

text \<open>
  \<^verbatim>\<open>sr_tp_appa_receive\<close>. The argument \<open>rd\<close> is what \<^verbatim>\<open>serial_read_nonblocking\<close> returned: an
  error (a negative length, returned at once with the instance untouched) or the bytes of
  this one read.
\<close>

definition sr_tp_appa_receive ::
  "sr_tp_appa_inst \<Rightarrow> sr_tp_appa_packet \<Rightarrow> sr_error + u8 list
     \<Rightarrow> sr_tp_appa_inst \<times> sr_tp_appa_packet \<times> (sr_error + bool)" where
  "sr_tp_appa_receive arg_tpai arg_r_packet rd =
     (case rd of
        Inl e \<Rightarrow> (arg_tpai, arg_r_packet, Inl e)
      | Inr buf \<Rightarrow> receive_loop arg_tpai arg_r_packet buf)"

text \<open>
  \<^verbatim>\<open>sr_tp_appa_send\<close>. The result is the byte string handed to the three
  \<^verbatim>\<open>serial_write_nonblocking\<close> calls in order (header, payload, checksum); a short write
  (\<^verbatim>\<open>SR_ERR_IO\<close>) belongs to the serial layer and is not modelled. The source stores the
  length with \<^verbatim>\<open>header[4] = arg_s_packet->length\<close> into an array of
  \<^verbatim>\<open>SR_TP_APPA_HEADER_SIZE\<close> = 4 bytes: the store lands behind the array and
  \<^verbatim>\<open>header[3]\<close> is never assigned. The byte transmitted at offset 3 is therefore whatever
  the stack slot holds; it is the argument \<open>header_3\<close>. For a length between 65 and 68 the
  source reads behind the 64 bytes of \<^verbatim>\<open>data\<close>; the model transmits the bytes the array
  has.
\<close>

definition sr_tp_appa_send :: "u8 \<Rightarrow> sr_tp_appa_packet \<Rightarrow> sr_error + u8 list" where
  "sr_tp_appa_send header_3 arg_s_packet =
     (if unat (pkt_length arg_s_packet) > SR_TP_APPA_MAX_PAYLOAD_SIZE then Inl SR_ERR_DATA
      else
        let header = [SR_TP_APPA_START_BYTE, SR_TP_APPA_START_BYTE,
                      pkt_command arg_s_packet, header_3];
            checksum = sr_tp_appa_checksum header (of_nat SR_TP_APPA_HEADER_SIZE)
                       + sr_tp_appa_checksum (pkt_data arg_s_packet) (pkt_length arg_s_packet)
        in Inr (header @ take (unat (pkt_length arg_s_packet)) (pkt_data arg_s_packet)
                @ [checksum]))"

text \<open>
  A caller polling the receiver: one call of \<^verbatim>\<open>sr_tp_appa_receive\<close> per non-blocking read,
  the instance carried from call to call. The result lists the packets of the calls that
  returned \<^verbatim>\<open>TRUE\<close>, in order.
\<close>

fun receive_reads ::
  "sr_tp_appa_inst \<Rightarrow> sr_tp_appa_packet \<Rightarrow> u8 list list \<Rightarrow> sr_tp_appa_packet list" where
  "receive_reads arg_tpai arg_r_packet [] = []"
| "receive_reads arg_tpai arg_r_packet (rd # rds) =
     (case sr_tp_appa_receive arg_tpai arg_r_packet (Inr rd) of
        (t, p, retr) \<Rightarrow>
          (if retr = Inr True then [p] else []) @ receive_reads t p rds)"

text \<open>
  The wire format as documented at the head of tp/appa.c,
  \<^verbatim>\<open>[SS SS CC LL DD DD ... CS]\<close>, with CS the sum of all bytes except the checksum
  itself. This is the reference the receiver and the sender are compared with.
\<close>

definition frame_bytes :: "u8 \<Rightarrow> u8 list \<Rightarrow> u8 list" where
  "frame_bytes c payload =
     [0x55, 0x55, c, of_nat (length payload)] @ payload
     @ [sum_list ([0x55, 0x55, c, of_nat (length payload)] @ payload)]"


text \<open>
  Values used to state and to evaluate the properties below: the instance after
  \<^verbatim>\<open>sr_tp_appa_init\<close> on a zeroed device context, a zeroed packet of the caller, a stream
  handed over one byte per read, and the instance that \<^verbatim>\<open>sr_tp_appa_buffer_reset\<close> leaves
  when the array held \<open>buf\<close>.
\<close>

definition tpai_init :: sr_tp_appa_inst where
  "tpai_init = \<lparr>tpai_buffer = replicate SR_TP_APPA_MAX_FRAME_SIZE 0, tpai_buffer_size = 0\<rparr>"

definition packet_init :: sr_tp_appa_packet where
  "packet_init =
     \<lparr>pkt_command = 0, pkt_length = 0, pkt_data = replicate SR_TP_APPA_MAX_DATA_SIZE 0\<rparr>"




definition reset_to :: "sr_tp_appa_inst \<Rightarrow> u8 list \<Rightarrow> sr_tp_appa_inst" where
  "reset_to t buf =
     t\<lparr>tpai_buffer := buf[0 := 0, 1 := 0, 2 := 0, 3 := 0], tpai_buffer_size := 0\<rparr>"

section \<open>APPA DMM protocol (hardware/appa-dmm)\<close>

subsection \<open>Constants and enumerations (protocol.h)\<close>

text \<open>Response payload sizes of the frame catalog.\<close>

definition APPADMM_FRAME_DATA_SIZE_RESPONSE_READ_INFORMATION :: int where "APPADMM_FRAME_DATA_SIZE_RESPONSE_READ_INFORMATION = 52"
definition APPADMM_FRAME_DATA_SIZE_RESPONSE_READ_DISPLAY :: int where "APPADMM_FRAME_DATA_SIZE_RESPONSE_READ_DISPLAY = 12"
definition APPADMM_FRAME_DATA_SIZE_RESPONSE_READ_PROTOCOL_VERSION :: int where "APPADMM_FRAME_DATA_SIZE_RESPONSE_READ_PROTOCOL_VERSION = 4"
definition APPADMM_FRAME_DATA_SIZE_RESPONSE_READ_BATTERY_LIFE :: int where "APPADMM_FRAME_DATA_SIZE_RESPONSE_READ_BATTERY_LIFE = 4"
definition APPADMM_FRAME_DATA_SIZE_RESPONSE_CAL_READING :: int where "APPADMM_FRAME_DATA_SIZE_RESPONSE_CAL_READING = 23"
definition APPADMM_FRAME_DATA_SIZE_RESPONSE_READ_MEMORY :: int where "APPADMM_FRAME_DATA_SIZE_RESPONSE_READ_MEMORY = 64"
definition APPADMM_FRAME_DATA_SIZE_RESPONSE_READ_HARMONICS_DATA :: int where "APPADMM_FRAME_DATA_SIZE_RESPONSE_READ_HARMONICS_DATA = 50"
definition APPADMM_FRAME_DATA_SIZE_RESPONSE_FAILURE :: int where "APPADMM_FRAME_DATA_SIZE_RESPONSE_FAILURE = 1"
definition APPADMM_FRAME_DATA_SIZE_RESPONSE_SUCCESS :: int where "APPADMM_FRAME_DATA_SIZE_RESPONSE_SUCCESS = 0"

definition APPADMM_WORDCODE_TABLE_MIN :: int where "APPADMM_WORDCODE_TABLE_MIN = 0x700000"
text \<open>\<^verbatim>\<open>enum appadmm_command_e\<close>\<close>

definition APPADMM_COMMAND_READ_INFORMATION :: int where "APPADMM_COMMAND_READ_INFORMATION = 0x00"
definition APPADMM_COMMAND_READ_DISPLAY :: int where "APPADMM_COMMAND_READ_DISPLAY = 0x01"
definition APPADMM_COMMAND_READ_PROTOCOL_VERSION :: int where "APPADMM_COMMAND_READ_PROTOCOL_VERSION = 0x03"
definition APPADMM_COMMAND_READ_BATTERY_LIFE :: int where "APPADMM_COMMAND_READ_BATTERY_LIFE = 0x04"
definition APPADMM_COMMAND_WRITE_UART_CONFIGURATION :: int where "APPADMM_COMMAND_WRITE_UART_CONFIGURATION = 0x05"
definition APPADMM_COMMAND_CAL_READING :: int where "APPADMM_COMMAND_CAL_READING = 0x10"
definition APPADMM_COMMAND_READ_MEMORY :: int where "APPADMM_COMMAND_READ_MEMORY = 0x1a"
definition APPADMM_COMMAND_READ_HARMONICS_DATA :: int where "APPADMM_COMMAND_READ_HARMONICS_DATA = 0x1b"
definition APPADMM_COMMAND_FAILURE :: int where "APPADMM_COMMAND_FAILURE = 0x70"
definition APPADMM_COMMAND_SUCCESS :: int where "APPADMM_COMMAND_SUCCESS = 0x7f"
definition APPADMM_COMMAND_CAL_ENTER :: int where "APPADMM_COMMAND_CAL_ENTER = 0x80"
definition APPADMM_COMMAND_CAL_WRITE_FUNCTION_CODE :: int where "APPADMM_COMMAND_CAL_WRITE_FUNCTION_CODE = 0x85"
definition APPADMM_COMMAND_CAL_WRITE_RANGE_CODE :: int where "APPADMM_COMMAND_CAL_WRITE_RANGE_CODE = 0x87"
definition APPADMM_COMMAND_CAL_WRITE_MEMORY :: int where "APPADMM_COMMAND_CAL_WRITE_MEMORY = 0x8a"
definition APPADMM_COMMAND_CAL_EXIT :: int where "APPADMM_COMMAND_CAL_EXIT = 0x8f"
definition APPADMM_COMMAND_OTA_ENTER :: int where "APPADMM_COMMAND_OTA_ENTER = 0xa0"
definition APPADMM_COMMAND_OTA_SEND_INFORMATION :: int where "APPADMM_COMMAND_OTA_SEND_INFORMATION = 0xa1"
definition APPADMM_COMMAND_OTA_SEND_FIRMWARE_PACKAGE :: int where "APPADMM_COMMAND_OTA_SEND_FIRMWARE_PACKAGE = 0xa2"
definition APPADMM_COMMAND_OTA_START_UPGRADE_PROCEDURE :: int where "APPADMM_COMMAND_OTA_START_UPGRADE_PROCEDURE = 0xa3"

text \<open>\<^verbatim>\<open>enum appadmm_autorange_e\<close> and \<^verbatim>\<open>enum appadmm_overload_e\<close>\<close>

definition APPADMM_MANUAL_RANGE :: nat where "APPADMM_MANUAL_RANGE = 0x00"
definition APPADMM_AUTO_RANGE :: nat where "APPADMM_AUTO_RANGE = 0x01"
definition APPADMM_NOT_OVERLOAD :: nat where "APPADMM_NOT_OVERLOAD = 0x00"
definition APPADMM_OVERLOAD :: nat where "APPADMM_OVERLOAD = 0x01"

text \<open>\<^verbatim>\<open>enum appadmm_wordcode_e\<close>: the word codes the interpreter names (the enumeration runs from 0x700000 to 0x700037).\<close>

definition APPADMM_WORDCODE_SPACE :: int where "APPADMM_WORDCODE_SPACE = 0x700000"
definition APPADMM_WORDCODE_HAZ :: int where "APPADMM_WORDCODE_HAZ = 0x700005"
definition APPADMM_WORDCODE_FUSE :: int where "APPADMM_WORDCODE_FUSE = 0x70000c"
definition APPADMM_WORDCODE_PROBE :: int where "APPADMM_WORDCODE_PROBE = 0x70000d"
definition APPADMM_WORDCODE_DEF :: int where "APPADMM_WORDCODE_DEF = 0x70000e"
definition APPADMM_WORDCODE_ER :: int where "APPADMM_WORDCODE_ER = 0x700010"
definition APPADMM_WORDCODE_ER1 :: int where "APPADMM_WORDCODE_ER1 = 0x700011"
definition APPADMM_WORDCODE_ER2 :: int where "APPADMM_WORDCODE_ER2 = 0x700012"
definition APPADMM_WORDCODE_ER3 :: int where "APPADMM_WORDCODE_ER3 = 0x700013"
definition APPADMM_WORDCODE_DASH :: int where "APPADMM_WORDCODE_DASH = 0x700014"
definition APPADMM_WORDCODE_DASH1 :: int where "APPADMM_WORDCODE_DASH1 = 0x700015"
definition APPADMM_WORDCODE_DASH2 :: int where "APPADMM_WORDCODE_DASH2 = 0x700017"
definition APPADMM_WORDCODE_BATT :: int where "APPADMM_WORDCODE_BATT = 0x700018"

text \<open>\<^verbatim>\<open>enum appadmm_unit_e\<close>\<close>

definition APPADMM_UNIT_NONE :: nat where "APPADMM_UNIT_NONE = 0x00"
definition APPADMM_UNIT_V :: nat where "APPADMM_UNIT_V = 0x01"
definition APPADMM_UNIT_MV :: nat where "APPADMM_UNIT_MV = 0x02"
definition APPADMM_UNIT_A :: nat where "APPADMM_UNIT_A = 0x03"
definition APPADMM_UNIT_MA :: nat where "APPADMM_UNIT_MA = 0x04"
definition APPADMM_UNIT_DB :: nat where "APPADMM_UNIT_DB = 0x05"
definition APPADMM_UNIT_DBM :: nat where "APPADMM_UNIT_DBM = 0x06"
definition APPADMM_UNIT_MF :: nat where "APPADMM_UNIT_MF = 0x07"
definition APPADMM_UNIT_UF :: nat where "APPADMM_UNIT_UF = 0x08"
definition APPADMM_UNIT_NF :: nat where "APPADMM_UNIT_NF = 0x09"
definition APPADMM_UNIT_GOHM :: nat where "APPADMM_UNIT_GOHM = 0x0a"
definition APPADMM_UNIT_MOHM :: nat where "APPADMM_UNIT_MOHM = 0x0b"
definition APPADMM_UNIT_KOHM :: nat where "APPADMM_UNIT_KOHM = 0x0c"
definition APPADMM_UNIT_OHM :: nat where "APPADMM_UNIT_OHM = 0x0d"
definition APPADMM_UNIT_PERCENT :: nat where "APPADMM_UNIT_PERCENT = 0x0e"
definition APPADMM_UNIT_MHZ :: nat where "APPADMM_UNIT_MHZ = 0x0f"
definition APPADMM_UNIT_KHZ :: nat where "APPADMM_UNIT_KHZ = 0x10"
definition APPADMM_UNIT_HZ :: nat where "APPADMM_UNIT_HZ = 0x11"
definition APPADMM_UNIT_DEGC :: nat where "APPADMM_UNIT_DEGC = 0x12"
definition APPADMM_UNIT_DEGF :: nat where "APPADMM_UNIT_DEGF = 0x13"
definition APPADMM_UNIT_SEC :: nat where "APPADMM_UNIT_SEC = 0x14"
definition APPADMM_UNIT_MS :: nat where "APPADMM_UNIT_MS = 0x15"
definition APPADMM_UNIT_US :: nat where "APPADMM_UNIT_US = 0x16"
definition APPADMM_UNIT_NS :: nat where "APPADMM_UNIT_NS = 0x17"
definition APPADMM_UNIT_UA :: nat where "APPADMM_UNIT_UA = 0x18"
definition APPADMM_UNIT_MIN :: nat where "APPADMM_UNIT_MIN = 0x19"
definition APPADMM_UNIT_KW :: nat where "APPADMM_UNIT_KW = 0x1a"
definition APPADMM_UNIT_PF :: nat where "APPADMM_UNIT_PF = 0x1b"

text \<open>\<^verbatim>\<open>enum appadmm_dot_e\<close>\<close>

definition APPADMM_DOT_NONE :: nat where "APPADMM_DOT_NONE = 0x00"
definition APPADMM_DOT_9999_9 :: nat where "APPADMM_DOT_9999_9 = 0x01"
definition APPADMM_DOT_999_99 :: nat where "APPADMM_DOT_999_99 = 0x02"
definition APPADMM_DOT_99_999 :: nat where "APPADMM_DOT_99_999 = 0x03"
definition APPADMM_DOT_9_9999 :: nat where "APPADMM_DOT_9_9999 = 0x04"

text \<open>\<^verbatim>\<open>enum appadmm_data_content_e\<close>\<close>

definition APPADMM_DATA_CONTENT_MEASURING_DATA :: nat where "APPADMM_DATA_CONTENT_MEASURING_DATA = 0x00"
definition APPADMM_DATA_CONTENT_FREQUENCY :: nat where "APPADMM_DATA_CONTENT_FREQUENCY = 0x01"
definition APPADMM_DATA_CONTENT_CYCLE :: nat where "APPADMM_DATA_CONTENT_CYCLE = 0x02"
definition APPADMM_DATA_CONTENT_DUTY :: nat where "APPADMM_DATA_CONTENT_DUTY = 0x03"
definition APPADMM_DATA_CONTENT_MEMORY_STAMP :: nat where "APPADMM_DATA_CONTENT_MEMORY_STAMP = 0x04"
definition APPADMM_DATA_CONTENT_MEMORY_SAVE :: nat where "APPADMM_DATA_CONTENT_MEMORY_SAVE = 0x05"
definition APPADMM_DATA_CONTENT_MEMORY_LOAD :: nat where "APPADMM_DATA_CONTENT_MEMORY_LOAD = 0x06"
definition APPADMM_DATA_CONTENT_LOG_SAVE :: nat where "APPADMM_DATA_CONTENT_LOG_SAVE = 0x07"
definition APPADMM_DATA_CONTENT_LOG_LOAD :: nat where "APPADMM_DATA_CONTENT_LOG_LOAD = 0x08"
definition APPADMM_DATA_CONTENT_LOG_RATE :: nat where "APPADMM_DATA_CONTENT_LOG_RATE = 0x09"
definition APPADMM_DATA_CONTENT_REL_DELTA :: nat where "APPADMM_DATA_CONTENT_REL_DELTA = 0x0a"
definition APPADMM_DATA_CONTENT_REL_PERCENT :: nat where "APPADMM_DATA_CONTENT_REL_PERCENT = 0x0b"
definition APPADMM_DATA_CONTENT_REL_REFERENCE :: nat where "APPADMM_DATA_CONTENT_REL_REFERENCE = 0x0c"
definition APPADMM_DATA_CONTENT_MAXIMUM :: nat where "APPADMM_DATA_CONTENT_MAXIMUM = 0x0d"
definition APPADMM_DATA_CONTENT_MINIMUM :: nat where "APPADMM_DATA_CONTENT_MINIMUM = 0x0e"
definition APPADMM_DATA_CONTENT_AVERAGE :: nat where "APPADMM_DATA_CONTENT_AVERAGE = 0x0f"
definition APPADMM_DATA_CONTENT_PEAK_HOLD_MAX :: nat where "APPADMM_DATA_CONTENT_PEAK_HOLD_MAX = 0x10"
definition APPADMM_DATA_CONTENT_PEAK_HOLD_MIN :: nat where "APPADMM_DATA_CONTENT_PEAK_HOLD_MIN = 0x11"
definition APPADMM_DATA_CONTENT_DBM :: nat where "APPADMM_DATA_CONTENT_DBM = 0x12"
definition APPADMM_DATA_CONTENT_DB :: nat where "APPADMM_DATA_CONTENT_DB = 0x13"
definition APPADMM_DATA_CONTENT_AUTO_HOLD :: nat where "APPADMM_DATA_CONTENT_AUTO_HOLD = 0x14"
definition APPADMM_DATA_CONTENT_SETUP :: nat where "APPADMM_DATA_CONTENT_SETUP = 0x15"
definition APPADMM_DATA_CONTENT_LOG_STAMP :: nat where "APPADMM_DATA_CONTENT_LOG_STAMP = 0x16"
definition APPADMM_DATA_CONTENT_LOG_MAX :: nat where "APPADMM_DATA_CONTENT_LOG_MAX = 0x17"
definition APPADMM_DATA_CONTENT_LOG_MIN :: nat where "APPADMM_DATA_CONTENT_LOG_MIN = 0x18"
definition APPADMM_DATA_CONTENT_LOG_TP :: nat where "APPADMM_DATA_CONTENT_LOG_TP = 0x19"
definition APPADMM_DATA_CONTENT_HOLD :: nat where "APPADMM_DATA_CONTENT_HOLD = 0x1a"
definition APPADMM_DATA_CONTENT_CURRENT_OUTPUT :: nat where "APPADMM_DATA_CONTENT_CURRENT_OUTPUT = 0x1b"
definition APPADMM_DATA_CONTENT_CUR_OUT_0_20MA_PERCENT :: nat where "APPADMM_DATA_CONTENT_CUR_OUT_0_20MA_PERCENT = 0x1c"
definition APPADMM_DATA_CONTENT_CUR_OUT_4_20MA_PERCENT :: nat where "APPADMM_DATA_CONTENT_CUR_OUT_4_20MA_PERCENT = 0x1d"

text \<open>\<^verbatim>\<open>enum appadmm_functioncode_e\<close>\<close>

definition APPADMM_FUNCTIONCODE_NONE :: nat where "APPADMM_FUNCTIONCODE_NONE = 0x00"
definition APPADMM_FUNCTIONCODE_AC_V :: nat where "APPADMM_FUNCTIONCODE_AC_V = 0x01"
definition APPADMM_FUNCTIONCODE_DC_V :: nat where "APPADMM_FUNCTIONCODE_DC_V = 0x02"
definition APPADMM_FUNCTIONCODE_AC_MV :: nat where "APPADMM_FUNCTIONCODE_AC_MV = 0x03"
definition APPADMM_FUNCTIONCODE_DC_MV :: nat where "APPADMM_FUNCTIONCODE_DC_MV = 0x04"
definition APPADMM_FUNCTIONCODE_OHM :: nat where "APPADMM_FUNCTIONCODE_OHM = 0x05"
definition APPADMM_FUNCTIONCODE_CONTINUITY :: nat where "APPADMM_FUNCTIONCODE_CONTINUITY = 0x06"
definition APPADMM_FUNCTIONCODE_DIODE :: nat where "APPADMM_FUNCTIONCODE_DIODE = 0x07"
definition APPADMM_FUNCTIONCODE_CAP :: nat where "APPADMM_FUNCTIONCODE_CAP = 0x08"
definition APPADMM_FUNCTIONCODE_AC_A :: nat where "APPADMM_FUNCTIONCODE_AC_A = 0x09"
definition APPADMM_FUNCTIONCODE_DC_A :: nat where "APPADMM_FUNCTIONCODE_DC_A = 0x0a"
definition APPADMM_FUNCTIONCODE_AC_MA :: nat where "APPADMM_FUNCTIONCODE_AC_MA = 0x0b"
definition APPADMM_FUNCTIONCODE_DC_MA :: nat where "APPADMM_FUNCTIONCODE_DC_MA = 0x0c"
definition APPADMM_FUNCTIONCODE_DEGC :: nat where "APPADMM_FUNCTIONCODE_DEGC = 0x0d"
definition APPADMM_FUNCTIONCODE_DEGF :: nat where "APPADMM_FUNCTIONCODE_DEGF = 0x0e"
definition APPADMM_FUNCTIONCODE_FREQUENCY :: nat where "APPADMM_FUNCTIONCODE_FREQUENCY = 0x0f"
definition APPADMM_FUNCTIONCODE_DUTY :: nat where "APPADMM_FUNCTIONCODE_DUTY = 0x10"
definition APPADMM_FUNCTIONCODE_HZ_V :: nat where "APPADMM_FUNCTIONCODE_HZ_V = 0x11"
definition APPADMM_FUNCTIONCODE_HZ_MV :: nat where "APPADMM_FUNCTIONCODE_HZ_MV = 0x12"
definition APPADMM_FUNCTIONCODE_HZ_A :: nat where "APPADMM_FUNCTIONCODE_HZ_A = 0x13"
definition APPADMM_FUNCTIONCODE_HZ_MA :: nat where "APPADMM_FUNCTIONCODE_HZ_MA = 0x14"
definition APPADMM_FUNCTIONCODE_AC_DC_V :: nat where "APPADMM_FUNCTIONCODE_AC_DC_V = 0x15"
definition APPADMM_FUNCTIONCODE_AC_DC_MV :: nat where "APPADMM_FUNCTIONCODE_AC_DC_MV = 0x16"
definition APPADMM_FUNCTIONCODE_AC_DC_A :: nat where "APPADMM_FUNCTIONCODE_AC_DC_A = 0x17"
definition APPADMM_FUNCTIONCODE_AC_DC_MA :: nat where "APPADMM_FUNCTIONCODE_AC_DC_MA = 0x18"
definition APPADMM_FUNCTIONCODE_LPF_V :: nat where "APPADMM_FUNCTIONCODE_LPF_V = 0x19"
definition APPADMM_FUNCTIONCODE_LPF_MV :: nat where "APPADMM_FUNCTIONCODE_LPF_MV = 0x1a"
definition APPADMM_FUNCTIONCODE_LPF_A :: nat where "APPADMM_FUNCTIONCODE_LPF_A = 0x1b"
definition APPADMM_FUNCTIONCODE_LPF_MA :: nat where "APPADMM_FUNCTIONCODE_LPF_MA = 0x1c"
definition APPADMM_FUNCTIONCODE_AC_UA :: nat where "APPADMM_FUNCTIONCODE_AC_UA = 0x1d"
definition APPADMM_FUNCTIONCODE_DC_UA :: nat where "APPADMM_FUNCTIONCODE_DC_UA = 0x1e"
definition APPADMM_FUNCTIONCODE_DC_A_OUT :: nat where "APPADMM_FUNCTIONCODE_DC_A_OUT = 0x1f"
definition APPADMM_FUNCTIONCODE_DC_A_OUT_SLOW_LINEAR :: nat where "APPADMM_FUNCTIONCODE_DC_A_OUT_SLOW_LINEAR = 0x20"
definition APPADMM_FUNCTIONCODE_DC_A_OUT_FAST_LINEAR :: nat where "APPADMM_FUNCTIONCODE_DC_A_OUT_FAST_LINEAR = 0x21"
definition APPADMM_FUNCTIONCODE_DC_A_OUT_SLOW_STEP :: nat where "APPADMM_FUNCTIONCODE_DC_A_OUT_SLOW_STEP = 0x22"
definition APPADMM_FUNCTIONCODE_DC_A_OUT_FAST_STEP :: nat where "APPADMM_FUNCTIONCODE_DC_A_OUT_FAST_STEP = 0x23"
definition APPADMM_FUNCTIONCODE_LOOP_POWER :: nat where "APPADMM_FUNCTIONCODE_LOOP_POWER = 0x24"
definition APPADMM_FUNCTIONCODE_250OHM_HART :: nat where "APPADMM_FUNCTIONCODE_250OHM_HART = 0x25"
definition APPADMM_FUNCTIONCODE_VOLT_SENSE :: nat where "APPADMM_FUNCTIONCODE_VOLT_SENSE = 0x26"
definition APPADMM_FUNCTIONCODE_PEAK_HOLD_V :: nat where "APPADMM_FUNCTIONCODE_PEAK_HOLD_V = 0x27"
definition APPADMM_FUNCTIONCODE_PEAK_HOLD_MV :: nat where "APPADMM_FUNCTIONCODE_PEAK_HOLD_MV = 0x28"
definition APPADMM_FUNCTIONCODE_PEAK_HOLD_A :: nat where "APPADMM_FUNCTIONCODE_PEAK_HOLD_A = 0x29"
definition APPADMM_FUNCTIONCODE_PEAK_HOLD_MA :: nat where "APPADMM_FUNCTIONCODE_PEAK_HOLD_MA = 0x2a"
definition APPADMM_FUNCTIONCODE_LOZ_AC_V :: nat where "APPADMM_FUNCTIONCODE_LOZ_AC_V = 0x2b"
definition APPADMM_FUNCTIONCODE_LOZ_DC_V :: nat where "APPADMM_FUNCTIONCODE_LOZ_DC_V = 0x2c"
definition APPADMM_FUNCTIONCODE_LOZ_AC_DC_V :: nat where "APPADMM_FUNCTIONCODE_LOZ_AC_DC_V = 0x2d"
definition APPADMM_FUNCTIONCODE_LOZ_LPF_V :: nat where "APPADMM_FUNCTIONCODE_LOZ_LPF_V = 0x2e"
definition APPADMM_FUNCTIONCODE_LOZ_HZ_V :: nat where "APPADMM_FUNCTIONCODE_LOZ_HZ_V = 0x2f"
definition APPADMM_FUNCTIONCODE_LOZ_PEAK_HOLD_V :: nat where "APPADMM_FUNCTIONCODE_LOZ_PEAK_HOLD_V = 0x30"
definition APPADMM_FUNCTIONCODE_BATTERY :: nat where "APPADMM_FUNCTIONCODE_BATTERY = 0x31"
definition APPADMM_FUNCTIONCODE_AC_W :: nat where "APPADMM_FUNCTIONCODE_AC_W = 0x32"
definition APPADMM_FUNCTIONCODE_DC_W :: nat where "APPADMM_FUNCTIONCODE_DC_W = 0x33"
definition APPADMM_FUNCTIONCODE_PF :: nat where "APPADMM_FUNCTIONCODE_PF = 0x34"
definition APPADMM_FUNCTIONCODE_FLEX_AC_A :: nat where "APPADMM_FUNCTIONCODE_FLEX_AC_A = 0x35"
definition APPADMM_FUNCTIONCODE_FLEX_LPF_A :: nat where "APPADMM_FUNCTIONCODE_FLEX_LPF_A = 0x36"
definition APPADMM_FUNCTIONCODE_FLEX_PEAK_HOLD_A :: nat where "APPADMM_FUNCTIONCODE_FLEX_PEAK_HOLD_A = 0x37"
definition APPADMM_FUNCTIONCODE_FLEX_HZ_A :: nat where "APPADMM_FUNCTIONCODE_FLEX_HZ_A = 0x38"
definition APPADMM_FUNCTIONCODE_V_HARM :: nat where "APPADMM_FUNCTIONCODE_V_HARM = 0x39"
definition APPADMM_FUNCTIONCODE_INRUSH :: nat where "APPADMM_FUNCTIONCODE_INRUSH = 0x3a"
definition APPADMM_FUNCTIONCODE_A_HARM :: nat where "APPADMM_FUNCTIONCODE_A_HARM = 0x3b"
definition APPADMM_FUNCTIONCODE_FLEX_INRUSH :: nat where "APPADMM_FUNCTIONCODE_FLEX_INRUSH = 0x3c"
definition APPADMM_FUNCTIONCODE_FLEX_A_HARM :: nat where "APPADMM_FUNCTIONCODE_FLEX_A_HARM = 0x3d"
definition APPADMM_FUNCTIONCODE_PEAK_HOLD_UA :: nat where "APPADMM_FUNCTIONCODE_PEAK_HOLD_UA = 0x3e"
definition APPADMM_FUNCTIONCODE_AC_UA_HFR :: nat where "APPADMM_FUNCTIONCODE_AC_UA_HFR = 0x3F"
definition APPADMM_FUNCTIONCODE_AC_V_HFR :: nat where "APPADMM_FUNCTIONCODE_AC_V_HFR = 0x40"
definition APPADMM_FUNCTIONCODE_AC_MV_HFR :: nat where "APPADMM_FUNCTIONCODE_AC_MV_HFR = 0x41"
definition APPADMM_FUNCTIONCODE_AC_A_HFR :: nat where "APPADMM_FUNCTIONCODE_AC_A_HFR = 0x42"
definition APPADMM_FUNCTIONCODE_AC_MA_HFR :: nat where "APPADMM_FUNCTIONCODE_AC_MA_HFR = 0x43"
definition APPADMM_FUNCTIONCODE_AC_UA_HFR2 :: nat where "APPADMM_FUNCTIONCODE_AC_UA_HFR2 = 0x44"
definition APPADMM_FUNCTIONCODE_DC_V_PV :: nat where "APPADMM_FUNCTIONCODE_DC_V_PV = 0x45"
definition APPADMM_FUNCTIONCODE_AC_V_PV :: nat where "APPADMM_FUNCTIONCODE_AC_V_PV = 0x46"
definition APPADMM_FUNCTIONCODE_AC_V_PV_HFR :: nat where "APPADMM_FUNCTIONCODE_AC_V_PV_HFR = 0x47"
definition APPADMM_FUNCTIONCODE_AC_DC_V_PV :: nat where "APPADMM_FUNCTIONCODE_AC_DC_V_PV = 0x48"


subsection \<open>Data structures\<close>

text \<open>
  \<^verbatim>\<open>struct appadmm_display_data_s\<close>. \<^verbatim>\<open>reading\<close> is an \<^verbatim>\<open>int32_t\<close> that only ever holds
  a sign-extended 24-bit value; the enumeration-typed fields hold the raw codes.
\<close>

record appadmm_display_data_s =
  dd_reading :: int
  dd_dot :: nat
  dd_unit :: nat
  dd_data_content :: nat
  dd_overload :: nat

text \<open>\<^verbatim>\<open>struct appadmm_response_data_read_display_s\<close>\<close>

record appadmm_response_data_read_display_s =
  rd_function_code :: nat
  rd_auto_test :: nat
  rd_range_code :: u8
  rd_auto_range :: nat
  rd_main_display_data :: appadmm_display_data_s
  rd_sub_display_data :: appadmm_display_data_s

text \<open>
  Modelled from the spec: \<^verbatim>\<open>struct appadmm_response_data_read_memory_s\<close> is used by protocol.c
  and packet.h but declared in none of the sources at hand. The decoder assigns
  \<^verbatim>\<open>data_length\<close> and indexes \<^verbatim>\<open>data\<close>; the size of the array is the length of the list,
  so nothing below depends on the declared size.
\<close>

record appadmm_response_data_read_memory_s =
  rm_data :: "u8 list"
  rm_data_length :: nat

text \<open>
  Modelled from the spec: \<^verbatim>\<open>struct appadmm_request_data_read_memory_s\<close> is declared in none of
  the sources at hand. The specification gives the request payload as
  \<open>{device_number: u8, memory_address: u16le, data_length: u8}\<close>, which is also what
  \<^verbatim>\<open>appadmm_enc_read_memory\<close> writes.
\<close>

record appadmm_request_data_read_memory_s =
  rq_device_number :: u8
  rq_memory_address :: "16 word"
  rq_data_length :: u8

text \<open>
  Modelled from the spec: \<^verbatim>\<open>struct appadmm_storage_info_s\<close> is declared in none of the sources
  at hand; the specification lists the fields
  \<open>{rate, amount, entry_size, entry_count, mem_offset, mem_count}\<close>. They are C \<^verbatim>\<open>int\<close>s in
  the arithmetic of \<^verbatim>\<open>appadmm_enc_read_storage\<close>; the model computes in unbounded integers
  (signed overflow is undefined in C and out of reach for storage layouts).
\<close>

record appadmm_storage_info_s =
  si_rate :: int
  si_amount :: int
  si_entry_size :: int
  si_entry_count :: int
  si_mem_offset :: int
  si_mem_count :: int

text \<open>
  Modelled from the spec: \<^verbatim>\<open>enum appadmm_channel_e\<close> is declared in none of the sources at
  hand; these are the four values \<^verbatim>\<open>appadmm_transform_display_data\<close> switches over (the
  specification calls the roles Primary, Secondary and SampleIndex).
\<close>

datatype appadmm_channel_e =
  APPADMM_CHANNEL_INVALID | APPADMM_CHANNEL_SAMPLE_ID | APPADMM_CHANNEL_MAIN | APPADMM_CHANNEL_SUB

text \<open>
  The sigrok analog packet fields the interpreter sets (libsigrok.h). \<open>SR_MQ_NONE\<close> and
  \<open>SR_UNIT_NONE\<close> stand for the value 0 that \<^verbatim>\<open>sr_analog_init\<close> leaves in \<^verbatim>\<open>mq\<close> and
  \<^verbatim>\<open>unit\<close>.
\<close>

datatype sr_mq =
  SR_MQ_NONE | SR_MQ_VOLTAGE | SR_MQ_CURRENT | SR_MQ_RESISTANCE | SR_MQ_CAPACITANCE
  | SR_MQ_TEMPERATURE | SR_MQ_FREQUENCY | SR_MQ_POWER | SR_MQ_CONTINUITY | SR_MQ_TIME
  | SR_MQ_DIFFERENCE | SR_MQ_COUNT | SR_MQ_POWER_FACTOR

datatype sr_unit =
  SR_UNIT_NONE | SR_UNIT_VOLT | SR_UNIT_AMPERE | SR_UNIT_OHM | SR_UNIT_FARAD
  | SR_UNIT_CELSIUS | SR_UNIT_FAHRENHEIT | SR_UNIT_HERTZ | SR_UNIT_PERCENTAGE
  | SR_UNIT_SECOND | SR_UNIT_DECIBEL_MW | SR_UNIT_DECIBEL_VOLT | SR_UNIT_UNITLESS
  | SR_UNIT_WATT

datatype sr_mqflag =
  SR_MQFLAG_AC | SR_MQFLAG_DC | SR_MQFLAG_RMS | SR_MQFLAG_DIODE | SR_MQFLAG_HOLD
  | SR_MQFLAG_MAX | SR_MQFLAG_MIN | SR_MQFLAG_AUTORANGE | SR_MQFLAG_RELATIVE
  | SR_MQFLAG_AVG | SR_MQFLAG_REFERENCE

text \<open>
  The interpreter computes in C \<^verbatim>\<open>double\<close> and stores the result in a \<^verbatim>\<open>float\<close>. A finite
  value of either type is the real number it denotes. Every operation returns the exact
  result rounded to the nearest value of its format, ties to the even significand: IEEE 754
  binary64 for \<^verbatim>\<open>double\<close> (53 significant bits, smallest normal exponent -1022) and
  binary32 for \<^verbatim>\<open>float\<close> (24 bits, -126), every \<^verbatim>\<open>double\<close> operation rounded to
  \<^verbatim>\<open>double\<close> (\<^verbatim>\<open>FLT_EVAL_METHOD\<close> 0, as on x86-64 and AArch64). Below the smallest
  normal exponent the spacing of the values stays that of the lowest binade (gradual
  underflow). The magnitudes the interpreter produces from an \<^verbatim>\<open>int32_t\<close> reading stay
  below \<open>2^62\<close>, far inside both formats (lemma \<open>interpreter_values_in_range\<close>), and the
  sample counter is an integer of the machine, so no operation overflows and the upper end
  of the exponent range is not part of the model.

  \<open>round_ties_even\<close> is the nearest integer, the even one of two equally near; \<open>binade\<close> is
  the exponent \<open>e\<close> with \<open>2^e \<le> |x| < 2^(e+1)\<close>, computed from the bit length of an integer
  so that it can be evaluated.
\<close>

definition round_ties_even :: "real \<Rightarrow> int" where
  "round_ties_even y =
     (let f = \<lfloor>y\<rfloor> in
        if y - of_int f < 1 / 2 then f
        else if 1 / 2 < y - of_int f then f + 1
        else if even f then f else f + 1)"

definition binade :: "real \<Rightarrow> int" where
  "binade x =
     (if 1 \<le> \<bar>x\<bar> then bitlen \<lfloor>\<bar>x\<bar>\<rfloor> - 1
      else - bitlen (\<lceil>1 / \<bar>x\<bar>\<rceil> - 1))"

definition ieee_round :: "nat \<Rightarrow> int \<Rightarrow> real \<Rightarrow> real" where
  "ieee_round p emin x =
     (if x = 0 then 0
      else let e = max (binade x) emin;
               q = 2 powi (e - int p + 1)
           in of_int (round_ties_even (x / q)) * q)"

definition round_double :: "real \<Rightarrow> real" where
  "round_double x = ieee_round 53 (- 1022) x"

definition round_float :: "real \<Rightarrow> real" where
  "round_float x = ieee_round 24 (- 126) x"

text \<open>
  A \<^verbatim>\<open>float\<close> as the interpreter hands it to the session: a finite value, or
  \<^verbatim>\<open>INFINITY\<close> as a value of its own.
\<close>

datatype sr_float = Finite real | INFINITY

text \<open>The messages \<^verbatim>\<open>sr_err\<close> and \<^verbatim>\<open>sr_warn\<close> print for a word code, by kind; the
  argument is the word code whose name is printed.\<close>

datatype wordcode_message =
  MSG_ERROR int | MSG_MESSAGE int | MSG_MESSAGE_DEGC int | MSG_MESSAGE_DEGF int

text \<open>The locals of \<^verbatim>\<open>appadmm_transform_display_data\<close> that the switches update.\<close>

record transform_state =
  st_mq :: sr_mq
  st_unit :: sr_unit
  st_mqflags :: "sr_mqflag set"
  st_digits :: int
  st_unit_factor :: real

text \<open>What \<^verbatim>\<open>appadmm_transform_display_data\<close> leaves in \<^verbatim>\<open>analog\<close> and \<^verbatim>\<open>val\<close>, and the
  message it printed.\<close>

record transform_result =
  tr_mq :: sr_mq
  tr_unit :: sr_unit
  tr_mqflags :: "sr_mqflag set"
  tr_digits :: int
  tr_val :: sr_float
  tr_message :: "wordcode_message option"

subsection \<open>Frame catalog (protocol.c)\<close>

text \<open>
  \<^verbatim>\<open>appadmm_get_response_size\<close>: the \<^verbatim>\<open>switch\<close> over the command, in the order of the source.
  The commands that are answered with \<^verbatim>\<open>SUCCESS\<close> or \<^verbatim>\<open>FAILURE\<close> fall through to the
  default.
\<close>

definition appadmm_get_response_size :: "int \<Rightarrow> sr_error + int" where
  "appadmm_get_response_size arg_command =
     (if arg_command = APPADMM_COMMAND_READ_INFORMATION
        then Inr APPADMM_FRAME_DATA_SIZE_RESPONSE_READ_INFORMATION
      else if arg_command = APPADMM_COMMAND_READ_DISPLAY
        then Inr APPADMM_FRAME_DATA_SIZE_RESPONSE_READ_DISPLAY
      else if arg_command = APPADMM_COMMAND_READ_PROTOCOL_VERSION
        then Inr APPADMM_FRAME_DATA_SIZE_RESPONSE_READ_PROTOCOL_VERSION
      else if arg_command = APPADMM_COMMAND_READ_BATTERY_LIFE
        then Inr APPADMM_FRAME_DATA_SIZE_RESPONSE_READ_BATTERY_LIFE
      else if arg_command = APPADMM_COMMAND_CAL_READING
        then Inr APPADMM_FRAME_DATA_SIZE_RESPONSE_CAL_READING
      else if arg_command = APPADMM_COMMAND_READ_MEMORY
        then Inr APPADMM_FRAME_DATA_SIZE_RESPONSE_READ_MEMORY
      else if arg_command = APPADMM_COMMAND_READ_HARMONICS_DATA
        then Inr APPADMM_FRAME_DATA_SIZE_RESPONSE_READ_HARMONICS_DATA
      else if arg_command = APPADMM_COMMAND_FAILURE
        then Inr APPADMM_FRAME_DATA_SIZE_RESPONSE_FAILURE
      else if arg_command = APPADMM_COMMAND_SUCCESS
        then Inr APPADMM_FRAME_DATA_SIZE_RESPONSE_SUCCESS
      else if arg_command \<in> {APPADMM_COMMAND_WRITE_UART_CONFIGURATION,
             APPADMM_COMMAND_CAL_ENTER, APPADMM_COMMAND_CAL_WRITE_FUNCTION_CODE,
             APPADMM_COMMAND_CAL_WRITE_RANGE_CODE, APPADMM_COMMAND_CAL_WRITE_MEMORY,
             APPADMM_COMMAND_CAL_EXIT, APPADMM_COMMAND_OTA_ENTER,
             APPADMM_COMMAND_OTA_SEND_INFORMATION, APPADMM_COMMAND_OTA_SEND_FIRMWARE_PACKAGE,
             APPADMM_COMMAND_OTA_START_UPGRADE_PROCEDURE}
        then Inl SR_ERR_DATA
      else Inl SR_ERR_DATA)"

text \<open>\<^verbatim>\<open>appadmm_is_response_size_valid\<close>; \<open>Inr ()\<close> is \<^verbatim>\<open>SR_OK\<close>.\<close>

definition appadmm_is_response_size_valid :: "int \<Rightarrow> int \<Rightarrow> sr_error + unit" where
  "appadmm_is_response_size_valid arg_command arg_size =
     (case appadmm_get_response_size arg_command of
        Inl e \<Rightarrow> Inl e
      | Inr size' \<Rightarrow>
          if arg_command = APPADMM_COMMAND_READ_MEMORY \<and> arg_size \<le> size' then Inr ()
          else if size' = arg_size then Inr ()
          else Inl SR_ERR_DATA)"

subsection \<open>Decoders (protocol.c)\<close>

text \<open>
  Modelled from the spec: \<^verbatim>\<open>read_u8_inc\<close> and \<^verbatim>\<open>read_i24le_inc\<close> come from
  libsigrok-internal.h, which is not among the sources at hand. By the specification they
  advance a cursor over a byte slice and return the value, little-endian, sign-extending
  the 24-bit value from bit 23: the three bytes form a 24-bit word that is read as two's
  complement. The cursor is the list of the bytes still ahead.
\<close>

definition read_u8_inc :: "u8 list \<Rightarrow> u8 \<times> u8 list" where
  "read_u8_inc rdptr = (rdptr ! 0, drop 1 rdptr)"

definition read_i24le_inc :: "u8 list \<Rightarrow> int \<times> u8 list" where
  "read_i24le_inc rdptr =
     (sint (ucast (rdptr ! 0) OR push_bit 8 (ucast (rdptr ! 1))
            OR push_bit 16 (ucast (rdptr ! 2)) :: 24 word),
      drop 3 rdptr)"

text \<open>
  \<^verbatim>\<open>appadmm_dec_read_display\<close>. On success every field of the output record is assigned,
  so the result does not depend on what the record held before; on an error the source
  returns before the first assignment.
\<close>

definition appadmm_dec_read_display ::
  "sr_tp_appa_packet \<Rightarrow> sr_error + appadmm_response_data_read_display_s" where
  "appadmm_dec_read_display arg_packet =
     (if uint (pkt_command arg_packet) \<noteq> APPADMM_COMMAND_READ_DISPLAY then Inl SR_ERR_DATA
      else if appadmm_is_response_size_valid APPADMM_COMMAND_READ_DISPLAY
                (uint (pkt_length arg_packet)) \<noteq> Inr ()
        then Inl SR_ERR_DATA
      else
        let rdptr = pkt_data arg_packet;
            (u8, rdptr) = read_u8_inc rdptr;
            function_code = unat (u8 AND 0x7f);
            auto_test = unat (drop_bit 7 u8);
            (u8, rdptr) = read_u8_inc rdptr;
            range_code = u8 AND 0x7f;
            auto_range = unat (drop_bit 7 u8);
            (main_reading, rdptr) = read_i24le_inc rdptr;
            (u8, rdptr) = read_u8_inc rdptr;
            main_dot = unat (u8 AND 0x7);
            main_unit = unat (drop_bit 3 u8);
            (u8, rdptr) = read_u8_inc rdptr;
            main_data_content = unat (u8 AND 0x7f);
            main_overload = unat (drop_bit 7 u8);
            (sub_reading, rdptr) = read_i24le_inc rdptr;
            (u8, rdptr) = read_u8_inc rdptr;
            sub_dot = unat (u8 AND 0x7);
            sub_unit = unat (drop_bit 3 u8);
            (u8, rdptr) = read_u8_inc rdptr;
            sub_data_content = unat (u8 AND 0x7f);
            sub_overload = unat (drop_bit 7 u8)
        in Inr \<lparr>rd_function_code = function_code, rd_auto_test = auto_test,
                 rd_range_code = range_code, rd_auto_range = auto_range,
                 rd_main_display_data =
                   \<lparr>dd_reading = main_reading, dd_dot = main_dot, dd_unit = main_unit,
                    dd_data_content = main_data_content, dd_overload = main_overload\<rparr>,
                 rd_sub_display_data =
                   \<lparr>dd_reading = sub_reading, dd_dot = sub_dot, dd_unit = sub_unit,
                    dd_data_content = sub_data_content, dd_overload = sub_overload\<rparr>\<rparr>)"

text \<open>
  The copy loop of \<^verbatim>\<open>appadmm_dec_read_memory\<close>,
  \<^verbatim>\<open>for (xloop = 0; xloop < arg_packet->length; xloop++) data[xloop] = read_u8_inc(&rdptr);\<close>
  with every array access checked: \<open>None\<close> is an access outside the packet's or the
  record's array.
\<close>

function read_memory_copy :: "u8 list \<Rightarrow> nat \<Rightarrow> nat \<Rightarrow> u8 list \<Rightarrow> u8 list option" where
  "read_memory_copy src len xloop dst =
     (if xloop < len
      then (if xloop < length dst \<and> xloop < length src
            then read_memory_copy src len (xloop + 1) (dst[xloop := src ! xloop])
            else None)
      else Some dst)"
  by pat_completeness auto
termination
  by (relation "measure (\<lambda>(src, len, xloop, dst). len - xloop)") auto

declare read_memory_copy.simps [simp del]

text \<open>
  \<^verbatim>\<open>appadmm_dec_read_memory\<close>. The second argument is the caller's output record, whose
  \<^verbatim>\<open>data\<close> array gives \<^verbatim>\<open>sizeof(arg_read_memory->data)\<close>. The outer \<open>None\<close> is an
  out-of-bounds access of the copy loop.
\<close>

definition appadmm_dec_read_memory ::
  "sr_tp_appa_packet \<Rightarrow> appadmm_response_data_read_memory_s
     \<Rightarrow> (sr_error + appadmm_response_data_read_memory_s) option" where
  "appadmm_dec_read_memory arg_packet arg_read_memory =
     (if uint (pkt_command arg_packet) \<noteq> APPADMM_COMMAND_READ_MEMORY then Some (Inl SR_ERR_DATA)
      else if appadmm_is_response_size_valid APPADMM_COMMAND_READ_MEMORY
                (uint (pkt_length arg_packet)) \<noteq> Inr ()
        then Some (Inl SR_ERR_DATA)
      else if unat (pkt_length arg_packet) > length (rm_data arg_read_memory)
        then Some (Inl SR_ERR_DATA)
      else
        (case read_memory_copy (pkt_data arg_packet) (unat (pkt_length arg_packet)) 0
                (rm_data arg_read_memory) of
           None \<Rightarrow> None
         | Some d \<Rightarrow>
             Some (Inr (arg_read_memory\<lparr>rm_data_length := unat (pkt_length arg_packet),
                                       rm_data := d\<rparr>))))"

subsection \<open>Storage paging (packet.h)\<close>

text \<open>C integer division and remainder truncate towards zero.\<close>

definition c_div :: "int \<Rightarrow> int \<Rightarrow> int" where
  "c_div a b = sgn a * sgn b * (\<bar>a\<bar> div \<bar>b\<bar>)"

definition c_mod :: "int \<Rightarrow> int \<Rightarrow> int" where
  "c_mod a b = a - b * c_div a b"

text \<open>
  \<^verbatim>\<open>while (arg_read_memory->data_length > SR_TP_APPA_MAX_DATA_SIZE)
    arg_read_memory->data_length -= arg_storage_info->entry_size;\<close>
  on the \<^verbatim>\<open>uint8_t\<close> field. The loop need not end (an entry size that is a multiple of
  256 never changes the field), so not returning is the value \<open>None\<close>.
\<close>

partial_function (option) storage_length_loop :: "u8 \<Rightarrow> int \<Rightarrow> u8 option" where
  "storage_length_loop data_length entry_size =
     (if unat data_length > SR_TP_APPA_MAX_DATA_SIZE
      then storage_length_loop (word_of_int (uint data_length - entry_size)) entry_size
      else Some data_length)"

text \<open>
  \<^verbatim>\<open>appadmm_enc_read_storage\<close>. \<open>None\<close> means that the call does not return: a division by
  zero (\<^verbatim>\<open>entry_count\<close> or \<^verbatim>\<open>entry_size\<close> is 0) or the loop above running forever.
\<close>

definition appadmm_enc_read_storage ::
  "appadmm_storage_info_s \<Rightarrow> int \<Rightarrow> int
     \<Rightarrow> (sr_error + appadmm_request_data_read_memory_s) option" where
  "appadmm_enc_read_storage arg_storage_info arg_start_entry arg_entry_count =
     (if arg_start_entry > si_mem_count arg_storage_info * si_entry_count arg_storage_info
        then Some (Inl SR_ERR_ARG)
      else if si_entry_count arg_storage_info = 0 \<or> si_entry_size arg_storage_info = 0
        then None
      else
        let address_position = c_mod arg_start_entry (si_entry_count arg_storage_info);
            arg_entry_count =
              (if arg_entry_count
                    > c_div (int SR_TP_APPA_MAX_DATA_SIZE) (si_entry_size arg_storage_info)
               then c_div (int SR_TP_APPA_MAX_DATA_SIZE) (si_entry_size arg_storage_info)
               else arg_entry_count);
            arg_entry_count =
              (if address_position + arg_entry_count > si_entry_count arg_storage_info
               then si_entry_count arg_storage_info - address_position
               else arg_entry_count);
            device_number =
              (word_of_int (c_div arg_start_entry (si_entry_count arg_storage_info)) :: u8);
            memory_address =
              (word_of_int (si_mem_offset arg_storage_info
                            + address_position * si_entry_size arg_storage_info) :: 16 word);
            data_length =
              (word_of_int (arg_entry_count * si_entry_size arg_storage_info) :: u8)
        in
          (case storage_length_loop data_length (si_entry_size arg_storage_info) of
             None \<Rightarrow> None
           | Some data_length \<Rightarrow>
               if uint device_number > si_mem_count arg_storage_info then Some (Inl SR_ERR_BUG)
               else Some (Inr \<lparr>rq_device_number = device_number,
                               rq_memory_address = memory_address,
                               rq_data_length = 64\<rparr>)))"

subsection \<open>Display interpreter (protocol.c)\<close>

definition appadmm_is_wordcode :: "int \<Rightarrow> bool" where
  "appadmm_is_wordcode arg_wordcode = (arg_wordcode \<ge> APPADMM_WORDCODE_TABLE_MIN)"

definition appadmm_is_wordcode_dash :: "int \<Rightarrow> bool" where
  "appadmm_is_wordcode_dash arg_wordcode =
     (arg_wordcode = APPADMM_WORDCODE_DASH
      \<or> arg_wordcode = APPADMM_WORDCODE_DASH1
      \<or> arg_wordcode = APPADMM_WORDCODE_DASH2)"

text \<open>\<^verbatim>\<open>switch (display_data->dot)\<close>: sets \<^verbatim>\<open>digits\<close>, divides \<^verbatim>\<open>unit_factor\<close>.\<close>

definition transform_dot :: "nat \<Rightarrow> transform_state \<Rightarrow> transform_state" where
  "transform_dot dot s =
     (if dot = APPADMM_DOT_9999_9
        then s\<lparr>st_digits := 1, st_unit_factor := round_double (st_unit_factor s / 10)\<rparr>
      else if dot = APPADMM_DOT_999_99
        then s\<lparr>st_digits := 2, st_unit_factor := round_double (st_unit_factor s / 100)\<rparr>
      else if dot = APPADMM_DOT_99_999
        then s\<lparr>st_digits := 3, st_unit_factor := round_double (st_unit_factor s / 1000)\<rparr>
      else if dot = APPADMM_DOT_9_9999
        then s\<lparr>st_digits := 4, st_unit_factor := round_double (st_unit_factor s / 10000)\<rparr>
      else s\<lparr>st_digits := 0, st_unit_factor := round_double (st_unit_factor s / 1)\<rparr>)"

text \<open>\<^verbatim>\<open>switch (display_data->data_content)\<close>: measurement flags by channel.\<close>

definition transform_data_content ::
  "appadmm_channel_e \<Rightarrow> nat \<Rightarrow> transform_state \<Rightarrow> transform_state" where
  "transform_data_content arg_channel data_content s =
     (if data_content = APPADMM_DATA_CONTENT_MAXIMUM
        then s\<lparr>st_mqflags := insert SR_MQFLAG_MAX (st_mqflags s)\<rparr>
      else if data_content = APPADMM_DATA_CONTENT_MINIMUM
        then s\<lparr>st_mqflags := insert SR_MQFLAG_MIN (st_mqflags s)\<rparr>
      else if data_content = APPADMM_DATA_CONTENT_AVERAGE
        then s\<lparr>st_mqflags := insert SR_MQFLAG_AVG (st_mqflags s)\<rparr>
      else if data_content = APPADMM_DATA_CONTENT_PEAK_HOLD_MAX
        then s\<lparr>st_mqflags :=
                 (if arg_channel = APPADMM_CHANNEL_SUB
                  then insert SR_MQFLAG_HOLD (insert SR_MQFLAG_MAX (st_mqflags s))
                  else insert SR_MQFLAG_MAX (st_mqflags s))\<rparr>
      else if data_content = APPADMM_DATA_CONTENT_PEAK_HOLD_MIN
        then s\<lparr>st_mqflags :=
                 (if arg_channel = APPADMM_CHANNEL_SUB
                  then insert SR_MQFLAG_HOLD (insert SR_MQFLAG_MIN (st_mqflags s))
                  else insert SR_MQFLAG_MIN (st_mqflags s))\<rparr>
      else if data_content = APPADMM_DATA_CONTENT_AUTO_HOLD
        then s\<lparr>st_mqflags :=
                 (if arg_channel = APPADMM_CHANNEL_SUB
                  then insert SR_MQFLAG_HOLD (st_mqflags s) else st_mqflags s)\<rparr>
      else if data_content = APPADMM_DATA_CONTENT_HOLD
        then s\<lparr>st_mqflags :=
                 (if arg_channel = APPADMM_CHANNEL_SUB
                  then insert SR_MQFLAG_HOLD (st_mqflags s) else st_mqflags s)\<rparr>
      else if data_content = APPADMM_DATA_CONTENT_REL_DELTA
              \<or> data_content = APPADMM_DATA_CONTENT_REL_PERCENT
        then s\<lparr>st_mqflags :=
                 (if arg_channel \<noteq> APPADMM_CHANNEL_SUB
                  then insert SR_MQFLAG_RELATIVE (st_mqflags s)
                  else insert SR_MQFLAG_REFERENCE (st_mqflags s))\<rparr>
      else s)"

text \<open>\<^verbatim>\<open>switch (display_data->unit)\<close>: sigrok unit and quantity, scale and digits.\<close>

definition transform_unit :: "nat \<Rightarrow> transform_state \<Rightarrow> transform_state" where
  "transform_unit unit s =
     (if unit = APPADMM_UNIT_MV
        then s\<lparr>st_unit := SR_UNIT_VOLT, st_mq := SR_MQ_VOLTAGE,
               st_unit_factor := round_double (st_unit_factor s / 1000),
               st_digits := st_digits s + 3\<rparr>
      else if unit = APPADMM_UNIT_V
        then s\<lparr>st_unit := SR_UNIT_VOLT, st_mq := SR_MQ_VOLTAGE\<rparr>
      else if unit = APPADMM_UNIT_UA
        then s\<lparr>st_unit := SR_UNIT_AMPERE, st_mq := SR_MQ_CURRENT,
               st_unit_factor := round_double (st_unit_factor s / 1000000),
               st_digits := st_digits s + 6\<rparr>
      else if unit = APPADMM_UNIT_MA
        then s\<lparr>st_unit := SR_UNIT_AMPERE, st_mq := SR_MQ_CURRENT,
               st_unit_factor := round_double (st_unit_factor s / 1000),
               st_digits := st_digits s + 3\<rparr>
      else if unit = APPADMM_UNIT_A
        then s\<lparr>st_unit := SR_UNIT_AMPERE, st_mq := SR_MQ_CURRENT\<rparr>
      else if unit = APPADMM_UNIT_DB
        then s\<lparr>st_unit := SR_UNIT_DECIBEL_VOLT, st_mq := SR_MQ_POWER\<rparr>
      else if unit = APPADMM_UNIT_DBM
        then s\<lparr>st_unit := SR_UNIT_DECIBEL_MW, st_mq := SR_MQ_POWER\<rparr>
      else if unit = APPADMM_UNIT_NF
        then s\<lparr>st_unit := SR_UNIT_FARAD, st_mq := SR_MQ_CAPACITANCE,
               st_unit_factor := round_double (st_unit_factor s / 1000000000),
               st_digits := st_digits s + 9\<rparr>
      else if unit = APPADMM_UNIT_UF
        then s\<lparr>st_unit := SR_UNIT_FARAD, st_mq := SR_MQ_CAPACITANCE,
               st_unit_factor := round_double (st_unit_factor s / 1000000),
               st_digits := st_digits s + 6\<rparr>
      else if unit = APPADMM_UNIT_MF
        then s\<lparr>st_unit := SR_UNIT_FARAD, st_mq := SR_MQ_CAPACITANCE,
               st_unit_factor := round_double (st_unit_factor s / 1000),
               st_digits := st_digits s + 3\<rparr>
      else if unit = APPADMM_UNIT_GOHM
        then s\<lparr>st_unit := SR_UNIT_OHM, st_mq := SR_MQ_RESISTANCE,
               st_unit_factor := round_double (st_unit_factor s * 1000000000),
               st_digits := st_digits s - 9\<rparr>
      else if unit = APPADMM_UNIT_MOHM
        then s\<lparr>st_unit := SR_UNIT_OHM, st_mq := SR_MQ_RESISTANCE,
               st_unit_factor := round_double (st_unit_factor s * 1000000),
               st_digits := st_digits s - 6\<rparr>
      else if unit = APPADMM_UNIT_KOHM
        then s\<lparr>st_unit := SR_UNIT_OHM, st_mq := SR_MQ_RESISTANCE,
               st_unit_factor := round_double (st_unit_factor s * 1000),
               st_digits := st_digits s - 3\<rparr>
      else if unit = APPADMM_UNIT_OHM
        then s\<lparr>st_unit := SR_UNIT_OHM, st_mq := SR_MQ_RESISTANCE\<rparr>
      else if unit = APPADMM_UNIT_PERCENT
        then s\<lparr>st_unit := SR_UNIT_PERCENTAGE, st_mq := SR_MQ_DIFFERENCE\<rparr>
      else if unit = APPADMM_UNIT_MHZ
        then s\<lparr>st_unit := SR_UNIT_HERTZ, st_mq := SR_MQ_FREQUENCY,
               st_unit_factor := round_double (st_unit_factor s * 1000000),
               st_digits := st_digits s - 6\<rparr>
      else if unit = APPADMM_UNIT_KHZ
        then s\<lparr>st_unit := SR_UNIT_HERTZ, st_mq := SR_MQ_FREQUENCY,
               st_unit_factor := round_double (st_unit_factor s * 1000),
               st_digits := st_digits s - 3\<rparr>
      else if unit = APPADMM_UNIT_HZ
        then s\<lparr>st_unit := SR_UNIT_HERTZ, st_mq := SR_MQ_FREQUENCY\<rparr>
      else if unit = APPADMM_UNIT_DEGC
        then s\<lparr>st_unit := SR_UNIT_CELSIUS, st_mq := SR_MQ_TEMPERATURE\<rparr>
      else if unit = APPADMM_UNIT_DEGF
        then s\<lparr>st_unit := SR_UNIT_FAHRENHEIT, st_mq := SR_MQ_TEMPERATURE\<rparr>
      else if unit = APPADMM_UNIT_NS
        then s\<lparr>st_unit := SR_UNIT_SECOND, st_mq := SR_MQ_TIME,
               st_unit_factor := round_double (st_unit_factor s / 1000000000),
               st_digits := st_digits s + 9\<rparr>
      else if unit = APPADMM_UNIT_US
        then s\<lparr>st_unit := SR_UNIT_SECOND, st_mq := SR_MQ_TIME,
               st_unit_factor := round_double (st_unit_factor s / 1000000),
               st_digits := st_digits s + 6\<rparr>
      else if unit = APPADMM_UNIT_MS
        then s\<lparr>st_unit := SR_UNIT_SECOND, st_mq := SR_MQ_TIME,
               st_unit_factor := round_double (st_unit_factor s / 1000),
               st_digits := st_digits s + 3\<rparr>
      else if unit = APPADMM_UNIT_SEC
        then s\<lparr>st_unit := SR_UNIT_SECOND, st_mq := SR_MQ_TIME\<rparr>
      else if unit = APPADMM_UNIT_MIN
        then s\<lparr>st_unit := SR_UNIT_SECOND, st_mq := SR_MQ_TIME,
               st_unit_factor := round_double (st_unit_factor s * 60)\<rparr>
      else if unit = APPADMM_UNIT_KW
        then s\<lparr>st_unit := SR_UNIT_WATT, st_mq := SR_MQ_POWER,
               st_unit_factor := round_double (st_unit_factor s * 1000),
               st_digits := st_digits s - 3\<rparr>
      else if unit = APPADMM_UNIT_PF
        then s\<lparr>st_unit := SR_UNIT_UNITLESS, st_mq := SR_MQ_POWER_FACTOR\<rparr>
      else s\<lparr>st_unit := SR_UNIT_UNITLESS\<rparr>)"

text \<open>\<^verbatim>\<open>switch (arg_data->function_code)\<close>: AC, DC, RMS, diode and continuity.\<close>

definition transform_function_code :: "nat \<Rightarrow> transform_state \<Rightarrow> transform_state" where
  "transform_function_code function_code s =
     (if function_code \<in> {APPADMM_FUNCTIONCODE_PEAK_HOLD_UA, APPADMM_FUNCTIONCODE_AC_UA,
           APPADMM_FUNCTIONCODE_AC_MV, APPADMM_FUNCTIONCODE_AC_MA,
           APPADMM_FUNCTIONCODE_LPF_MV, APPADMM_FUNCTIONCODE_LPF_MA,
           APPADMM_FUNCTIONCODE_AC_V, APPADMM_FUNCTIONCODE_AC_A,
           APPADMM_FUNCTIONCODE_LPF_V, APPADMM_FUNCTIONCODE_LPF_A,
           APPADMM_FUNCTIONCODE_LOZ_AC_V, APPADMM_FUNCTIONCODE_AC_W,
           APPADMM_FUNCTIONCODE_LOZ_LPF_V, APPADMM_FUNCTIONCODE_V_HARM,
           APPADMM_FUNCTIONCODE_INRUSH, APPADMM_FUNCTIONCODE_A_HARM,
           APPADMM_FUNCTIONCODE_FLEX_INRUSH, APPADMM_FUNCTIONCODE_FLEX_A_HARM,
           APPADMM_FUNCTIONCODE_AC_UA_HFR, APPADMM_FUNCTIONCODE_AC_A_HFR,
           APPADMM_FUNCTIONCODE_AC_MA_HFR, APPADMM_FUNCTIONCODE_AC_UA_HFR2,
           APPADMM_FUNCTIONCODE_AC_V_HFR, APPADMM_FUNCTIONCODE_AC_MV_HFR,
           APPADMM_FUNCTIONCODE_AC_V_PV, APPADMM_FUNCTIONCODE_AC_V_PV_HFR}
        then (if st_unit s = SR_UNIT_AMPERE \<or> st_unit s = SR_UNIT_VOLT
                 \<or> st_unit s = SR_UNIT_WATT
              then s\<lparr>st_mqflags :=
                       insert SR_MQFLAG_RMS (insert SR_MQFLAG_AC (st_mqflags s))\<rparr>
              else s)
      else if function_code \<in> {APPADMM_FUNCTIONCODE_DC_UA, APPADMM_FUNCTIONCODE_DC_MV,
           APPADMM_FUNCTIONCODE_DC_MA, APPADMM_FUNCTIONCODE_DC_V,
           APPADMM_FUNCTIONCODE_DC_A, APPADMM_FUNCTIONCODE_DC_A_OUT,
           APPADMM_FUNCTIONCODE_DC_A_OUT_SLOW_LINEAR,
           APPADMM_FUNCTIONCODE_DC_A_OUT_FAST_LINEAR,
           APPADMM_FUNCTIONCODE_DC_A_OUT_SLOW_STEP,
           APPADMM_FUNCTIONCODE_DC_A_OUT_FAST_STEP,
           APPADMM_FUNCTIONCODE_LOOP_POWER, APPADMM_FUNCTIONCODE_LOZ_DC_V,
           APPADMM_FUNCTIONCODE_DC_W, APPADMM_FUNCTIONCODE_FLEX_AC_A,
           APPADMM_FUNCTIONCODE_FLEX_LPF_A, APPADMM_FUNCTIONCODE_FLEX_PEAK_HOLD_A,
           APPADMM_FUNCTIONCODE_DC_V_PV}
        then s\<lparr>st_mqflags := insert SR_MQFLAG_DC (st_mqflags s)\<rparr>
      else if function_code = APPADMM_FUNCTIONCODE_CONTINUITY
        then s\<lparr>st_mq := SR_MQ_CONTINUITY\<rparr>
      else if function_code = APPADMM_FUNCTIONCODE_DIODE
        then s\<lparr>st_mqflags := insert SR_MQFLAG_DC (insert SR_MQFLAG_DIODE (st_mqflags s))\<rparr>
      else if function_code \<in> {APPADMM_FUNCTIONCODE_AC_DC_MV, APPADMM_FUNCTIONCODE_AC_DC_MA,
           APPADMM_FUNCTIONCODE_AC_DC_V, APPADMM_FUNCTIONCODE_AC_DC_A,
           APPADMM_FUNCTIONCODE_VOLT_SENSE, APPADMM_FUNCTIONCODE_LOZ_AC_DC_V,
           APPADMM_FUNCTIONCODE_AC_DC_V_PV}
        then (if st_unit s = SR_UNIT_AMPERE \<or> st_unit s = SR_UNIT_VOLT
                 \<or> st_unit s = SR_UNIT_WATT
              then s\<lparr>st_mqflags :=
                       insert SR_MQFLAG_RMS (insert SR_MQFLAG_DC
                         (insert SR_MQFLAG_AC (st_mqflags s)))\<rparr>
              else s)
      else s)"

text \<open>
  The word-code arm: \<^verbatim>\<open>switch (display_data->reading)\<close>, which only prints. The
  \<^verbatim>\<open>default\<close> label stands before \<^verbatim>\<open>APPADMM_WORDCODE_DEF\<close> in the source; the order of
  labels does not matter in a C \<^verbatim>\<open>switch\<close>.
\<close>

definition transform_wordcode :: "appadmm_display_data_s \<Rightarrow> wordcode_message option" where
  "transform_wordcode display_data =
     (if dd_reading display_data \<in> {APPADMM_WORDCODE_BATT, APPADMM_WORDCODE_HAZ,
           APPADMM_WORDCODE_FUSE, APPADMM_WORDCODE_PROBE, APPADMM_WORDCODE_ER,
           APPADMM_WORDCODE_ER1, APPADMM_WORDCODE_ER2, APPADMM_WORDCODE_ER3}
        then Some (MSG_ERROR (dd_reading display_data))
      else if dd_reading display_data \<in> {APPADMM_WORDCODE_SPACE, APPADMM_WORDCODE_DASH,
           APPADMM_WORDCODE_DASH1, APPADMM_WORDCODE_DASH2}
        then None
      else if dd_reading display_data = APPADMM_WORDCODE_DEF
        then (if dd_unit display_data = APPADMM_UNIT_DEGC
                then Some (MSG_MESSAGE_DEGC (dd_reading display_data))
              else if dd_unit display_data = APPADMM_UNIT_DEGF
                then Some (MSG_MESSAGE_DEGF (dd_reading display_data))
              else Some (MSG_MESSAGE (dd_reading display_data)))
      else Some (MSG_MESSAGE (dd_reading display_data)))"

text \<open>
  \<^verbatim>\<open>appadmm_transform_display_data\<close> up to the point where the packet is handed to the
  session. The first argument is \<^verbatim>\<open>devc->sample_id\<close>. The pointer checks and the status
  of \<^verbatim>\<open>sr_analog_init\<close> belong to the caller's side and are not modelled.
  \<^verbatim>\<open>display_reading_value = (float) display_data->reading\<close> rounds the integer to
  \<^verbatim>\<open>float\<close> and widens it to \<^verbatim>\<open>double\<close> unchanged; \<^verbatim>\<open>display_reading_value *= unit_factor\<close>
  is a \<^verbatim>\<open>double\<close> multiplication; \<^verbatim>\<open>val = display_reading_value\<close> narrows the
  \<^verbatim>\<open>double\<close> to the \<^verbatim>\<open>float\<close> \<^verbatim>\<open>val\<close>, and \<^verbatim>\<open>val = (float) devc->sample_id\<close> rounds
  the counter to \<^verbatim>\<open>float\<close>.
\<close>

definition appadmm_transform_display_data ::
  "int \<Rightarrow> appadmm_channel_e \<Rightarrow> appadmm_response_data_read_display_s
     \<Rightarrow> sr_error + transform_result" where
  "appadmm_transform_display_data sample_id arg_channel arg_data =
     (case arg_channel of
        APPADMM_CHANNEL_INVALID \<Rightarrow> Inl SR_ERR_BUG
      | APPADMM_CHANNEL_SAMPLE_ID \<Rightarrow>
          Inr \<lparr>tr_mq = SR_MQ_COUNT, tr_unit = SR_UNIT_UNITLESS, tr_mqflags = {},
               tr_digits = 0, tr_val = Finite (round_float (of_int sample_id)),
               tr_message = None\<rparr>
      | _ \<Rightarrow>
          let display_data =
                (if arg_channel = APPADMM_CHANNEL_MAIN then rd_main_display_data arg_data
                 else rd_sub_display_data arg_data);
              s = \<lparr>st_mq = SR_MQ_NONE, st_unit = SR_UNIT_NONE, st_mqflags = {},
                   st_digits = 0, st_unit_factor = 1\<rparr>;
              display_reading_value = round_float (of_int (dd_reading display_data));
              is_dash = appadmm_is_wordcode_dash (dd_reading display_data)
          in
            if \<not> appadmm_is_wordcode (dd_reading display_data) \<or> is_dash
            then
              let s = transform_dot (dd_dot display_data) s;
                  s = transform_data_content arg_channel (dd_data_content display_data) s;
                  s = (if rd_auto_range arg_data = APPADMM_AUTO_RANGE
                       then s\<lparr>st_mqflags := insert SR_MQFLAG_AUTORANGE (st_mqflags s)\<rparr>
                       else s);
                  s = transform_unit (dd_unit display_data) s;
                  s = transform_function_code (rd_function_code arg_data) s;
                  display_reading_value =
                    round_double (display_reading_value * st_unit_factor s)
              in Inr \<lparr>tr_mq = st_mq s, tr_unit = st_unit s, tr_mqflags = st_mqflags s,
                      tr_digits = st_digits s,
                      tr_val = (if dd_overload display_data = APPADMM_OVERLOAD \<or> is_dash
                                then INFINITY
                                else Finite (round_float display_reading_value)),
                      tr_message = None\<rparr>
            else
              Inr \<lparr>tr_mq = st_mq s, tr_unit = st_unit s, tr_mqflags = st_mqflags s,
                   tr_digits = 0, tr_val = INFINITY,
                   tr_message = transform_wordcode display_data\<rparr>)"

text \<open>
  The tail of the function: \<^verbatim>\<open>if (analog.meaning->mq != 0) ... sr_session_send(...)\<close>. The
  value emitted to the session is \<^verbatim>\<open>val\<close>, and only when a quantity was assigned.
\<close>

definition session_send_value :: "transform_result \<Rightarrow> sr_float option" where
  "session_send_value r = (if tr_mq r \<noteq> SR_MQ_NONE then Some (tr_val r) else None)"

subsection \<open>The receiver of the serial driver (appadmm_receive)\<close>

definition APPADMM_FRAME_HEADER_SIZE :: nat where
  "APPADMM_FRAME_HEADER_SIZE = 4"

definition APPADMM_FRAME_CHECKSUM_SIZE :: nat where
  "APPADMM_FRAME_CHECKSUM_SIZE = 1"

definition APPADMM_FRAME_MAX_DATA_SIZE :: nat where
  "APPADMM_FRAME_MAX_DATA_SIZE = 64"

definition APPADMM_FRAME_MAX_SIZE :: nat where
  "APPADMM_FRAME_MAX_SIZE =
     APPADMM_FRAME_MAX_DATA_SIZE + APPADMM_FRAME_HEADER_SIZE + APPADMM_FRAME_CHECKSUM_SIZE"

definition APPADMM_FRAME_START_VALUE_BYTE :: u8 where
  "APPADMM_FRAME_START_VALUE_BYTE = 0x55"

text \<open>
  The part of \<^verbatim>\<open>struct appadmm_context\<close> that the receiver works on:
  \<^verbatim>\<open>uint8_t recv_buffer[APPADMM_FRAME_MAX_SIZE]\<close> and \<^verbatim>\<open>uint8_t recv_buffer_len\<close>.
\<close>

record appadmm_context =
  recv_buffer :: "u8 list"
  recv_buffer_len :: u8

text \<open>\<^verbatim>\<open>appadmm_receive_buffer_reset\<close>.\<close>

definition appadmm_receive_buffer_reset :: "appadmm_context \<Rightarrow> appadmm_context" where
  "appadmm_receive_buffer_reset arg_devc =
     arg_devc\<lparr>recv_buffer_len := 0,
              recv_buffer := (recv_buffer arg_devc)[0 := 0, 1 := 0, 2 := 0, 3 := 0]\<rparr>"

text \<open>
  \<^verbatim>\<open>appadmm_frame_response_size\<close> and \<^verbatim>\<open>appadmm_is_response_frame_data_size_valid\<close> are,
  statement for statement, the catalog functions \<^verbatim>\<open>appadmm_get_response_size\<close> and
  \<^verbatim>\<open>appadmm_is_response_size_valid\<close> of protocol.c under their names in this driver.
\<close>

definition appadmm_frame_response_size :: "int \<Rightarrow> sr_error + int" where
  "appadmm_frame_response_size arg_command = appadmm_get_response_size arg_command"

definition appadmm_is_response_frame_data_size_valid :: "int \<Rightarrow> int \<Rightarrow> sr_error + unit" where
  "appadmm_is_response_frame_data_size_valid arg_command arg_size =
     appadmm_is_response_size_valid arg_command arg_size"

text \<open>
  The body of the \<^verbatim>\<open>for\<close> loop of \<^verbatim>\<open>appadmm_receive\<close> for one byte of the read; a
  \<^verbatim>\<open>continue\<close> ends the step. The second component lists the buffers handed to
  \<^verbatim>\<open>appadmm_frame_decode\<close> in this step (none or one); decoding and processing do not
  touch the receive buffer and their status is not returned by \<^verbatim>\<open>appadmm_receive\<close>.
  The size check of the header bounds the declared length by the catalog size, at most 64,
  so from a reset context the store stays inside the array; behind it the list update
  leaves the array as it is.
\<close>

definition appadmm_receive_step :: "appadmm_context \<Rightarrow> u8 \<Rightarrow> appadmm_context \<times> u8 list list" where
  "appadmm_receive_step devc b =
     (if unat (recv_buffer_len devc) < 1 \<and> b \<noteq> APPADMM_FRAME_START_VALUE_BYTE
      then (devc, [])
      else if \<not> unat (recv_buffer_len devc) < 1 \<and> unat (recv_buffer_len devc) < 2
            \<and> b \<noteq> APPADMM_FRAME_START_VALUE_BYTE
      then (appadmm_receive_buffer_reset devc, [])
      else if \<not> unat (recv_buffer_len devc) < 2 \<and> unat (recv_buffer_len devc) < 3
            \<and> isl (appadmm_frame_response_size (uint b))
      then (appadmm_receive_buffer_reset devc, [])
      else if \<not> unat (recv_buffer_len devc) < 3 \<and> unat (recv_buffer_len devc) < 4
            \<and> isl (appadmm_is_response_frame_data_size_valid
                     (uint (recv_buffer devc ! (unat (recv_buffer_len devc) - 1))) (uint b))
      then (appadmm_receive_buffer_reset devc, [])
      else
        let d = devc\<lparr>recv_buffer := (recv_buffer devc)[unat (recv_buffer_len devc) := b],
                     recv_buffer_len := recv_buffer_len devc + 1\<rparr>;
            (d1, decoded) =
              (if unat (recv_buffer_len d) > 4
                  \<and> unat (recv_buffer d ! 3) + APPADMM_FRAME_HEADER_SIZE
                      + APPADMM_FRAME_CHECKSUM_SIZE = unat (recv_buffer_len d)
               then (appadmm_receive_buffer_reset d,
                     [take (unat (recv_buffer_len d)) (recv_buffer d)])
               else (d, []))
        in (if unat (recv_buffer_len d1) > APPADMM_FRAME_MAX_SIZE
            then appadmm_receive_buffer_reset d1 else d1, decoded))"

text \<open>The \<^verbatim>\<open>for\<close> loop over the bytes of one read. The loop has no \<^verbatim>\<open>break\<close>.\<close>

fun appadmm_receive_loop :: "appadmm_context \<Rightarrow> u8 list \<Rightarrow> appadmm_context \<times> u8 list list" where
  "appadmm_receive_loop devc [] = (devc, [])"
| "appadmm_receive_loop devc (b # buf) =
     (let (d1, decoded) = appadmm_receive_step devc b;
          (d2, more) = appadmm_receive_loop d1 buf
      in (d2, decoded @ more))"

text \<open>
  \<^verbatim>\<open>appadmm_receive\<close>: \<open>rd\<close> is what the serial read returned, a negative length (returned
  at once) or the bytes read. After the loop the function returns \<^verbatim>\<open>SR_OK\<close> and leaves
  the context as the loop left it.
\<close>

definition appadmm_receive ::
  "appadmm_context \<Rightarrow> sr_error + u8 list \<Rightarrow> appadmm_context \<times> u8 list list \<times> (sr_error + unit)" where
  "appadmm_receive devc rd =
     (case rd of
        Inl e \<Rightarrow> (devc, [], Inl e)
      | Inr buf \<Rightarrow> (let (d, decoded) = appadmm_receive_loop devc buf in (d, decoded, Inr ())))"

text \<open>
  A caller polling this receiver, one call per read; the result lists the buffers handed
  to the decoder, in order.
\<close>

fun appadmm_receive_reads :: "appadmm_context \<Rightarrow> u8 list list \<Rightarrow> u8 list list" where
  "appadmm_receive_reads devc [] = []"
| "appadmm_receive_reads devc (rd # rds) =
     (case appadmm_receive devc (Inr rd) of
        (d, decoded, retr) \<Rightarrow> decoded @ appadmm_receive_reads d rds)"

text \<open>The zeroed device context.\<close>

definition devc_init :: appadmm_context where
  "devc_init = \<lparr>recv_buffer = replicate APPADMM_FRAME_MAX_SIZE 0, recv_buffer_len = 0\<rparr>"

subsection \<open>The payload layouts in the specification's words\<close>

text \<open>
  The Read Display response layout as the specification states it, over byte values:
  bits 0-6 and bit 7 of a byte are the remainder and the quotient by 128, bits 0-2 and
  bits 3-7 the remainder and the quotient by 8; a little-endian i24 is
  \<open>b0 + 256 b1 + 65536 b2\<close>, less \<open>2^24\<close> when bit 23 is set.
\<close>

definition spec_i24le :: "u8 \<Rightarrow> u8 \<Rightarrow> u8 \<Rightarrow> int" where
  "spec_i24le b0 b1 b2 =
     (let v = uint b0 + 256 * uint b1 + 65536 * uint b2
      in if v \<ge> 2 ^ 23 then v - 2 ^ 24 else v)"

definition spec_display_data :: "u8 list \<Rightarrow> nat \<Rightarrow> appadmm_display_data_s" where
  "spec_display_data payload k =
     \<lparr>dd_reading = spec_i24le (payload ! k) (payload ! (k + 1)) (payload ! (k + 2)),
      dd_dot = unat (payload ! (k + 3)) mod 8,
      dd_unit = unat (payload ! (k + 3)) div 8,
      dd_data_content = unat (payload ! (k + 4)) mod 128,
      dd_overload = unat (payload ! (k + 4)) div 128\<rparr>"

definition spec_read_display :: "u8 list \<Rightarrow> appadmm_response_data_read_display_s" where
  "spec_read_display payload =
     \<lparr>rd_function_code = unat (payload ! 0) mod 128,
      rd_auto_test = unat (payload ! 0) div 128,
      rd_range_code = of_nat (unat (payload ! 1) mod 128),
      rd_auto_range = unat (payload ! 1) div 128,
      rd_main_display_data = spec_display_data payload 2,
      rd_sub_display_data = spec_display_data payload 7\<rparr>"

text \<open>
  The scaling table as the specification states it. A dot position 0..4 gives that many
  decimal digits and divides by that power of ten. A unit carries an SI prefix, the power
  of ten that converts it to its base unit (mV is -3, kOhm is 3, GOhm is 9); the prefix
  multiplies the value and is subtracted from the digit count. Minutes are the one unit
  that scales by a factor that is not a power of ten.
\<close>

definition spec_dot_digits :: "nat \<Rightarrow> nat" where
  "spec_dot_digits dot = (if dot \<le> 4 then dot else 0)"

definition spec_unit_exponent :: "nat \<Rightarrow> int" where
  "spec_unit_exponent unit =
     (if unit \<in> {APPADMM_UNIT_NF, APPADMM_UNIT_NS} then - 9
      else if unit \<in> {APPADMM_UNIT_UA, APPADMM_UNIT_UF, APPADMM_UNIT_US} then - 6
      else if unit \<in> {APPADMM_UNIT_MV, APPADMM_UNIT_MA, APPADMM_UNIT_MF, APPADMM_UNIT_MS}
        then - 3
      else if unit \<in> {APPADMM_UNIT_KOHM, APPADMM_UNIT_KHZ, APPADMM_UNIT_KW} then 3
      else if unit \<in> {APPADMM_UNIT_MOHM, APPADMM_UNIT_MHZ} then 6
      else if unit = APPADMM_UNIT_GOHM then 9
      else 0)"

definition spec_unit_factor :: "nat \<Rightarrow> real" where
  "spec_unit_factor unit =
     (if unit = APPADMM_UNIT_MIN then 60 else 10 powi spec_unit_exponent unit)"

text \<open>
  The same scaling in floating-point arithmetic: the factor starts at 1 and takes one
  \<^verbatim>\<open>double\<close> division by the dot's power of ten, then one \<^verbatim>\<open>double\<close> multiplication or
  division by the power of ten of the unit's prefix (or the multiplication by 60); the
  reading, converted to \<^verbatim>\<open>float\<close>, is multiplied by the factor in \<^verbatim>\<open>double\<close> and the
  product is narrowed to \<^verbatim>\<open>float\<close>.
\<close>

definition spec_unit_scale :: "nat \<Rightarrow> real \<Rightarrow> real" where
  "spec_unit_scale unit f =
     (if unit = APPADMM_UNIT_MIN then round_double (f * 60)
      else if spec_unit_exponent unit < 0
        then round_double (f / 10 ^ nat (- spec_unit_exponent unit))
      else if 0 < spec_unit_exponent unit
        then round_double (f * 10 ^ nat (spec_unit_exponent unit))
      else f)"

definition spec_double_factor :: "nat \<Rightarrow> nat \<Rightarrow> real" where
  "spec_double_factor dot unit =
     spec_unit_scale unit (round_double (1 / 10 ^ spec_dot_digits dot))"

definition spec_emitted_value :: "int \<Rightarrow> nat \<Rightarrow> nat \<Rightarrow> real" where
  "spec_emitted_value reading dot unit =
     round_float (round_double (round_float (of_int reading) * spec_double_factor dot unit))"

text \<open>
  The units of the specification's table (V, mV, A, mA, dB, dBm, mF, uF, nF, GOhm, MOhm,
  kOhm, Ohm, %, MHz, kHz, Hz, degrees C and F, s, ms, us, ns, uA, min, kW, PF): the codes
  for which the interpreter knows a quantity.
\<close>

definition spec_unit_known :: "nat \<Rightarrow> bool" where
  "spec_unit_known unit =
     (unit \<in> {APPADMM_UNIT_V, APPADMM_UNIT_MV, APPADMM_UNIT_A, APPADMM_UNIT_MA,
        APPADMM_UNIT_DB, APPADMM_UNIT_DBM, APPADMM_UNIT_MF, APPADMM_UNIT_UF, APPADMM_UNIT_NF,
        APPADMM_UNIT_GOHM, APPADMM_UNIT_MOHM, APPADMM_UNIT_KOHM, APPADMM_UNIT_OHM,
        APPADMM_UNIT_PERCENT, APPADMM_UNIT_MHZ, APPADMM_UNIT_KHZ, APPADMM_UNIT_HZ,
        APPADMM_UNIT_DEGC, APPADMM_UNIT_DEGF, APPADMM_UNIT_SEC, APPADMM_UNIT_MS,
        APPADMM_UNIT_US, APPADMM_UNIT_NS, APPADMM_UNIT_UA, APPADMM_UNIT_MIN, APPADMM_UNIT_KW,
        APPADMM_UNIT_PF})"

section \<open>Verification\<close>

subsection \<open>Unfolding rules for the enumerations\<close>

lemmas frame_data_size_defs =
  APPADMM_FRAME_DATA_SIZE_RESPONSE_READ_INFORMATION_def
  APPADMM_FRAME_DATA_SIZE_RESPONSE_READ_DISPLAY_def
  APPADMM_FRAME_DATA_SIZE_RESPONSE_READ_PROTOCOL_VERSION_def
  APPADMM_FRAME_DATA_SIZE_RESPONSE_READ_BATTERY_LIFE_def
  APPADMM_FRAME_DATA_SIZE_RESPONSE_CAL_READING_def
  APPADMM_FRAME_DATA_SIZE_RESPONSE_READ_MEMORY_def
  APPADMM_FRAME_DATA_SIZE_RESPONSE_READ_HARMONICS_DATA_def
  APPADMM_FRAME_DATA_SIZE_RESPONSE_FAILURE_def
  APPADMM_FRAME_DATA_SIZE_RESPONSE_SUCCESS_def

lemmas appadmm_command_defs =
  APPADMM_COMMAND_READ_INFORMATION_def
  APPADMM_COMMAND_READ_DISPLAY_def
  APPADMM_COMMAND_READ_PROTOCOL_VERSION_def
  APPADMM_COMMAND_READ_BATTERY_LIFE_def
  APPADMM_COMMAND_WRITE_UART_CONFIGURATION_def
  APPADMM_COMMAND_CAL_READING_def
  APPADMM_COMMAND_READ_MEMORY_def
  APPADMM_COMMAND_READ_HARMONICS_DATA_def
  APPADMM_COMMAND_FAILURE_def
  APPADMM_COMMAND_SUCCESS_def
  APPADMM_COMMAND_CAL_ENTER_def
  APPADMM_COMMAND_CAL_WRITE_FUNCTION_CODE_def
  APPADMM_COMMAND_CAL_WRITE_RANGE_CODE_def
  APPADMM_COMMAND_CAL_WRITE_MEMORY_def
  APPADMM_COMMAND_CAL_EXIT_def
  APPADMM_COMMAND_OTA_ENTER_def
  APPADMM_COMMAND_OTA_SEND_INFORMATION_def
  APPADMM_COMMAND_OTA_SEND_FIRMWARE_PACKAGE_def
  APPADMM_COMMAND_OTA_START_UPGRADE_PROCEDURE_def

lemmas appadmm_flag_defs =
  APPADMM_MANUAL_RANGE_def
  APPADMM_AUTO_RANGE_def
  APPADMM_NOT_OVERLOAD_def
  APPADMM_OVERLOAD_def

lemmas appadmm_wordcode_defs =
  APPADMM_WORDCODE_SPACE_def
  APPADMM_WORDCODE_HAZ_def
  APPADMM_WORDCODE_FUSE_def
  APPADMM_WORDCODE_PROBE_def
  APPADMM_WORDCODE_DEF_def
  APPADMM_WORDCODE_ER_def
  APPADMM_WORDCODE_ER1_def
  APPADMM_WORDCODE_ER2_def
  APPADMM_WORDCODE_ER3_def
  APPADMM_WORDCODE_DASH_def
  APPADMM_WORDCODE_DASH1_def
  APPADMM_WORDCODE_DASH2_def
  APPADMM_WORDCODE_BATT_def

lemmas appadmm_unit_defs =
  APPADMM_UNIT_NONE_def
  APPADMM_UNIT_V_def
  APPADMM_UNIT_MV_def
  APPADMM_UNIT_A_def
  APPADMM_UNIT_MA_def
  APPADMM_UNIT_DB_def
  APPADMM_UNIT_DBM_def
  APPADMM_UNIT_MF_def
  APPADMM_UNIT_UF_def
  APPADMM_UNIT_NF_def
  APPADMM_UNIT_GOHM_def
  APPADMM_UNIT_MOHM_def
  APPADMM_UNIT_KOHM_def
  APPADMM_UNIT_OHM_def
  APPADMM_UNIT_PERCENT_def
  APPADMM_UNIT_MHZ_def
  APPADMM_UNIT_KHZ_def
  APPADMM_UNIT_HZ_def
  APPADMM_UNIT_DEGC_def
  APPADMM_UNIT_DEGF_def
  APPADMM_UNIT_SEC_def
  APPADMM_UNIT_MS_def
  APPADMM_UNIT_US_def
  APPADMM_UNIT_NS_def
  APPADMM_UNIT_UA_def
  APPADMM_UNIT_MIN_def
  APPADMM_UNIT_KW_def
  APPADMM_UNIT_PF_def

lemmas appadmm_dot_defs =
  APPADMM_DOT_NONE_def
  APPADMM_DOT_9999_9_def
  APPADMM_DOT_999_99_def
  APPADMM_DOT_99_999_def
  APPADMM_DOT_9_9999_def

lemmas appadmm_data_content_defs =
  APPADMM_DATA_CONTENT_MEASURING_DATA_def
  APPADMM_DATA_CONTENT_FREQUENCY_def
  APPADMM_DATA_CONTENT_CYCLE_def
  APPADMM_DATA_CONTENT_DUTY_def
  APPADMM_DATA_CONTENT_MEMORY_STAMP_def
  APPADMM_DATA_CONTENT_MEMORY_SAVE_def
  APPADMM_DATA_CONTENT_MEMORY_LOAD_def
  APPADMM_DATA_CONTENT_LOG_SAVE_def
  APPADMM_DATA_CONTENT_LOG_LOAD_def
  APPADMM_DATA_CONTENT_LOG_RATE_def
  APPADMM_DATA_CONTENT_REL_DELTA_def
  APPADMM_DATA_CONTENT_REL_PERCENT_def
  APPADMM_DATA_CONTENT_REL_REFERENCE_def
  APPADMM_DATA_CONTENT_MAXIMUM_def
  APPADMM_DATA_CONTENT_MINIMUM_def
  APPADMM_DATA_CONTENT_AVERAGE_def
  APPADMM_DATA_CONTENT_PEAK_HOLD_MAX_def
  APPADMM_DATA_CONTENT_PEAK_HOLD_MIN_def
  APPADMM_DATA_CONTENT_DBM_def
  APPADMM_DATA_CONTENT_DB_def
  APPADMM_DATA_CONTENT_AUTO_HOLD_def
  APPADMM_DATA_CONTENT_SETUP_def
  APPADMM_DATA_CONTENT_LOG_STAMP_def
  APPADMM_DATA_CONTENT_LOG_MAX_def
  APPADMM_DATA_CONTENT_LOG_MIN_def
  APPADMM_DATA_CONTENT_LOG_TP_def
  APPADMM_DATA_CONTENT_HOLD_def
  APPADMM_DATA_CONTENT_CURRENT_OUTPUT_def
  APPADMM_DATA_CONTENT_CUR_OUT_0_20MA_PERCENT_def
  APPADMM_DATA_CONTENT_CUR_OUT_4_20MA_PERCENT_def

lemmas appadmm_functioncode_defs =
  APPADMM_FUNCTIONCODE_NONE_def
  APPADMM_FUNCTIONCODE_AC_V_def
  APPADMM_FUNCTIONCODE_DC_V_def
  APPADMM_FUNCTIONCODE_AC_MV_def
  APPADMM_FUNCTIONCODE_DC_MV_def
  APPADMM_FUNCTIONCODE_OHM_def
  APPADMM_FUNCTIONCODE_CONTINUITY_def
  APPADMM_FUNCTIONCODE_DIODE_def
  APPADMM_FUNCTIONCODE_CAP_def
  APPADMM_FUNCTIONCODE_AC_A_def
  APPADMM_FUNCTIONCODE_DC_A_def
  APPADMM_FUNCTIONCODE_AC_MA_def
  APPADMM_FUNCTIONCODE_DC_MA_def
  APPADMM_FUNCTIONCODE_DEGC_def
  APPADMM_FUNCTIONCODE_DEGF_def
  APPADMM_FUNCTIONCODE_FREQUENCY_def
  APPADMM_FUNCTIONCODE_DUTY_def
  APPADMM_FUNCTIONCODE_HZ_V_def
  APPADMM_FUNCTIONCODE_HZ_MV_def
  APPADMM_FUNCTIONCODE_HZ_A_def
  APPADMM_FUNCTIONCODE_HZ_MA_def
  APPADMM_FUNCTIONCODE_AC_DC_V_def
  APPADMM_FUNCTIONCODE_AC_DC_MV_def
  APPADMM_FUNCTIONCODE_AC_DC_A_def
  APPADMM_FUNCTIONCODE_AC_DC_MA_def
  APPADMM_FUNCTIONCODE_LPF_V_def
  APPADMM_FUNCTIONCODE_LPF_MV_def
  APPADMM_FUNCTIONCODE_LPF_A_def
  APPADMM_FUNCTIONCODE_LPF_MA_def
  APPADMM_FUNCTIONCODE_AC_UA_def
  APPADMM_FUNCTIONCODE_DC_UA_def
  APPADMM_FUNCTIONCODE_DC_A_OUT_def
  APPADMM_FUNCTIONCODE_DC_A_OUT_SLOW_LINEAR_def
  APPADMM_FUNCTIONCODE_DC_A_OUT_FAST_LINEAR_def
  APPADMM_FUNCTIONCODE_DC_A_OUT_SLOW_STEP_def
  APPADMM_FUNCTIONCODE_DC_A_OUT_FAST_STEP_def
  APPADMM_FUNCTIONCODE_LOOP_POWER_def
  APPADMM_FUNCTIONCODE_250OHM_HART_def
  APPADMM_FUNCTIONCODE_VOLT_SENSE_def
  APPADMM_FUNCTIONCODE_PEAK_HOLD_V_def
  APPADMM_FUNCTIONCODE_PEAK_HOLD_MV_def
  APPADMM_FUNCTIONCODE_PEAK_HOLD_A_def
  APPADMM_FUNCTIONCODE_PEAK_HOLD_MA_def
  APPADMM_FUNCTIONCODE_LOZ_AC_V_def
  APPADMM_FUNCTIONCODE_LOZ_DC_V_def
  APPADMM_FUNCTIONCODE_LOZ_AC_DC_V_def
  APPADMM_FUNCTIONCODE_LOZ_LPF_V_def
  APPADMM_FUNCTIONCODE_LOZ_HZ_V_def
  APPADMM_FUNCTIONCODE_LOZ_PEAK_HOLD_V_def
  APPADMM_FUNCTIONCODE_BATTERY_def
  APPADMM_FUNCTIONCODE_AC_W_def
  APPADMM_FUNCTIONCODE_DC_W_def
  APPADMM_FUNCTIONCODE_PF_def
  APPADMM_FUNCTIONCODE_FLEX_AC_A_def
  APPADMM_FUNCTIONCODE_FLEX_LPF_A_def
  APPADMM_FUNCTIONCODE_FLEX_PEAK_HOLD_A_def
  APPADMM_FUNCTIONCODE_FLEX_HZ_A_def
  APPADMM_FUNCTIONCODE_V_HARM_def
  APPADMM_FUNCTIONCODE_INRUSH_def
  APPADMM_FUNCTIONCODE_A_HARM_def
  APPADMM_FUNCTIONCODE_FLEX_INRUSH_def
  APPADMM_FUNCTIONCODE_FLEX_A_HARM_def
  APPADMM_FUNCTIONCODE_PEAK_HOLD_UA_def
  APPADMM_FUNCTIONCODE_AC_UA_HFR_def
  APPADMM_FUNCTIONCODE_AC_V_HFR_def
  APPADMM_FUNCTIONCODE_AC_MV_HFR_def
  APPADMM_FUNCTIONCODE_AC_A_HFR_def
  APPADMM_FUNCTIONCODE_AC_MA_HFR_def
  APPADMM_FUNCTIONCODE_AC_UA_HFR2_def
  APPADMM_FUNCTIONCODE_DC_V_PV_def
  APPADMM_FUNCTIONCODE_AC_V_PV_def
  APPADMM_FUNCTIONCODE_AC_V_PV_HFR_def
  APPADMM_FUNCTIONCODE_AC_DC_V_PV_def


lemmas tp_appa_defs =
  SR_TP_APPA_MAX_DATA_SIZE_def SR_TP_APPA_HEADER_SIZE_def SR_TP_APPA_MAX_PAYLOAD_SIZE_def
  SR_TP_APPA_MAX_FRAME_SIZE_def SR_TP_APPA_MAX_PACKET_SIZE_def SR_TP_APPA_START_BYTE_def

subsection \<open>Frame catalog\<close>

lemma get_response_size_read_memory:
  "appadmm_get_response_size APPADMM_COMMAND_READ_MEMORY = Inr 64"
  by (simp add: appadmm_get_response_size_def appadmm_command_defs frame_data_size_defs)

lemma get_response_size_read_display:
  "appadmm_get_response_size APPADMM_COMMAND_READ_DISPLAY = Inr 12"
  by (simp add: appadmm_get_response_size_def appadmm_command_defs frame_data_size_defs)

text \<open>
  Claim C8. For every command and size, \<^verbatim>\<open>appadmm_is_response_size_valid\<close> returns
  \<^verbatim>\<open>SR_OK\<close> exactly when the command has a catalog size and either the command is Read
  Memory and the size is at most that catalog size, or the size equals the catalog size;
  for a command without a response size it returns the catalog's error.
\<close>

theorem response_size_valid_iff:
  "(appadmm_is_response_size_valid arg_command arg_size = Inr ()) =
     (\<exists>catalog_size. appadmm_get_response_size arg_command = Inr catalog_size
        \<and> ((arg_command = APPADMM_COMMAND_READ_MEMORY \<and> arg_size \<le> catalog_size)
             \<or> arg_size = catalog_size))
   \<and> (\<forall>e. appadmm_get_response_size arg_command = Inl e
          \<longrightarrow> appadmm_is_response_size_valid arg_command arg_size = Inl e)"
  by (auto simp: appadmm_is_response_size_valid_def split: sum.splits)

theorem response_size_valid_iff_witness:
  "appadmm_get_response_size APPADMM_COMMAND_WRITE_UART_CONFIGURATION = Inl SR_ERR_DATA
   \<and> appadmm_is_response_size_valid APPADMM_COMMAND_WRITE_UART_CONFIGURATION 1 = Inl SR_ERR_DATA
   \<and> appadmm_is_response_size_valid APPADMM_COMMAND_READ_MEMORY 10 = Inr ()
   \<and> appadmm_is_response_size_valid APPADMM_COMMAND_READ_DISPLAY 10 \<noteq> Inr ()"
proof -
  have g: "appadmm_get_response_size APPADMM_COMMAND_WRITE_UART_CONFIGURATION = Inl SR_ERR_DATA"
    by (simp add: appadmm_get_response_size_def appadmm_command_defs)
  show ?thesis
    using g response_size_valid_iff [of APPADMM_COMMAND_WRITE_UART_CONFIGURATION 1]
      response_size_valid_iff [of APPADMM_COMMAND_READ_MEMORY 10]
      response_size_valid_iff [of APPADMM_COMMAND_READ_DISPLAY 10]
    by (simp add: get_response_size_read_memory get_response_size_read_display)
       (simp add: appadmm_command_defs)
qed

subsection \<open>Read Display decoder\<close>

lemma unat_and_7f: "unat (x AND 0x7f :: u8) = unat x mod 128"
proof -
  have "x AND 0x7f = take_bit 7 x" by (simp add: take_bit_eq_mask mask_eq_exp_minus_1)
  then show ?thesis by (simp add: unsigned_take_bit_eq take_bit_eq_mod unat_mod)
qed

lemma unat_and_7: "unat (x AND 0x7 :: u8) = unat x mod 8"
proof -
  have "x AND 0x7 = take_bit 3 x" by (simp add: take_bit_eq_mask mask_eq_exp_minus_1)
  then show ?thesis by (simp add: unsigned_take_bit_eq take_bit_eq_mod unat_mod)
qed

lemma unat_drop_bit_7: "unat (drop_bit 7 (x :: u8)) = unat x div 128"
  by (simp add: unat_drop_bit_eq drop_bit_eq_div unat_div)

lemma unat_drop_bit_3: "unat (drop_bit 3 (x :: u8)) = unat x div 8"
  by (simp add: unat_drop_bit_eq drop_bit_eq_div unat_div)

lemma i24_uint:
  fixes b0 b1 b2 :: u8
  shows "uint (ucast b0 OR push_bit 8 (ucast b1) OR push_bit 16 (ucast b2) :: 24 word)
          = uint b0 + 256 * uint b1 + 65536 * uint b2"
proof -
  let ?a = "ucast b0 :: 24 word"
  let ?b = "push_bit 8 (ucast b1) :: 24 word"
  let ?c = "push_bit 16 (ucast b2) :: 24 word"
  have bc: "?b OR ?c = ?b + ?c"
    by (rule disjunctive_add [symmetric]) (auto simp: bit_simps dest: bit_imp_le_length)
  have abc: "?a OR (?b OR ?c) = ?a + (?b + ?c)"
    unfolding bc [symmetric]
    by (rule disjunctive_add [symmetric]) (auto simp: bit_simps dest: bit_imp_le_length)
  have b0: "uint b0 < 256" "0 \<le> uint b0" using uint_lt2p [of b0] by simp_all
  have b1: "uint b1 < 256" "0 \<le> uint b1" using uint_lt2p [of b1] by simp_all
  have b2: "uint b2 < 256" "0 \<le> uint b2" using uint_lt2p [of b2] by simp_all
  have ua: "uint ?a = uint b0" by (simp add: uint_up_ucast is_up)
  have ub: "uint ?b = 256 * uint b1"
    using b1 by (simp add: push_bit_eq_mult uint_word_ariths uint_up_ucast is_up)
  have uc: "uint ?c = 65536 * uint b2"
    using b2 by (simp add: push_bit_eq_mult uint_word_ariths uint_up_ucast is_up)
  show ?thesis
    unfolding abc using b0 b1 b2
    by (simp add: uint_word_ariths ua ub uc)
qed

lemma sint24: "sint (w :: 24 word) = (if uint w \<ge> 2 ^ 23 then uint w - 2 ^ 24 else uint w)"
proof -
  have r: "0 \<le> uint w" "uint w < 2 ^ 24" using uint_lt2p [of w] by simp_all
  have s: "sint w = (uint w + 2 ^ 23) mod 2 ^ 24 - 2 ^ 23"
    by (simp add: sint_uint signed_take_bit_eq_take_bit_shift take_bit_eq_mod)
  show ?thesis
  proof (cases "2 ^ 23 \<le> uint w")
    case True
    then have "(uint w + 2 ^ 23) mod 2 ^ 24 = uint w + 2 ^ 23 - 2 ^ 24"
      using r by (simp add: mod_pos_geq)
    with True s show ?thesis by simp
  next
    case False
    then have "(uint w + 2 ^ 23) mod 2 ^ 24 = uint w + 2 ^ 23"
      using r by simp
    with False s show ?thesis by simp
  qed
qed

lemma read_i24le_inc_spec:
  "read_i24le_inc rdptr = (spec_i24le (rdptr ! 0) (rdptr ! 1) (rdptr ! 2), drop 3 rdptr)"
  by (simp add: read_i24le_inc_def spec_i24le_def sint24 i24_uint Let_def)

lemma is_valid_read_display:
  "(appadmm_is_response_size_valid APPADMM_COMMAND_READ_DISPLAY n = Inr ())
     = (appadmm_get_response_size APPADMM_COMMAND_READ_DISPLAY = Inr n)"
  unfolding appadmm_is_response_size_valid_def get_response_size_read_display
  by (auto simp: APPADMM_COMMAND_READ_DISPLAY_def APPADMM_COMMAND_READ_MEMORY_def)

text \<open>
  Claim C5. For every packet (with its array of 64 data bytes), \<^verbatim>\<open>appadmm_dec_read_display\<close>
  returns \<^verbatim>\<open>SR_ERR_DATA\<close> whenever the command is not Read Display or the length is not the
  catalog size of Read Display, and otherwise succeeds with exactly the record the
  specification's layout gives: byte 0 function code and auto-test bit, byte 1 range code
  and auto-range bit, bytes 2-4 and 7-9 the sign-extended little-endian readings, bytes 5
  and 10 dot and unit, bytes 6 and 11 data content and overload bit.
\<close>

theorem dec_read_display_layout:
  assumes "length (pkt_data arg_packet) = SR_TP_APPA_MAX_DATA_SIZE"
  shows "appadmm_dec_read_display arg_packet =
     (if uint (pkt_command arg_packet) \<noteq> APPADMM_COMMAND_READ_DISPLAY
         \<or> appadmm_get_response_size APPADMM_COMMAND_READ_DISPLAY
              \<noteq> Inr (uint (pkt_length arg_packet))
      then Inl SR_ERR_DATA
      else Inr (spec_read_display (pkt_data arg_packet)))"
proof -
  have len: "length (pkt_data arg_packet) = 64"
    using assms by (simp add: SR_TP_APPA_MAX_DATA_SIZE_def)
  have and7f: "pkt_data arg_packet ! Suc 0 AND 0x7f
                 = of_nat (unat (pkt_data arg_packet ! Suc 0) mod 128)"
    by (rule word_unat_eq_iff [THEN iffD2]) (simp add: unat_and_7f unat_of_nat)
  have four: "Suc (Suc (Suc (Suc 0))) = 4" by simp
  show ?thesis
    using len
    by (simp add: appadmm_dec_read_display_def is_valid_read_display read_u8_inc_def
          read_i24le_inc_spec spec_read_display_def spec_display_data_def Let_def
          unat_and_7f unat_and_7 unat_drop_bit_7 unat_drop_bit_3 and7f
          numeral_2_eq_2 [symmetric] numeral_3_eq_3 [symmetric] four
          del: of_nat_mod)
qed


theorem dec_read_display_layout_witness:
  "length (pkt_data \<lparr>pkt_command = 0x01, pkt_length = 12,
       pkt_data = [0x82, 0x85, 0xFF, 0xFF, 0xFF, 0x0B, 0x80, 0x14, 0x00, 0x70, 0x91, 0x1A]
                  @ replicate 52 0\<rparr>) = SR_TP_APPA_MAX_DATA_SIZE
   \<and> appadmm_dec_read_display \<lparr>pkt_command = 0x01, pkt_length = 12,
       pkt_data = [0x82, 0x85, 0xFF, 0xFF, 0xFF, 0x0B, 0x80, 0x14, 0x00, 0x70, 0x91, 0x1A]
                  @ replicate 52 0\<rparr>
     = Inr \<lparr>rd_function_code = 2, rd_auto_test = 1, rd_range_code = 5, rd_auto_range = 1,
            rd_main_display_data = \<lparr>dd_reading = - 1, dd_dot = 3, dd_unit = 1,
               dd_data_content = 0, dd_overload = 1\<rparr>,
            rd_sub_display_data = \<lparr>dd_reading = 0x700014, dd_dot = 1, dd_unit = 18,
               dd_data_content = 26, dd_overload = 0\<rparr>\<rparr>"
proof -
  have h: "length (pkt_data \<lparr>pkt_command = 0x01, pkt_length = 12,
       pkt_data = [0x82, 0x85, 0xFF, 0xFF, 0xFF, 0x0B, 0x80, 0x14, 0x00, 0x70, 0x91, 0x1A]
                  @ replicate 52 0\<rparr>) = SR_TP_APPA_MAX_DATA_SIZE"
    by (simp add: SR_TP_APPA_MAX_DATA_SIZE_def)
  have c: "APPADMM_COMMAND_READ_DISPLAY = 1"
    by (simp add: APPADMM_COMMAND_READ_DISPLAY_def)
  have d: "appadmm_get_response_size 1 = Inr 12"
    using get_response_size_read_display by (simp add: c)
  have "appadmm_dec_read_display \<lparr>pkt_command = 0x01, pkt_length = 12,
       pkt_data = [0x82, 0x85, 0xFF, 0xFF, 0xFF, 0x0B, 0x80, 0x14, 0x00, 0x70, 0x91, 0x1A]
                  @ replicate 52 0\<rparr>
     = Inr (spec_read_display ([0x82, 0x85, 0xFF, 0xFF, 0xFF, 0x0B, 0x80, 0x14, 0x00, 0x70, 0x91, 0x1A]
                  @ replicate 52 0))"
    unfolding dec_read_display_layout [OF h]
    by (simp add: c d)
  also have "\<dots> = Inr \<lparr>rd_function_code = 2, rd_auto_test = 1, rd_range_code = 5, rd_auto_range = 1,
            rd_main_display_data = \<lparr>dd_reading = - 1, dd_dot = 3, dd_unit = 1,
               dd_data_content = 0, dd_overload = 1\<rparr>,
            rd_sub_display_data = \<lparr>dd_reading = 0x700014, dd_dot = 1, dd_unit = 18,
               dd_data_content = 26, dd_overload = 0\<rparr>\<rparr>"
    by (simp add: spec_read_display_def spec_display_data_def spec_i24le_def)
  finally show ?thesis using h by simp
qed

subsection \<open>Read Memory decoder\<close>

lemma read_memory_copy_ok:
  "len \<le> length dst \<Longrightarrow> len \<le> length src \<Longrightarrow> xloop \<le> len \<Longrightarrow>
   read_memory_copy src len xloop dst
     = Some (take xloop dst @ take (len - xloop) (drop xloop src) @ drop len dst)"
proof (induction src len xloop dst rule: read_memory_copy.induct)
  case (1 src len xloop dst)
  show ?case
  proof (cases "xloop < len")
    case True
    have a: "take (len - xloop) (drop xloop src) = src ! xloop # take (len - Suc xloop) (drop (Suc xloop) src)"
      using True 1(3) by (metis Cons_nth_drop_Suc Suc_diff_Suc less_le_trans take_Suc_Cons)
    have "read_memory_copy src len xloop dst = read_memory_copy src len (xloop + 1) (dst[xloop := src ! xloop])"
      using True 1(2,3) by (subst read_memory_copy.simps) simp
    also have "\<dots> = Some (take (xloop + 1) (dst[xloop := src ! xloop])
         @ take (len - (xloop + 1)) (drop (xloop + 1) src) @ drop len (dst[xloop := src ! xloop]))"
      using True 1 by simp
    also have "\<dots> = Some (take xloop dst @ take (len - xloop) (drop xloop src) @ drop len dst)"
      using True 1(2,3) a by (simp add: take_Suc_conv_app_nth)
    finally show ?thesis .
  next
    case False
    with 1 show ?thesis by (subst read_memory_copy.simps) simp
  qed
qed

lemma is_valid_read_memory:
  "(appadmm_is_response_size_valid APPADMM_COMMAND_READ_MEMORY n = Inr ()) = (n \<le> 64)"
  by (simp add: appadmm_is_response_size_valid_def get_response_size_read_memory)

text \<open>
  Claim C10. For every packet (with its array of 64 data bytes) and every output record,
  \<^verbatim>\<open>appadmm_dec_read_memory\<close> returns \<^verbatim>\<open>SR_ERR_DATA\<close> when the command is not Read Memory or
  the declared length exceeds 64 or the record's data array, before anything is copied;
  otherwise it succeeds, the first \<open>length\<close> bytes of the array are the packet's and every
  byte from index \<open>length\<close> on is left as it was. The result is never \<open>None\<close>: no access
  of the copy loop falls outside an array.
\<close>

theorem dec_read_memory_in_bounds:
  assumes "length (pkt_data arg_packet) = SR_TP_APPA_MAX_DATA_SIZE"
  shows "appadmm_dec_read_memory arg_packet arg_read_memory =
     (if uint (pkt_command arg_packet) \<noteq> APPADMM_COMMAND_READ_MEMORY
         \<or> unat (pkt_length arg_packet) > 64
         \<or> unat (pkt_length arg_packet) > length (rm_data arg_read_memory)
      then Some (Inl SR_ERR_DATA)
      else Some (Inr (arg_read_memory
             \<lparr>rm_data_length := unat (pkt_length arg_packet),
              rm_data := take (unat (pkt_length arg_packet)) (pkt_data arg_packet)
                         @ drop (unat (pkt_length arg_packet)) (rm_data arg_read_memory)\<rparr>)))"
proof -
  have v: "(appadmm_is_response_size_valid APPADMM_COMMAND_READ_MEMORY
              (uint (pkt_length arg_packet)) = Inr ()) = (unat (pkt_length arg_packet) \<le> 64)"
    unfolding is_valid_read_memory uint_nat by linarith
  show ?thesis
  proof (cases "uint (pkt_command arg_packet) = APPADMM_COMMAND_READ_MEMORY
                  \<and> unat (pkt_length arg_packet) \<le> 64
                  \<and> unat (pkt_length arg_packet) \<le> length (rm_data arg_read_memory)")
    case True
    then have c: "read_memory_copy (pkt_data arg_packet) (unat (pkt_length arg_packet)) 0
                    (rm_data arg_read_memory)
                  = Some (take (unat (pkt_length arg_packet)) (pkt_data arg_packet)
                          @ drop (unat (pkt_length arg_packet)) (rm_data arg_read_memory))"
      using assms read_memory_copy_ok [of "unat (pkt_length arg_packet)" "rm_data arg_read_memory"
          "pkt_data arg_packet" 0]
      by (simp add: SR_TP_APPA_MAX_DATA_SIZE_def)
    from True show ?thesis
      by (simp add: appadmm_dec_read_memory_def v c)
  next
    case False
    then show ?thesis
      by (auto simp: appadmm_dec_read_memory_def v)
  qed
qed

theorem dec_read_memory_in_bounds_witness:
  "length (pkt_data \<lparr>pkt_command = 0x1a, pkt_length = 200, pkt_data = replicate 64 7\<rparr>)
     = SR_TP_APPA_MAX_DATA_SIZE
   \<and> appadmm_dec_read_memory \<lparr>pkt_command = 0x1a, pkt_length = 200, pkt_data = replicate 64 7\<rparr>
        \<lparr>rm_data = replicate 64 0, rm_data_length = 0\<rparr> = Some (Inl SR_ERR_DATA)
   \<and> appadmm_dec_read_memory \<lparr>pkt_command = 0x1a, pkt_length = 3, pkt_data = replicate 64 7\<rparr>
        \<lparr>rm_data = replicate 64 0, rm_data_length = 0\<rparr>
       = Some (Inr \<lparr>rm_data = replicate 3 7 @ replicate 61 0, rm_data_length = 3\<rparr>)"
proof -
  have h: "length (pkt_data \<lparr>pkt_command = 0x1a, pkt_length = 200, pkt_data = replicate 64 7\<rparr>)
     = SR_TP_APPA_MAX_DATA_SIZE"
    by (simp add: SR_TP_APPA_MAX_DATA_SIZE_def)
  have h': "length (pkt_data \<lparr>pkt_command = 0x1a, pkt_length = 3, pkt_data = replicate 64 7\<rparr>)
     = SR_TP_APPA_MAX_DATA_SIZE"
    by (simp add: SR_TP_APPA_MAX_DATA_SIZE_def)
  have c: "APPADMM_COMMAND_READ_MEMORY = 26"
    by (simp add: APPADMM_COMMAND_READ_MEMORY_def)
  show ?thesis
    unfolding dec_read_memory_in_bounds [OF h] dec_read_memory_in_bounds [OF h']
    by (simp add: c SR_TP_APPA_MAX_DATA_SIZE_def)
qed

subsection \<open>Storage paging\<close>

lemma storage_length_loop_5: "\<exists>r. storage_length_loop d 5 = Some r"
proof (induction "unat d" arbitrary: d rule: less_induct)
  case less
  show ?case
  proof (cases "unat d > 64")
    case True
    have e: "(word_of_int (uint d - 5) :: u8) = d - 5" by simp
    have "(5 :: u8) \<le> d" using True by (simp add: word_le_nat_alt)
    then have "unat (d - 5) = unat d - 5" by (simp add: unat_sub)
    with True e have "unat (word_of_int (uint d - 5) :: u8) < unat d" by simp
    from less [OF this] show ?thesis
      using True by (subst storage_length_loop.simps) (simp add: SR_TP_APPA_MAX_DATA_SIZE_def)
  next
    case False
    then show ?thesis
      by (subst storage_length_loop.simps) (simp add: SR_TP_APPA_MAX_DATA_SIZE_def)
  qed
qed

lemma storage_length_loop_5_returns: "storage_length_loop d 5 \<noteq> None"
  using storage_length_loop_5 [of d] by auto

text \<open>
  Claim C9, as amended. For the storage layout of the scenario (entry size 5, 500 entries
  per device, offset 0x500, 2 devices) and start entry 501, \<^verbatim>\<open>appadmm_enc_read_storage\<close>
  returns, for every requested entry count, device number 1, memory address 0x505 and the
  data length 64: the length the loop clamped is overwritten by the final assignment
  \<^verbatim>\<open>arg_read_memory->data_length = 64\<close>.
\<close>

theorem enc_read_storage_scenario:
  "appadmm_enc_read_storage
     \<lparr>si_rate = rate, si_amount = amount, si_entry_size = 5, si_entry_count = 500,
      si_mem_offset = 0x500, si_mem_count = 2\<rparr> 501 arg_entry_count
   = Some (Inr \<lparr>rq_device_number = 1, rq_memory_address = 0x505, rq_data_length = 64\<rparr>)"
  by (simp add: appadmm_enc_read_storage_def c_div_def c_mod_def SR_TP_APPA_MAX_DATA_SIZE_def
        Let_def storage_length_loop_5_returns split: option.splits)

text \<open>
  Claim C9 as stated fails: the data length produced is 64, which is not a multiple of the
  entry size 5.
\<close>

theorem enc_read_storage_counterexample:
  "appadmm_enc_read_storage
     \<lparr>si_rate = 0, si_amount = 0, si_entry_size = 5, si_entry_count = 500,
      si_mem_offset = 0x500, si_mem_count = 2\<rparr> 501 1
   = Some (Inr \<lparr>rq_device_number = 1, rq_memory_address = 0x505, rq_data_length = 64\<rparr>)
   \<and> unat (rq_data_length
         \<lparr>rq_device_number = 1, rq_memory_address = 0x505, rq_data_length = 64\<rparr>) mod 5 = 4"
proof -
  have "storage_length_loop 5 5 = Some 5"
    by (subst storage_length_loop.simps) (simp add: SR_TP_APPA_MAX_DATA_SIZE_def)
  then show ?thesis
    by (simp add: appadmm_enc_read_storage_def c_div_def c_mod_def SR_TP_APPA_MAX_DATA_SIZE_def Let_def)
qed

subsection \<open>Floating-point rounding\<close>

lemma round_ties_even_error: "\<bar>of_int (round_ties_even y) - y\<bar> \<le> 1 / 2"
proof -
  have "of_int \<lfloor>y\<rfloor> \<le> y" "y < of_int \<lfloor>y\<rfloor> + 1" by linarith+
  then show ?thesis
    by (auto simp: round_ties_even_def Let_def)
qed

lemma binade_bounds:
  assumes "x \<noteq> 0"
  shows "2 powi binade x \<le> \<bar>x\<bar>" and "\<bar>x\<bar> < 2 powi (binade x + 1)"
proof -
  let ?a = "\<bar>x\<bar>"
  have pos: "0 < ?a" using assms by simp
  have "2 powi binade x \<le> ?a \<and> ?a < 2 powi (binade x + 1)"
  proof (cases "1 \<le> ?a")
    case True
    let ?n = "\<lfloor>?a\<rfloor>"
    have n: "0 < ?n" using True by linarith
    from bitlen_bounds [OF n]
    have b: "2 ^ nat (bitlen ?n - 1) \<le> ?n" "?n < 2 ^ nat (bitlen ?n)" by simp_all
    have k: "1 \<le> bitlen ?n" using n by (simp add: bitlen_alt_def)
    have e: "binade x = bitlen ?n - 1" using True by (simp add: binade_def)
    have "(2 :: real) powi (bitlen ?n - 1) = 2 ^ nat (bitlen ?n - 1)"
      using k by (simp add: power_int_def)
    also have "\<dots> = of_int (2 ^ nat (bitlen ?n - 1))" by simp
    also have "\<dots> \<le> of_int ?n" using b(1) by (rule of_int_le_iff [THEN iffD2])
    also have "\<dots> \<le> ?a" by linarith
    finally have lo: "2 powi binade x \<le> ?a" unfolding e .
    have "?n + 1 \<le> 2 ^ nat (bitlen ?n)" using b(2) by simp
    then have "of_int (?n + 1) \<le> (of_int (2 ^ nat (bitlen ?n)) :: real)"
      by (rule of_int_le_iff [THEN iffD2])
    then have "of_int ?n + 1 \<le> (2 ^ nat (bitlen ?n) :: real)" by simp
    moreover have "?a < of_int ?n + 1" by linarith
    ultimately have "?a < 2 ^ nat (bitlen ?n)" by linarith
    also have "\<dots> = 2 powi (bitlen ?n)" using k by (simp add: power_int_def)
    finally have hi: "?a < 2 powi (binade x + 1)" unfolding e by simp
    from lo hi show ?thesis ..
  next
    case False
    let ?y = "1 / ?a"
    let ?m = "\<lceil>?y\<rceil> - 1"
    have y: "1 < ?y" using False pos by simp
    have m: "0 < ?m" using y by linarith
    from bitlen_bounds [OF m]
    have b: "2 ^ nat (bitlen ?m - 1) \<le> ?m" "?m < 2 ^ nat (bitlen ?m)" by simp_all
    have k: "1 \<le> bitlen ?m" using m by (simp add: bitlen_alt_def)
    have e: "binade x = - bitlen ?m" using False by (simp add: binade_def)
    have "?m + 1 \<le> 2 ^ nat (bitlen ?m)" using b(2) by simp
    then have "of_int (?m + 1) \<le> (of_int (2 ^ nat (bitlen ?m)) :: real)"
      by (rule of_int_le_iff [THEN iffD2])
    then have "of_int ?m + 1 \<le> (2 ^ nat (bitlen ?m) :: real)" by simp
    moreover have "?y \<le> of_int ?m + 1" by simp
    ultimately have "?y \<le> 2 ^ nat (bitlen ?m)" by linarith
    then have "1 \<le> 2 ^ nat (bitlen ?m) * ?a"
      using pos by (simp add: field_simps)
    then have "1 / 2 ^ nat (bitlen ?m) \<le> ?a"
      by (simp add: field_simps)
    moreover have "(2 :: real) powi (- bitlen ?m) = 1 / 2 ^ nat (bitlen ?m)"
      using k by (simp add: power_int_def field_simps)
    ultimately have lo: "2 powi binade x \<le> ?a" unfolding e by simp
    have "(of_int (2 ^ nat (bitlen ?m - 1)) :: real) \<le> of_int ?m"
      using b(1) by (rule of_int_le_iff [THEN iffD2])
    moreover have "of_int ?m < ?y" by linarith
    ultimately have "2 ^ nat (bitlen ?m - 1) < ?y" by simp
    then have "2 ^ nat (bitlen ?m - 1) * ?a < 1"
      using pos by (simp add: field_simps)
    then have "?a < 1 / 2 ^ nat (bitlen ?m - 1)"
      by (simp add: field_simps)
    moreover have "(2 :: real) powi (- bitlen ?m + 1) = 1 / 2 ^ nat (bitlen ?m - 1)"
    proof -
      have "- bitlen ?m + 1 = - (bitlen ?m - 1)" by simp
      moreover have "(2 :: real) powi (- (bitlen ?m - 1)) = 1 / 2 ^ nat (bitlen ?m - 1)"
        using k by (simp add: power_int_def field_simps)
      ultimately show ?thesis by simp
    qed
    ultimately have hi: "?a < 2 powi (binade x + 1)" unfolding e by simp
    from lo hi show ?thesis ..
  qed
  then show "2 powi binade x \<le> \<bar>x\<bar>" and "\<bar>x\<bar> < 2 powi (binade x + 1)" by simp_all
qed

lemma ieee_round_error:
  assumes "2 powi emin \<le> \<bar>x\<bar>"
  shows "\<bar>ieee_round p emin x - x\<bar> \<le> 2 powi (- int p) * \<bar>x\<bar>"
proof -
  have nz: "x \<noteq> 0"
  proof
    assume "x = 0"
    with assms have "(2 :: real) powi emin \<le> 0" by simp
    moreover have "0 < (2 :: real) powi emin" by simp
    ultimately show False by simp
  qed
  have "(2 :: real) powi emin < 2 powi (binade x + 1)"
    using assms binade_bounds(2) [OF nz] by simp
  then have "emin < binade x + 1"
    using power_int_increasing [of "binade x + 1" emin "2 :: real"] by force
  then have e: "max (binade x) emin = binade x" by simp
  let ?q = "(2 :: real) powi (binade x - int p + 1)"
  have q: "0 < ?q" by simp
  have r: "ieee_round p emin x = of_int (round_ties_even (x / ?q)) * ?q"
    using nz e by (simp add: ieee_round_def Let_def)
  have "\<bar>of_int (round_ties_even (x / ?q)) * ?q - x\<bar>
      = \<bar>of_int (round_ties_even (x / ?q)) - x / ?q\<bar> * ?q"
  proof -
    have "of_int (round_ties_even (x / ?q)) * ?q - x
       = (of_int (round_ties_even (x / ?q)) - x / ?q) * ?q"
      using q by (simp add: field_simps)
    then show ?thesis using q by (simp add: abs_mult)
  qed
  also have "\<dots> \<le> 1 / 2 * ?q"
    using round_ties_even_error [of "x / ?q"] q by (intro mult_right_mono) simp_all
  also have "1 / 2 * ?q = 2 powi (- int p) * 2 powi binade x"
  proof -
    have "binade x - int p + 1 = (- int p) + (binade x + 1)" by simp
    then have "?q = 2 powi (- int p) * 2 powi (binade x + 1)"
      by (simp only: power_int_add [of "2 :: real", simplified])
    also have "(2 :: real) powi (binade x + 1) = 2 powi binade x * 2"
      by (simp add: power_int_add)
    finally show ?thesis by simp
  qed
  also have "\<dots> \<le> 2 powi (- int p) * \<bar>x\<bar>"
    using binade_bounds(1) [OF nz] by (intro mult_left_mono) simp_all
  finally show ?thesis unfolding r .
qed

lemma rel_error_round:
  assumes ab: "\<bar>a - b\<bar> \<le> \<epsilon> * \<bar>b\<bar>" and e: "0 \<le> \<epsilon>"
    and rng: "b \<noteq> 0 \<Longrightarrow> 2 powi emin \<le> (1 - \<epsilon>) * \<bar>b\<bar>"
  shows "\<bar>ieee_round p emin a - b\<bar> \<le> (\<epsilon> + 2 powi (- int p) * (1 + \<epsilon>)) * \<bar>b\<bar>"
proof (cases "b = 0")
  case True
  with ab have "a = 0" by simp
  with True show ?thesis by (simp add: ieee_round_def)
next
  case False
  have "\<bar>b\<bar> - \<bar>a\<bar> \<le> \<bar>a - b\<bar>" by simp
  with ab have lo: "(1 - \<epsilon>) * \<bar>b\<bar> \<le> \<bar>a\<bar>" by (simp add: algebra_simps)
  have "\<bar>a\<bar> - \<bar>b\<bar> \<le> \<bar>a - b\<bar>" by simp
  with ab have hi: "\<bar>a\<bar> \<le> (1 + \<epsilon>) * \<bar>b\<bar>" by (simp add: algebra_simps)
  from rng [OF False] lo have "2 powi emin \<le> \<bar>a\<bar>" by simp
  from ieee_round_error [OF this, of p]
  have "\<bar>ieee_round p emin a - a\<bar> \<le> 2 powi (- int p) * \<bar>a\<bar>" .
  also have "\<dots> \<le> 2 powi (- int p) * ((1 + \<epsilon>) * \<bar>b\<bar>)"
    using hi by (intro mult_left_mono) simp_all
  finally have r: "\<bar>ieee_round p emin a - a\<bar> \<le> 2 powi (- int p) * (1 + \<epsilon>) * \<bar>b\<bar>"
    by (simp add: mult.assoc)
  have "\<bar>ieee_round p emin a - b\<bar> \<le> \<bar>ieee_round p emin a - a\<bar> + \<bar>a - b\<bar>" by simp
  also have "\<dots> \<le> 2 powi (- int p) * (1 + \<epsilon>) * \<bar>b\<bar> + \<epsilon> * \<bar>b\<bar>"
    using r ab by simp
  finally show ?thesis by (simp add: algebra_simps)
qed

lemma rel_error_weaken:
  assumes "\<bar>a - b\<bar> \<le> \<epsilon> * \<bar>b\<bar>" and "\<epsilon> \<le> \<epsilon>'"
  shows "\<bar>a - b\<bar> \<le> \<epsilon>' * \<bar>b :: real\<bar>"
proof -
  have "\<epsilon> * \<bar>b\<bar> \<le> \<epsilon>' * \<bar>b\<bar>"
    using assms(2) by (rule mult_right_mono) simp
  with assms(1) show ?thesis by simp
qed

lemma rel_error_mult:
  assumes ab: "\<bar>a - b\<bar> \<le> \<epsilon> * \<bar>b\<bar>" and cd: "\<bar>c - d\<bar> \<le> \<delta> * \<bar>d\<bar>"
  shows "\<bar>a * c - b * d\<bar> \<le> (\<epsilon> + \<delta> + \<epsilon> * \<delta>) * \<bar>b * (d :: real)\<bar>"
proof -
  have eq: "a * c - b * d = (a - b) * d + b * (c - d) + (a - b) * (c - d)"
    by (simp add: algebra_simps)
  have "\<bar>a * c - b * d\<bar> \<le> \<bar>(a - b) * d\<bar> + \<bar>b * (c - d)\<bar> + \<bar>(a - b) * (c - d)\<bar>"
    unfolding eq by (intro order_trans [OF abs_triangle_ineq] add_mono order_refl)
  also have "\<dots> = \<bar>a - b\<bar> * \<bar>d\<bar> + \<bar>b\<bar> * \<bar>c - d\<bar> + \<bar>a - b\<bar> * \<bar>c - d\<bar>"
    by (simp only: abs_mult)
  also have "\<dots> \<le> (\<epsilon> * \<bar>b\<bar>) * \<bar>d\<bar> + \<bar>b\<bar> * (\<delta> * \<bar>d\<bar>) + (\<epsilon> * \<bar>b\<bar>) * (\<delta> * \<bar>d\<bar>)"
  proof (intro add_mono)
    show "\<bar>a - b\<bar> * \<bar>d\<bar> \<le> (\<epsilon> * \<bar>b\<bar>) * \<bar>d\<bar>"
      using ab by (rule mult_right_mono) simp
    show "\<bar>b\<bar> * \<bar>c - d\<bar> \<le> \<bar>b\<bar> * (\<delta> * \<bar>d\<bar>)"
      using cd by (rule mult_left_mono) simp
    show "\<bar>a - b\<bar> * \<bar>c - d\<bar> \<le> (\<epsilon> * \<bar>b\<bar>) * (\<delta> * \<bar>d\<bar>)"
      using ab cd by (rule mult_mono) (use ab in \<open>simp_all add: order_trans [OF abs_ge_zero]\<close>)
  qed
  also have "\<dots> = (\<epsilon> + \<delta> + \<epsilon> * \<delta>) * \<bar>b * d\<bar>"
    by (simp add: algebra_simps abs_mult)
  finally show ?thesis .
qed

lemma rel_error_scale:
  assumes "\<bar>u - b\<bar> \<le> \<epsilon> * \<bar>b\<bar>"
  shows "\<bar>u * c - b * c\<bar> \<le> \<epsilon> * \<bar>b * (c :: real)\<bar>"
    and "\<bar>u / c - b / c\<bar> \<le> \<epsilon> * \<bar>b / c\<bar>"
proof -
  have "\<bar>u * c - b * c\<bar> = \<bar>u - b\<bar> * \<bar>c\<bar>"
    by (simp add: abs_mult flip: left_diff_distrib)
  also have "\<dots> \<le> (\<epsilon> * \<bar>b\<bar>) * \<bar>c\<bar>"
    using assms by (rule mult_right_mono) simp
  finally show "\<bar>u * c - b * c\<bar> \<le> \<epsilon> * \<bar>b * c\<bar>"
    by (simp add: abs_mult mult.assoc)
  have "\<bar>u / c - b / c\<bar> = \<bar>u - b\<bar> / \<bar>c\<bar>"
    by (simp flip: diff_divide_distrib)
  also have "\<dots> \<le> (\<epsilon> * \<bar>b\<bar>) / \<bar>c\<bar>"
    using assms by (rule divide_right_mono) simp
  finally show "\<bar>u / c - b / c\<bar> \<le> \<epsilon> * \<bar>b / c\<bar>"
    by simp
qed

lemma round_double_dot:
  assumes "k \<le> 4"
  shows "\<bar>round_double (1 / 10 ^ k) - 1 / 10 ^ k\<bar> \<le> 2 powi (- 53) * \<bar>1 / 10 ^ k :: real\<bar>"
proof -
  have "(10 :: real) ^ k \<le> 10 ^ 4" using assms by (intro power_increasing) simp_all
  then have "1 / 10 ^ 4 \<le> 1 / (10 :: real) ^ k"
    by (intro divide_left_mono) simp_all
  moreover have "(2 :: real) powi (- 1022) \<le> 1 / 10 ^ 4" by simp
  ultimately have "(2 :: real) powi (- 1022) \<le> \<bar>1 / 10 ^ k\<bar>" by simp
  from ieee_round_error [OF this, of 53] show ?thesis by (simp add: round_double_def)
qed

lemma round_double_scaled:
  assumes x: "1 / 10 ^ 13 \<le> \<bar>x\<bar>" and a: "\<bar>a - x\<bar> \<le> 2 powi (- 53) * \<bar>x\<bar>"
  shows "\<bar>round_double a - x\<bar> \<le> 2 powi (- 51) * \<bar>x\<bar>"
proof -
  have n: "(2 :: real) powi (- 1022) \<le> (1 - 2 powi (- 53)) * (1 / 10 ^ 13)" by simp
  have "(1 - 2 powi (- 53)) * (1 / 10 ^ 13) \<le> (1 - 2 powi (- 53)) * \<bar>x\<bar>"
    using x by (intro mult_left_mono) simp_all
  with n have rng: "2 powi (- 1022) \<le> (1 - 2 powi (- 53)) * \<bar>x\<bar>" by simp
  have "\<bar>ieee_round 53 (- 1022) a - x\<bar>
          \<le> (2 powi (- 53) + 2 powi (- int 53) * (1 + 2 powi (- 53))) * \<bar>x\<bar>"
    by (rule rel_error_round [OF a _ rng]) simp
  then show ?thesis
    unfolding round_double_def by (rule rel_error_weaken) simp
qed

lemma reading_float_error:
  "\<bar>round_float (of_int r) - of_int r\<bar> \<le> 2 powi (- 24) * \<bar>of_int r\<bar>"
proof (cases "r = 0")
  case True
  then show ?thesis by (simp add: round_float_def ieee_round_def)
next
  case False
  then have "1 \<le> \<bar>r\<bar>" by simp
  then have "1 \<le> \<bar>of_int r :: real\<bar>" by (metis of_int_1_le_iff of_int_abs)
  moreover have "(2 :: real) powi (- 126) \<le> 1" by simp
  ultimately have "2 powi (- 126) \<le> \<bar>of_int r :: real\<bar>" by simp
  from ieee_round_error [OF this, of 24] show ?thesis by (simp add: round_float_def)
qed

lemma reading_product_lower:
  assumes f: "1 / 10 ^ 13 \<le> \<bar>f :: real\<bar>" and nz: "of_int r * f \<noteq> 0"
  shows "1 / 10 ^ 13 \<le> \<bar>of_int r * f\<bar>"
proof -
  from nz have "r \<noteq> 0" by auto
  then have "1 \<le> \<bar>r\<bar>" by simp
  then have "1 \<le> \<bar>of_int r :: real\<bar>" by (metis of_int_1_le_iff of_int_abs)
  then have "1 * \<bar>f\<bar> \<le> \<bar>of_int r\<bar> * \<bar>f\<bar>" by (intro mult_right_mono) simp_all
  with f show ?thesis by (simp add: abs_mult)
qed

lemma reading_product_error:
  assumes uf: "\<bar>u - f\<bar> \<le> 2 powi (- 51) * \<bar>f\<bar>" and f: "1 / 10 ^ 13 \<le> \<bar>f\<bar>"
  shows "\<bar>round_double (round_float (of_int r) * u) - of_int r * f\<bar>
           \<le> (2 powi (- 23) + 2 powi (- 52)) * \<bar>of_int r * f\<bar>"
proof -
  let ?r = "of_int r :: real"
  have "\<bar>round_float ?r * u - ?r * f\<bar>
          \<le> (2 powi (- 24) + 2 powi (- 51) + 2 powi (- 24) * 2 powi (- 51)) * \<bar>?r * f\<bar>"
    by (rule rel_error_mult [OF reading_float_error uf])
  then have p: "\<bar>round_float ?r * u - ?r * f\<bar> \<le> 2 powi (- 23) * \<bar>?r * f\<bar>"
    by (rule rel_error_weaken) simp
  have rng: "2 powi (- 1022) \<le> (1 - 2 powi (- 23)) * \<bar>?r * f\<bar>" if "?r * f \<noteq> 0"
  proof -
    have "(2 :: real) powi (- 1022) \<le> (1 - 2 powi (- 23)) * (1 / 10 ^ 13)" by simp
    also have "\<dots> \<le> (1 - 2 powi (- 23)) * \<bar>?r * f\<bar>"
      using reading_product_lower [OF f that] by (intro mult_left_mono) simp_all
    finally show ?thesis .
  qed
  have "\<bar>ieee_round 53 (- 1022) (round_float ?r * u) - ?r * f\<bar>
          \<le> (2 powi (- 23) + 2 powi (- int 53) * (1 + 2 powi (- 23))) * \<bar>?r * f\<bar>"
    by (rule rel_error_round [OF p _ rng]) simp_all
  then show ?thesis
    unfolding round_double_def by (rule rel_error_weaken) simp
qed

lemma emitted_value_error:
  assumes uf: "\<bar>u - f\<bar> \<le> 2 powi (- 51) * \<bar>f\<bar>" and f: "1 / 10 ^ 13 \<le> \<bar>f\<bar>"
  shows "\<bar>round_float (round_double (round_float (of_int r) * u)) - of_int r * f\<bar>
           \<le> 2 powi (- 22) * \<bar>of_int r * f\<bar>"
proof -
  let ?r = "of_int r :: real"
  have d: "\<bar>round_double (round_float ?r * u) - ?r * f\<bar>
          \<le> (2 powi (- 23) + 2 powi (- 52)) * \<bar>?r * f\<bar>"
    by (rule reading_product_error [OF uf f])
  have rng: "2 powi (- 126) \<le> (1 - (2 powi (- 23) + 2 powi (- 52))) * \<bar>?r * f\<bar>"
    if "?r * f \<noteq> 0"
  proof -
    have "(2 :: real) powi (- 126) \<le> (1 - (2 powi (- 23) + 2 powi (- 52))) * (1 / 10 ^ 13)"
      by simp
    also have "\<dots> \<le> (1 - (2 powi (- 23) + 2 powi (- 52))) * \<bar>?r * f\<bar>"
      using reading_product_lower [OF f that] by (intro mult_left_mono) simp_all
    finally show ?thesis .
  qed
  have "\<bar>ieee_round 24 (- 126) (round_double (round_float ?r * u)) - ?r * f\<bar>
          \<le> ((2 powi (- 23) + 2 powi (- 52))
               + 2 powi (- int 24) * (1 + (2 powi (- 23) + 2 powi (- 52)))) * \<bar>?r * f\<bar>"
    by (rule rel_error_round [OF d _ rng]) simp_all
  then show ?thesis
    unfolding round_float_def by (rule rel_error_weaken) simp
qed

lemma rel_error_upper:
  assumes "\<bar>a - b\<bar> \<le> \<epsilon> * \<bar>b\<bar>" and "\<bar>b\<bar> \<le> B" and "0 \<le> \<epsilon>"
  shows "\<bar>a\<bar> \<le> (1 + \<epsilon>) * (B :: real)"
proof -
  have "\<bar>a\<bar> \<le> \<bar>a - b\<bar> + \<bar>b\<bar>" by simp
  also have "\<dots> \<le> \<epsilon> * \<bar>b\<bar> + \<bar>b\<bar>" using assms(1) by simp
  also have "\<dots> = (1 + \<epsilon>) * \<bar>b\<bar>" by (simp add: algebra_simps)
  also have "\<dots> \<le> (1 + \<epsilon>) * B" using assms(2,3) by (intro mult_left_mono) simp_all
  finally show ?thesis .
qed

subsection \<open>Display interpreter\<close>

lemma transform_dot_digits:
  "st_digits (transform_dot dot s) = int (spec_dot_digits dot)"
  by (simp add: transform_dot_def spec_dot_digits_def appadmm_dot_defs)

lemma transform_dot_factor:
  "st_unit_factor (transform_dot dot s)
     = round_double (st_unit_factor s / 10 ^ spec_dot_digits dot)"
proof -
  consider "dot = 0" | "dot = 1" | "dot = 2" | "dot = 3" | "dot = 4" | "4 < dot"
    by linarith
  then show ?thesis
    by cases (simp_all add: transform_dot_def spec_dot_digits_def appadmm_dot_defs)
qed

lemma transform_unit_digits:
  "st_digits (transform_unit unit s) = st_digits s - spec_unit_exponent unit"
  by (simp add: transform_unit_def spec_unit_exponent_def appadmm_unit_defs)

lemma transform_unit_factor:
  "st_unit_factor (transform_unit unit s) = spec_unit_scale unit (st_unit_factor s)"
  by (simp add: transform_unit_def spec_unit_scale_def spec_unit_exponent_def appadmm_unit_defs)

lemma transform_data_content_scale:
  "st_digits (transform_data_content c d s) = st_digits s"
  "st_unit_factor (transform_data_content c d s) = st_unit_factor s"
  by (simp_all add: transform_data_content_def)

lemma transform_function_code_scale:
  "st_digits (transform_function_code f s) = st_digits s"
  "st_unit_factor (transform_function_code f s) = st_unit_factor s"
  by (simp_all add: transform_function_code_def)

lemma transform_numeric:
  assumes "arg_channel = APPADMM_CHANNEL_MAIN \<or> arg_channel = APPADMM_CHANNEL_SUB"
    and "display_data = (if arg_channel = APPADMM_CHANNEL_MAIN
                         then rd_main_display_data arg_data
                         else rd_sub_display_data arg_data)"
    and "\<not> appadmm_is_wordcode (dd_reading display_data)
         \<or> appadmm_is_wordcode_dash (dd_reading display_data)"
    and "s0 = transform_data_content arg_channel (dd_data_content display_data)
                (transform_dot (dd_dot display_data)
                   \<lparr>st_mq = SR_MQ_NONE, st_unit = SR_UNIT_NONE, st_mqflags = {},
                    st_digits = 0, st_unit_factor = 1\<rparr>)"
    and "s = transform_function_code (rd_function_code arg_data)
               (transform_unit (dd_unit display_data)
                  (if rd_auto_range arg_data = APPADMM_AUTO_RANGE
                   then s0\<lparr>st_mqflags := insert SR_MQFLAG_AUTORANGE (st_mqflags s0)\<rparr>
                   else s0))"
  shows "appadmm_transform_display_data sample_id arg_channel arg_data =
     Inr \<lparr>tr_mq = st_mq s, tr_unit = st_unit s, tr_mqflags = st_mqflags s,
          tr_digits = st_digits s,
          tr_val = (if dd_overload display_data = APPADMM_OVERLOAD
                       \<or> appadmm_is_wordcode_dash (dd_reading display_data)
                    then INFINITY
                    else Finite (round_float (round_double
                           (round_float (of_int (dd_reading display_data))
                            * st_unit_factor s)))),
          tr_message = None\<rparr>"
proof -
  from assms(1) show ?thesis
  proof
    assume "arg_channel = APPADMM_CHANNEL_MAIN"
    with assms(2-) show ?thesis
      by (simp add: appadmm_transform_display_data_def Let_def)
  next
    assume "arg_channel = APPADMM_CHANNEL_SUB"
    with assms(2-) show ?thesis
      by (simp add: appadmm_transform_display_data_def Let_def)
  qed
qed


lemma spec_unit_exponent_cases:
  "spec_unit_exponent unit \<in> {- 9, - 6, - 3, 0, 3, 6, 9}"
  by (simp add: spec_unit_exponent_def)

lemma spec_unit_exponent_min: "spec_unit_exponent APPADMM_UNIT_MIN = 0"
  by (simp add: spec_unit_exponent_def appadmm_unit_defs)

lemma spec_dot_digits_le: "spec_dot_digits dot \<le> 4"
  by (simp add: spec_dot_digits_def)

lemma spec_dot_power_bounds:
  "1 / 10 ^ 4 \<le> 1 / (10 :: real) ^ spec_dot_digits dot"
  "1 / (10 :: real) ^ spec_dot_digits dot \<le> 1"
proof -
  have "(10 :: real) ^ spec_dot_digits dot \<le> 10 ^ 4"
    using spec_dot_digits_le by (intro power_increasing) simp_all
  then show "1 / 10 ^ 4 \<le> 1 / (10 :: real) ^ spec_dot_digits dot"
    by (intro divide_left_mono) simp_all
  have "(1 :: real) \<le> 10 ^ spec_dot_digits dot" by simp
  then show "1 / (10 :: real) ^ spec_dot_digits dot \<le> 1" by simp
qed

lemma spec_unit_factor_bounds:
  "1 / 10 ^ 9 \<le> spec_unit_factor unit" "spec_unit_factor unit \<le> 10 ^ 9"
  using spec_unit_exponent_cases [of unit]
  by (auto simp: spec_unit_factor_def)

lemma spec_factor_bounds:
  "1 / 10 ^ 13 \<le> \<bar>spec_unit_factor unit / 10 ^ spec_dot_digits dot\<bar>"
  "\<bar>spec_unit_factor unit / 10 ^ spec_dot_digits dot\<bar> \<le> 10 ^ 9"
proof -
  let ?u = "spec_unit_factor unit" and ?b = "1 / (10 :: real) ^ spec_dot_digits dot"
  have u: "1 / 10 ^ 9 \<le> ?u" "?u \<le> 10 ^ 9" by (rule spec_unit_factor_bounds)+
  have b: "1 / 10 ^ 4 \<le> ?b" "?b \<le> 1" by (rule spec_dot_power_bounds)+
  have "(1 / 10 ^ 9) * (1 / 10 ^ 4) \<le> ?u * ?b"
    using u(1) b(1) by (intro mult_mono) simp_all
  moreover have "?u * ?b \<le> 10 ^ 9 * 1"
    using u b by (intro mult_mono) simp_all
  moreover have "0 \<le> ?u * ?b" using u(1) b(1) by simp
  ultimately show "1 / 10 ^ 13 \<le> \<bar>?u / 10 ^ spec_dot_digits dot\<bar>"
    and "\<bar>?u / 10 ^ spec_dot_digits dot\<bar> \<le> 10 ^ 9"
    by simp_all
qed

lemma spec_double_factor_error:
  "\<bar>spec_double_factor dot unit - spec_unit_factor unit / 10 ^ spec_dot_digits dot\<bar>
     \<le> 2 powi (- 51) * \<bar>spec_unit_factor unit / 10 ^ spec_dot_digits dot\<bar>"
proof -
  let ?k = "spec_dot_digits dot"
  let ?b = "1 / (10 :: real) ^ ?k"
  let ?f = "round_double ?b"
  let ?F = "spec_unit_factor unit / 10 ^ ?k"
  have d: "\<bar>?f - ?b\<bar> \<le> 2 powi (- 53) * \<bar>?b\<bar>"
    by (rule round_double_dot [OF spec_dot_digits_le])
  have F: "1 / 10 ^ 13 \<le> \<bar>?F\<bar>" by (rule spec_factor_bounds)
  have scaled: "\<bar>round_double a - ?F\<bar> \<le> 2 powi (- 51) * \<bar>?F\<bar>"
    if "\<bar>a - ?F\<bar> \<le> 2 powi (- 53) * \<bar>?F\<bar>" for a
    using F that by (rule round_double_scaled)
  show ?thesis
  proof (cases "unit = APPADMM_UNIT_MIN")
    case True
    have e: "?F = ?b * 60" using True by (simp add: spec_unit_factor_def)
    have "\<bar>?f * 60 - ?b * 60\<bar> \<le> 2 powi (- 53) * \<bar>?b * 60\<bar>"
      using d by (rule rel_error_scale)
    then have "\<bar>round_double (?f * 60) - ?F\<bar> \<le> 2 powi (- 51) * \<bar>?F\<bar>"
      unfolding e [symmetric] by (rule scaled)
    then show ?thesis
      using True by (simp add: spec_double_factor_def spec_unit_scale_def)
  next
    case False
    let ?e = "spec_unit_exponent unit"
    consider (neg) "?e < 0" | (pos) "0 < ?e" | (zero) "?e = 0" by linarith
    then show ?thesis
    proof cases
      case neg
      have "(10 :: real) powi ?e = 1 / 10 ^ nat (- ?e)"
        using neg by (simp add: power_int_def field_simps)
      then have e: "?F = ?b / 10 ^ nat (- ?e)"
        using False by (simp add: spec_unit_factor_def)
      have "\<bar>?f / 10 ^ nat (- ?e) - ?b / 10 ^ nat (- ?e)\<bar>
              \<le> 2 powi (- 53) * \<bar>?b / 10 ^ nat (- ?e)\<bar>"
        using d by (rule rel_error_scale)
      then have "\<bar>round_double (?f / 10 ^ nat (- ?e)) - ?F\<bar> \<le> 2 powi (- 51) * \<bar>?F\<bar>"
        unfolding e [symmetric] by (rule scaled)
      then show ?thesis
        using False neg by (simp add: spec_double_factor_def spec_unit_scale_def)
    next
      case pos
      have "(10 :: real) powi ?e = 10 ^ nat ?e"
        using pos by (simp add: power_int_def)
      then have e: "?F = ?b * 10 ^ nat ?e"
        using False by (simp add: spec_unit_factor_def)
      have "\<bar>?f * 10 ^ nat ?e - ?b * 10 ^ nat ?e\<bar> \<le> 2 powi (- 53) * \<bar>?b * 10 ^ nat ?e\<bar>"
        using d by (rule rel_error_scale)
      then have "\<bar>round_double (?f * 10 ^ nat ?e) - ?F\<bar> \<le> 2 powi (- 51) * \<bar>?F\<bar>"
        unfolding e [symmetric] by (rule scaled)
      then show ?thesis
        using False pos by (simp add: spec_double_factor_def spec_unit_scale_def)
    next
      case zero
      have e: "?F = ?b" using False zero by (simp add: spec_unit_factor_def)
      have "\<bar>?f - ?F\<bar> \<le> 2 powi (- 51) * \<bar>?F\<bar>"
        unfolding e using d by (rule rel_error_weaken) simp
      then show ?thesis
        using False zero by (simp add: spec_double_factor_def spec_unit_scale_def)
    qed
  qed
qed

lemma spec_emitted_value_error:
  "\<bar>spec_emitted_value reading dot unit
      - of_int reading * (spec_unit_factor unit / 10 ^ spec_dot_digits dot)\<bar>
     \<le> 2 powi (- 22) * \<bar>of_int reading * (spec_unit_factor unit / 10 ^ spec_dot_digits dot)\<bar>"
  unfolding spec_emitted_value_def
  by (rule emitted_value_error [OF spec_double_factor_error spec_factor_bounds(1)])

lemma transform_unit_mq:
  "st_mq (transform_unit unit s) = SR_MQ_NONE
     \<longleftrightarrow> \<not> spec_unit_known unit \<and> st_mq s = SR_MQ_NONE"
  by (simp add: transform_unit_def spec_unit_known_def appadmm_unit_defs)

lemma transform_function_code_mq:
  "st_mq (transform_function_code f s)
     = (if f = APPADMM_FUNCTIONCODE_CONTINUITY then SR_MQ_CONTINUITY else st_mq s)"
  by (simp add: transform_function_code_def appadmm_functioncode_defs)

lemma transform_dot_mq: "st_mq (transform_dot dot s) = st_mq s"
  by (simp add: transform_dot_def)

lemma transform_data_content_mq: "st_mq (transform_data_content c d s) = st_mq s"
  by (simp add: transform_data_content_def)

text \<open>
  The values of the interpreter stay far inside the exponent range of their formats: for
  an \<^verbatim>\<open>int32_t\<close> reading no intermediate \<^verbatim>\<open>double\<close> and no \<^verbatim>\<open>float\<close> exceeds \<open>2^62\<close> in
  magnitude, so no operation overflows.
\<close>

lemma interpreter_values_in_range:
  assumes "\<bar>reading\<bar> \<le> 2 ^ 31"
  shows "\<bar>round_double (1 / 10 ^ spec_dot_digits dot)\<bar> \<le> 2
     \<and> \<bar>spec_double_factor dot unit\<bar> \<le> 2 ^ 30
     \<and> \<bar>round_float (of_int reading)\<bar> \<le> 2 ^ 32
     \<and> \<bar>round_double (round_float (of_int reading) * spec_double_factor dot unit)\<bar> \<le> 2 ^ 62
     \<and> \<bar>spec_emitted_value reading dot unit\<bar> \<le> 2 ^ 62"
proof -
  let ?F = "spec_unit_factor unit / 10 ^ spec_dot_digits dot"
  let ?r = "of_int reading :: real"
  have r: "\<bar>?r\<bar> \<le> 2 ^ 31"
    using assms by (metis of_int_abs of_int_le_iff of_int_numeral of_int_power)
  have F: "\<bar>?F\<bar> \<le> 10 ^ 9" by (rule spec_factor_bounds)
  have rF: "\<bar>?r * ?F\<bar> \<le> 2 ^ 31 * 10 ^ 9"
    unfolding abs_mult using r F by (intro mult_mono) simp_all
  have "\<bar>round_double (1 / 10 ^ spec_dot_digits dot)\<bar> \<le> (1 + 2 powi (- 53)) * 1"
    using round_double_dot [OF spec_dot_digits_le]
  proof (rule rel_error_upper)
    show "\<bar>1 / (10 :: real) ^ spec_dot_digits dot\<bar> \<le> 1"
      using spec_dot_power_bounds(2) [of dot] by simp
  qed simp
  then have a: "\<bar>round_double (1 / 10 ^ spec_dot_digits dot)\<bar> \<le> 2" by simp
  have "\<bar>spec_double_factor dot unit\<bar> \<le> (1 + 2 powi (- 51)) * 10 ^ 9"
    using spec_double_factor_error F by (rule rel_error_upper) simp
  then have b: "\<bar>spec_double_factor dot unit\<bar> \<le> 2 ^ 30" by simp
  have "\<bar>round_float ?r\<bar> \<le> (1 + 2 powi (- 24)) * 2 ^ 31"
    using reading_float_error r by (rule rel_error_upper) simp
  then have c: "\<bar>round_float ?r\<bar> \<le> 2 ^ 32" by simp
  have "\<bar>round_double (round_float ?r * spec_double_factor dot unit)\<bar>
          \<le> (1 + (2 powi (- 23) + 2 powi (- 52))) * (2 ^ 31 * 10 ^ 9)"
    using reading_product_error [OF spec_double_factor_error spec_factor_bounds(1)] rF
    by (rule rel_error_upper) simp
  then have d: "\<bar>round_double (round_float ?r * spec_double_factor dot unit)\<bar> \<le> 2 ^ 62"
    by simp
  have "\<bar>spec_emitted_value reading dot unit\<bar> \<le> (1 + 2 powi (- 22)) * (2 ^ 31 * 10 ^ 9)"
    using spec_emitted_value_error rF by (rule rel_error_upper) simp
  then have e: "\<bar>spec_emitted_value reading dot unit\<bar> \<le> 2 ^ 62" by simp
  from a b c d e show ?thesis by (intro conjI)
qed

text \<open>
  Claim C6, as amended. For the main or the sub display, when the reading is not a word
  code or is one of the three dash sentinels, the interpreter returns a result whose digit
  count is the dot's digit count less the unit's SI prefix. Unless the overload flag is set
  or the reading is a dash sentinel (then the value is infinity), the value is the reading
  times the combined unit factor in the arithmetic of the code: the factor by one
  \<^verbatim>\<open>double\<close> division for the dot and one \<^verbatim>\<open>double\<close> operation for the unit, the product in
  \<^verbatim>\<open>double\<close>, the result narrowed to \<^verbatim>\<open>float\<close>. This value is what is sent to the session,
  and it is sent exactly when the unit is one of the table or the function code is
  continuity. It differs from the exact product of the reading and the combined unit factor
  (the unit's factor over the dot's power of ten) by at most \<open>2^-22\<close> of that product.
\<close>

theorem transform_scaling:
  assumes "arg_channel = APPADMM_CHANNEL_MAIN \<or> arg_channel = APPADMM_CHANNEL_SUB"
    and "display_data = (if arg_channel = APPADMM_CHANNEL_MAIN
                         then rd_main_display_data arg_data
                         else rd_sub_display_data arg_data)"
    and "\<not> appadmm_is_wordcode (dd_reading display_data)
         \<or> appadmm_is_wordcode_dash (dd_reading display_data)"
  shows "\<exists>r. appadmm_transform_display_data sample_id arg_channel arg_data = Inr r
     \<and> tr_digits r = int (spec_dot_digits (dd_dot display_data))
                       - spec_unit_exponent (dd_unit display_data)
     \<and> tr_val r =
         (if dd_overload display_data = APPADMM_OVERLOAD
             \<or> appadmm_is_wordcode_dash (dd_reading display_data)
          then INFINITY
          else Finite (spec_emitted_value (dd_reading display_data) (dd_dot display_data)
                         (dd_unit display_data)))
     \<and> session_send_value r =
         (if spec_unit_known (dd_unit display_data)
             \<or> rd_function_code arg_data = APPADMM_FUNCTIONCODE_CONTINUITY
          then Some (tr_val r) else None)
     \<and> \<bar>spec_emitted_value (dd_reading display_data) (dd_dot display_data)
          (dd_unit display_data)
        - of_int (dd_reading display_data)
          * (spec_unit_factor (dd_unit display_data)
             / 10 ^ spec_dot_digits (dd_dot display_data))\<bar>
       \<le> 2 powi (- 22)
          * \<bar>of_int (dd_reading display_data)
             * (spec_unit_factor (dd_unit display_data)
                / 10 ^ spec_dot_digits (dd_dot display_data))\<bar>"
  unfolding transform_numeric [OF assms refl refl]
  using spec_emitted_value_error [of "dd_reading display_data" "dd_dot display_data"
      "dd_unit display_data"]
  by (simp add: transform_dot_digits transform_dot_factor
        transform_unit_digits transform_unit_factor transform_data_content_scale
        transform_function_code_scale transform_unit_mq transform_function_code_mq
        transform_dot_mq transform_data_content_mq session_send_value_def
        spec_emitted_value_def spec_double_factor_def)

theorem transform_scaling_witness:
  "(APPADMM_CHANNEL_MAIN = APPADMM_CHANNEL_MAIN \<or> APPADMM_CHANNEL_MAIN = APPADMM_CHANNEL_SUB)
   \<and> \<not> appadmm_is_wordcode 1234
   \<and> map_sum id tr_digits (appadmm_transform_display_data 0 APPADMM_CHANNEL_MAIN
       \<lparr>rd_function_code = APPADMM_FUNCTIONCODE_DC_MV, rd_auto_test = 0, rd_range_code = 0,
        rd_auto_range = APPADMM_AUTO_RANGE,
        rd_main_display_data = \<lparr>dd_reading = 1234, dd_dot = APPADMM_DOT_999_99,
           dd_unit = APPADMM_UNIT_MV, dd_data_content = 0, dd_overload = APPADMM_NOT_OVERLOAD\<rparr>,
        rd_sub_display_data = \<lparr>dd_reading = 0x700000, dd_dot = 0, dd_unit = 0,
           dd_data_content = 0, dd_overload = 0\<rparr>\<rparr>) = Inr 5
   \<and> map_sum id session_send_value (appadmm_transform_display_data 0 APPADMM_CHANNEL_MAIN
       \<lparr>rd_function_code = APPADMM_FUNCTIONCODE_DC_MV, rd_auto_test = 0, rd_range_code = 0,
        rd_auto_range = APPADMM_AUTO_RANGE,
        rd_main_display_data = \<lparr>dd_reading = 1234, dd_dot = APPADMM_DOT_999_99,
           dd_unit = APPADMM_UNIT_MV, dd_data_content = 0, dd_overload = APPADMM_NOT_OVERLOAD\<rparr>,
        rd_sub_display_data = \<lparr>dd_reading = 0x700000, dd_dot = 0, dd_unit = 0,
           dd_data_content = 0, dd_overload = 0\<rparr>\<rparr>)
       = Inr (Some (Finite (6624987 / 536870912)))
   \<and> \<bar>6624987 / 536870912 - 1234 * (1 / 1000 / 10 ^ 2)\<bar>
       \<le> 2 powi (- 22) * \<bar>1234 * (1 / 1000 / 10 ^ 2 :: real)\<bar>"
proof -
  let ?D = "\<lparr>rd_function_code = APPADMM_FUNCTIONCODE_DC_MV, rd_auto_test = 0, rd_range_code = 0,
        rd_auto_range = APPADMM_AUTO_RANGE,
        rd_main_display_data = \<lparr>dd_reading = 1234, dd_dot = APPADMM_DOT_999_99,
           dd_unit = APPADMM_UNIT_MV, dd_data_content = 0, dd_overload = APPADMM_NOT_OVERLOAD\<rparr>,
        rd_sub_display_data = \<lparr>dd_reading = 0x700000, dd_dot = 0, dd_unit = 0,
           dd_data_content = 0, dd_overload = 0\<rparr>\<rparr>"
  have n: "\<not> appadmm_is_wordcode 1234"
    by (simp add: appadmm_is_wordcode_def APPADMM_WORDCODE_TABLE_MIN_def)
  have d: "\<not> appadmm_is_wordcode_dash 1234"
    by (simp add: appadmm_is_wordcode_dash_def appadmm_wordcode_defs)
  have o: "APPADMM_NOT_OVERLOAD \<noteq> APPADMM_OVERLOAD"
    by (simp add: appadmm_flag_defs)
  have e: "spec_unit_exponent APPADMM_UNIT_MV = - 3" "spec_unit_factor APPADMM_UNIT_MV = 1 / 1000"
    "spec_dot_digits APPADMM_DOT_999_99 = 2" "spec_unit_known APPADMM_UNIT_MV"
    by (simp_all add: spec_unit_exponent_def spec_unit_factor_def spec_dot_digits_def
          spec_unit_known_def appadmm_unit_defs appadmm_dot_defs)
  have v: "spec_emitted_value 1234 APPADMM_DOT_999_99 APPADMM_UNIT_MV = 6624987 / 536870912"
    by code_simp
  from transform_scaling [of APPADMM_CHANNEL_MAIN "rd_main_display_data ?D" ?D 0]
  obtain r where "appadmm_transform_display_data 0 APPADMM_CHANNEL_MAIN ?D = Inr r"
    "tr_digits r = 5" "session_send_value r = Some (Finite (6624987 / 536870912))"
    "\<bar>6624987 / 536870912 - 1234 * (1 / 1000 / 10 ^ 2)\<bar>
       \<le> 2 powi (- 22) * \<bar>1234 * (1 / 1000 / 10 ^ 2 :: real)\<bar>"
    using n d o e v by auto
  with n show ?thesis by simp
qed

text \<open>
  Claim C6 as stated fails in two ways. For the dash sentinel 0x700014 with dot 0 and unit V
  the value sent is infinity, not the reading times the unit factor. For the reading 1234
  with dot 2 and unit mV the value sent is the \<^verbatim>\<open>float\<close> 6624987 / 2^29, not the product
  1234 / 100000.
\<close>

theorem transform_scaling_counterexample:
  "map_sum id session_send_value (appadmm_transform_display_data 0 APPADMM_CHANNEL_MAIN
       \<lparr>rd_function_code = APPADMM_FUNCTIONCODE_DC_V, rd_auto_test = 0, rd_range_code = 0,
        rd_auto_range = APPADMM_MANUAL_RANGE,
        rd_main_display_data = \<lparr>dd_reading = APPADMM_WORDCODE_DASH, dd_dot = APPADMM_DOT_NONE,
           dd_unit = APPADMM_UNIT_V, dd_data_content = 0, dd_overload = APPADMM_NOT_OVERLOAD\<rparr>,
        rd_sub_display_data = \<lparr>dd_reading = 0x700000, dd_dot = 0, dd_unit = 0,
           dd_data_content = 0, dd_overload = 0\<rparr>\<rparr>) = Inr (Some INFINITY)
   \<and> map_sum id session_send_value (appadmm_transform_display_data 0 APPADMM_CHANNEL_MAIN
       \<lparr>rd_function_code = APPADMM_FUNCTIONCODE_DC_V, rd_auto_test = 0, rd_range_code = 0,
        rd_auto_range = APPADMM_MANUAL_RANGE,
        rd_main_display_data = \<lparr>dd_reading = APPADMM_WORDCODE_DASH, dd_dot = APPADMM_DOT_NONE,
           dd_unit = APPADMM_UNIT_V, dd_data_content = 0, dd_overload = APPADMM_NOT_OVERLOAD\<rparr>,
        rd_sub_display_data = \<lparr>dd_reading = 0x700000, dd_dot = 0, dd_unit = 0,
           dd_data_content = 0, dd_overload = 0\<rparr>\<rparr>)
     \<noteq> Inr (Some (Finite (of_int APPADMM_WORDCODE_DASH
                * (spec_unit_factor APPADMM_UNIT_V / 10 ^ spec_dot_digits APPADMM_DOT_NONE))))
   \<and> map_sum id session_send_value (appadmm_transform_display_data 0 APPADMM_CHANNEL_MAIN
       \<lparr>rd_function_code = APPADMM_FUNCTIONCODE_DC_MV, rd_auto_test = 0, rd_range_code = 0,
        rd_auto_range = APPADMM_AUTO_RANGE,
        rd_main_display_data = \<lparr>dd_reading = 1234, dd_dot = APPADMM_DOT_999_99,
           dd_unit = APPADMM_UNIT_MV, dd_data_content = 0, dd_overload = APPADMM_NOT_OVERLOAD\<rparr>,
        rd_sub_display_data = \<lparr>dd_reading = 0x700000, dd_dot = 0, dd_unit = 0,
           dd_data_content = 0, dd_overload = 0\<rparr>\<rparr>)
       = Inr (Some (Finite (6624987 / 536870912)))
   \<and> of_int 1234 * (spec_unit_factor APPADMM_UNIT_MV / 10 ^ spec_dot_digits APPADMM_DOT_999_99)
       = (617 / 50000 :: real)
   \<and> (6624987 / 536870912 :: real) \<noteq> 617 / 50000"
proof -
  let ?D = "\<lparr>rd_function_code = APPADMM_FUNCTIONCODE_DC_V, rd_auto_test = 0, rd_range_code = 0,
        rd_auto_range = APPADMM_MANUAL_RANGE,
        rd_main_display_data = \<lparr>dd_reading = APPADMM_WORDCODE_DASH, dd_dot = APPADMM_DOT_NONE,
           dd_unit = APPADMM_UNIT_V, dd_data_content = 0, dd_overload = APPADMM_NOT_OVERLOAD\<rparr>,
        rd_sub_display_data = \<lparr>dd_reading = 0x700000, dd_dot = 0, dd_unit = 0,
           dd_data_content = 0, dd_overload = 0\<rparr>\<rparr>"
  let ?E = "\<lparr>rd_function_code = APPADMM_FUNCTIONCODE_DC_MV, rd_auto_test = 0, rd_range_code = 0,
        rd_auto_range = APPADMM_AUTO_RANGE,
        rd_main_display_data = \<lparr>dd_reading = 1234, dd_dot = APPADMM_DOT_999_99,
           dd_unit = APPADMM_UNIT_MV, dd_data_content = 0, dd_overload = APPADMM_NOT_OVERLOAD\<rparr>,
        rd_sub_display_data = \<lparr>dd_reading = 0x700000, dd_dot = 0, dd_unit = 0,
           dd_data_content = 0, dd_overload = 0\<rparr>\<rparr>"
  have a: "map_sum id session_send_value
             (appadmm_transform_display_data 0 APPADMM_CHANNEL_MAIN ?D) = Inr (Some INFINITY)"
    by code_simp
  have b: "map_sum id session_send_value
             (appadmm_transform_display_data 0 APPADMM_CHANNEL_MAIN ?E)
            = Inr (Some (Finite (6624987 / 536870912)))"
    by code_simp
  have c: "of_int 1234
        * (spec_unit_factor APPADMM_UNIT_MV / 10 ^ spec_dot_digits APPADMM_DOT_999_99)
       = (617 / 50000 :: real)"
    by (simp add: spec_unit_factor_def spec_unit_exponent_def spec_dot_digits_def
          appadmm_unit_defs appadmm_dot_defs)
  have d: "(6624987 / 536870912 :: real) \<noteq> 617 / 50000" by simp
  from a b c d show ?thesis by simp
qed



subsection \<open>Transport protocol: the receive loop\<close>

lemma checksum_loop_sum:
  "n \<le> length d \<Longrightarrow> checksum_loop d n acc = acc + sum_list (take n d)"
  by (induction n arbitrary: acc) (simp_all add: take_Suc_conv_app_nth add.assoc)

lemma sr_tp_appa_checksum_sum:
  "unat n \<le> length d \<Longrightarrow> sr_tp_appa_checksum d n = sum_list (take (unat n) d)"
  by (simp add: sr_tp_appa_checksum_def checksum_loop_sum)

lemma buffer_add_conv:
  assumes "unat (tpai_buffer_size t) < length (tpai_buffer t)"
  shows "buffer_add b t =
     t\<lparr>tpai_buffer := take (unat (tpai_buffer_size t)) (tpai_buffer t) @ b
                        # drop (Suc (unat (tpai_buffer_size t))) (tpai_buffer t),
       tpai_buffer_size := tpai_buffer_size t + 1\<rparr>"
  using assms by (simp add: buffer_add_def upd_conv_take_nth_drop)

lemma unat_size_Suc:
  "unat (n :: u8) < 255 \<Longrightarrow> unat (n + 1) = Suc (unat n)"
  by (simp add: unat_word_ariths)

lemma receive_loop_payload:
  assumes "length (tpai_buffer t) = 69"
    and "unat (tpai_buffer_size t) = 4 + k"
    and "tpai_buffer t ! 3 = Lw"
    and "unat Lw = k + length Q"
    and "unat Lw \<le> 64"
  shows "receive_loop t p (Q @ cs # rest) =
     (let buf = take (4 + k) (tpai_buffer t) @ Q @ cs # drop (5 + unat Lw) (tpai_buffer t)
      in if sum_list (take (unat Lw) buf) = cs
         then (reset_to t buf,
               p\<lparr>pkt_command := buf ! 2, pkt_length := Lw,
                 pkt_data := take (unat Lw) (drop 4 buf) @ drop (unat Lw) (pkt_data p)\<rparr>,
               Inr True)
         else (reset_to t buf, p, Inl SR_ERR_IO))"
  using assms
proof (induction Q arbitrary: t k)
  case Nil
  let ?t1 = "buffer_add cs t"
  let ?buf = "take (4 + k) (tpai_buffer t) @ cs # drop (5 + k) (tpai_buffer t)"
  have k: "unat Lw = k" "k \<le> 64" using Nil by simp_all
  have t1: "?t1 = t\<lparr>tpai_buffer := ?buf, tpai_buffer_size := tpai_buffer_size t + 1\<rparr>"
    using Nil k by (simp add: buffer_add_conv)
  have sz: "unat (tpai_buffer_size ?t1) = 5 + k"
    using Nil k by (simp add: t1 unat_size_Suc)
  have b3: "?buf ! 3 = Lw"
    using Nil by (simp add: nth_append)
  have last: "?buf ! (4 + k) = cs"
    using Nil k by (simp add: nth_append)
  have len: "length ?buf = 69" using Nil k by simp
  have cs: "sr_tp_appa_checksum ?buf Lw = sum_list (take k ?buf)"
    using len k by (simp add: sr_tp_appa_checksum_sum)
  have rs: "sr_tp_appa_buffer_reset ?t1 = reset_to t ?buf"
    by (simp add: t1 sr_tp_appa_buffer_reset_def reset_to_def)
  have tb: "tpai_buffer ?t1 = ?buf" by (simp add: t1)
  have step: "receive_loop t p (cs # rest) =
     (if sr_tp_appa_checksum (tpai_buffer ?t1) (tpai_buffer ?t1 ! 3)
           = tpai_buffer ?t1 ! (unat (tpai_buffer_size ?t1) - 1)
      then (sr_tp_appa_buffer_reset ?t1,
            p\<lparr>pkt_command := tpai_buffer ?t1 ! 2, pkt_length := tpai_buffer ?t1 ! 3,
              pkt_data := take (unat (tpai_buffer ?t1 ! 3)) (drop 4 (tpai_buffer ?t1))
                          @ drop (unat (tpai_buffer ?t1 ! 3)) (pkt_data p)\<rparr>,
            Inr True)
      else (sr_tp_appa_buffer_reset ?t1, p, Inl SR_ERR_IO))"
    using Nil(2) sz b3 k
    by (simp add: Let_def tp_appa_defs t1)
  show ?case
    unfolding append_Nil step rs tb b3 sz cs
    by (simp add: last k Let_def)
next
  case (Cons b Q)
  let ?t1 = "buffer_add b t"
  let ?buf = "take (4 + k) (tpai_buffer t) @ b # drop (5 + k) (tpai_buffer t)"
  have k: "unat Lw = Suc (k + length Q)" "k \<le> 63" using Cons.prems by simp_all
  have t1: "?t1 = t\<lparr>tpai_buffer := ?buf, tpai_buffer_size := tpai_buffer_size t + 1\<rparr>"
    using Cons.prems k by (simp add: buffer_add_conv)
  have sz: "unat (tpai_buffer_size ?t1) = 4 + Suc k"
    using Cons.prems k by (simp add: t1 unat_size_Suc)
  have b3: "tpai_buffer ?t1 ! 3 = Lw"
    using Cons.prems by (simp add: t1 nth_append)
  have len: "length (tpai_buffer ?t1) = 69" using Cons.prems k by (simp add: t1)
  have step: "receive_loop t p ((b # Q) @ cs # rest) = receive_loop ?t1 p (Q @ cs # rest)"
    using Cons.prems(2) sz b3 k
    by (simp add: Let_def tp_appa_defs)
  have bufeq: "take (4 + Suc k) (tpai_buffer ?t1) @ Q @ cs # drop (5 + unat Lw) (tpai_buffer ?t1)
      = take (4 + k) (tpai_buffer t) @ (b # Q) @ cs # drop (5 + unat Lw) (tpai_buffer t)"
    using Cons.prems(1) k by (simp add: t1 ac_simps)
  have rs: "reset_to ?t1 = reset_to t"
    by (simp add: fun_eq_iff reset_to_def t1)
  have u: "unat Lw = Suc k + length Q" using k by simp
  show ?case
    unfolding step Cons.IH [OF len sz b3 u Cons.prems(5)] bufeq rs ..
qed


lemma receive_loop_header:
  assumes "tpai_buffer_size t = 0" and "length (tpai_buffer t) = 69"
    and "unat c \<le> 64" and "unat Lw \<le> 64"
  shows "receive_loop t p (0x55 # 0x55 # c # Lw # xs) =
     receive_loop (t\<lparr>tpai_buffer := 0x55 # 0x55 # c # Lw # drop 4 (tpai_buffer t),
                     tpai_buffer_size := 4\<rparr>) p xs"
proof -
  have four: "Suc (Suc (Suc (Suc 0))) = 4" by simp
  show ?thesis
    using assms by (simp add: buffer_add_conv tp_appa_defs Let_def four)
qed

lemma take_frame_prefix:
  "take (length P) (a # b # c # d # P @ ys) = take (length P) (a # b # c # d # P)"
proof -
  have "take (length P) (([a, b, c, d] @ P) @ ys) = take (length P) ([a, b, c, d] @ P)"
    by (subst take_append) simp
  then show ?thesis by simp
qed

lemma drop_frame_header:
  "drop (5 + n) (a # b # c # d # drop 4 xs) = drop (5 + n) xs"
proof -
  have "drop (5 + n) ([a, b, c, d] @ drop 4 xs) = drop (Suc n) (drop 4 xs)"
    by (subst drop_append) simp
  then show ?thesis by (simp add: add.commute)
qed

lemma receive_loop_frame:
  assumes "tpai_buffer_size t = 0" and "length (tpai_buffer t) = 69"
    and "unat c \<le> 64" and "length P \<le> 64"
  shows "receive_loop t p ([0x55, 0x55, c, of_nat (length P)] @ P @ cs # rest) =
     (let buf = [0x55, 0x55, c, of_nat (length P)] @ P @ cs
                # drop (5 + length P) (tpai_buffer t)
      in if sum_list (take (length P) ([0x55, 0x55, c, of_nat (length P)] @ P)) = cs
         then (reset_to t buf,
               p\<lparr>pkt_command := c, pkt_length := of_nat (length P),
                 pkt_data := P @ drop (length P) (pkt_data p)\<rparr>,
               Inr True)
         else (reset_to t buf, p, Inl SR_ERR_IO))"
proof -
  let ?Lw = "of_nat (length P) :: u8"
  let ?t4 = "t\<lparr>tpai_buffer := 0x55 # 0x55 # c # ?Lw # drop 4 (tpai_buffer t),
                tpai_buffer_size := 4\<rparr>"
  have L: "unat ?Lw = length P" using assms(4) by (simp add: unat_of_nat)
  have h: "receive_loop t p ([0x55, 0x55, c, ?Lw] @ P @ cs # rest)
             = receive_loop ?t4 p (P @ cs # rest)"
    using receive_loop_header [OF assms(1,2,3), of ?Lw p] assms(4) L by simp
  have r: "reset_to ?t4 = reset_to t" by (simp add: fun_eq_iff reset_to_def)
  have pl: "receive_loop ?t4 p (P @ cs # rest) =
     (let buf = take (4 + 0) (tpai_buffer ?t4) @ P @ cs # drop (5 + unat ?Lw) (tpai_buffer ?t4)
      in if sum_list (take (unat ?Lw) buf) = cs
         then (reset_to ?t4 buf,
               p\<lparr>pkt_command := buf ! 2, pkt_length := ?Lw,
                 pkt_data := take (unat ?Lw) (drop 4 buf) @ drop (unat ?Lw) (pkt_data p)\<rparr>,
               Inr True)
         else (reset_to ?t4 buf, p, Inl SR_ERR_IO))"
    by (rule receive_loop_payload) (use assms L in simp_all)
  show ?thesis
    unfolding h pl r L
    by (simp add: Let_def take_frame_prefix drop_frame_header)
qed

lemma reset_size [simp]: "tpai_buffer_size (sr_tp_appa_buffer_reset t) = 0"
  by (simp add: sr_tp_appa_buffer_reset_def)

lemma reset_length [simp]:
  "length (tpai_buffer (sr_tp_appa_buffer_reset t)) = length (tpai_buffer t)"
  by (simp add: sr_tp_appa_buffer_reset_def)

lemma buffer_add_length [simp]:
  "length (tpai_buffer (buffer_add b t)) = length (tpai_buffer t)"
  by (simp add: buffer_add_def)

lemma receive_loop_skip:
  "unat (tpai_buffer_size t) < 1 \<Longrightarrow> b \<noteq> SR_TP_APPA_START_BYTE \<Longrightarrow>
   receive_loop t p (b # buf) = receive_loop t p buf"
  by simp

lemma receive_loop_second:
  "unat (tpai_buffer_size t) = 1 \<Longrightarrow> b \<noteq> SR_TP_APPA_START_BYTE \<Longrightarrow>
   receive_loop t p (b # buf) = receive_loop (sr_tp_appa_buffer_reset t) p buf"
  by simp

lemma receive_loop_third:
  "2 \<le> unat (tpai_buffer_size t) \<Longrightarrow> unat (tpai_buffer_size t) < 4 \<Longrightarrow>
   SR_TP_APPA_MAX_DATA_SIZE < unat b \<Longrightarrow>
   receive_loop t p (b # buf) = receive_loop (sr_tp_appa_buffer_reset t) p buf"
  by simp

lemma receive_loop_add:
  assumes "\<not> (unat (tpai_buffer_size t) < 1 \<and> b \<noteq> SR_TP_APPA_START_BYTE)"
    and "\<not> (unat (tpai_buffer_size t) = 1 \<and> b \<noteq> SR_TP_APPA_START_BYTE)"
    and "\<not> (2 \<le> unat (tpai_buffer_size t) \<and> unat (tpai_buffer_size t) < 4
            \<and> SR_TP_APPA_MAX_DATA_SIZE < unat b)"
  shows "receive_loop t p (b # buf) =
     (let t1 = buffer_add b t in
        if unat (tpai_buffer_size t1) > 4
           \<and> unat (tpai_buffer t1 ! 3) + SR_TP_APPA_HEADER_SIZE + 1 = unat (tpai_buffer_size t1)
        then
          (if sr_tp_appa_checksum (tpai_buffer t1) (tpai_buffer t1 ! 3)
                = tpai_buffer t1 ! (unat (tpai_buffer_size t1) - 1)
           then (sr_tp_appa_buffer_reset t1,
                 p\<lparr>pkt_command := tpai_buffer t1 ! 2,
                   pkt_length := tpai_buffer t1 ! 3,
                   pkt_data := take (unat (tpai_buffer t1 ! 3)) (drop 4 (tpai_buffer t1))
                               @ drop (unat (tpai_buffer t1 ! 3)) (pkt_data p)\<rparr>,
                 Inr True)
           else (sr_tp_appa_buffer_reset t1, p, Inl SR_ERR_IO))
        else if unat (tpai_buffer_size t1) > SR_TP_APPA_MAX_PACKET_SIZE
        then (sr_tp_appa_buffer_reset t1, p, Inl SR_ERR_BUG)
        else receive_loop t1 p buf)"
proof -
  have a: "\<not> (\<not> unat (tpai_buffer_size t) < 1 \<and> unat (tpai_buffer_size t) < 2
                \<and> b \<noteq> SR_TP_APPA_START_BYTE)"
    using assms(2) by auto
  have b: "\<not> (\<not> unat (tpai_buffer_size t) < 2 \<and> unat (tpai_buffer_size t) < 4
                \<and> SR_TP_APPA_MAX_DATA_SIZE < unat b)"
    using assms(3) by auto
  show ?thesis
    unfolding receive_loop.simps if_not_P [OF assms(1)] if_not_P [OF a] if_not_P [OF b] ..
qed

lemma receive_loop_cases:
  obtains (skip) "unat (tpai_buffer_size t) < 1" "b \<noteq> SR_TP_APPA_START_BYTE"
  | (second) "unat (tpai_buffer_size t) = 1" "b \<noteq> SR_TP_APPA_START_BYTE"
  | (third) "2 \<le> unat (tpai_buffer_size t)" "unat (tpai_buffer_size t) < 4"
      "SR_TP_APPA_MAX_DATA_SIZE < unat b"
  | (add) "\<not> (unat (tpai_buffer_size t) < 1 \<and> b \<noteq> SR_TP_APPA_START_BYTE)"
      "\<not> (unat (tpai_buffer_size t) = 1 \<and> b \<noteq> SR_TP_APPA_START_BYTE)"
      "\<not> (2 \<le> unat (tpai_buffer_size t) \<and> unat (tpai_buffer_size t) < 4
            \<and> SR_TP_APPA_MAX_DATA_SIZE < unat b)"
  by blast

lemma receive_loop_resets:
  "tpai_buffer_size (fst (receive_loop t p rd)) = 0
   \<and> length (tpai_buffer (fst (receive_loop t p rd))) = length (tpai_buffer t)"
proof (induction rd arbitrary: t)
  case Nil
  show ?case by simp
next
  case (Cons b rd)
  show ?case
  proof (cases t b rule: receive_loop_cases)
    case skip
    show ?thesis unfolding receive_loop_skip [OF skip] using Cons.IH [of t] .
  next
    case second
    show ?thesis
      unfolding receive_loop_second [OF second]
      using Cons.IH [of "sr_tp_appa_buffer_reset t"] by simp
  next
    case third
    show ?thesis
      unfolding receive_loop_third [OF third]
      using Cons.IH [of "sr_tp_appa_buffer_reset t"] by simp
  next
    case add
    show ?thesis
      unfolding receive_loop_add [OF add]
      using Cons.IH [of "buffer_add b t"] by (simp add: Let_def)
  qed
qed

lemma receive_loop_short:
  "unat (tpai_buffer_size t) + length rd \<le> 4 \<Longrightarrow>
   snd (receive_loop t p rd) = (p, Inr False)"
proof (induction rd arbitrary: t)
  case Nil
  then show ?case by simp
next
  case (Cons b rd)
  let ?n = "unat (tpai_buffer_size t)"
  have s: "unat (tpai_buffer_size (buffer_add b t)) = Suc ?n"
    using Cons.prems by (simp add: buffer_add_def unat_size_Suc)
  have r: "snd (receive_loop (sr_tp_appa_buffer_reset t) p rd) = (p, Inr False)"
    using Cons.prems by (intro Cons.IH) simp
  have k: "snd (receive_loop t p rd) = (p, Inr False)"
    using Cons.prems by (intro Cons.IH) simp
  have a: "snd (receive_loop (buffer_add b t) p rd) = (p, Inr False)"
    using Cons.prems s by (intro Cons.IH) simp
  have n4: "\<not> 4 < Suc ?n" "\<not> SR_TP_APPA_MAX_PACKET_SIZE < Suc ?n"
    using Cons.prems by (simp_all add: tp_appa_defs)
  show ?case
  proof (cases t b rule: receive_loop_cases)
    case skip
    show ?thesis unfolding receive_loop_skip [OF skip] using k .
  next
    case second
    show ?thesis unfolding receive_loop_second [OF second] using r .
  next
    case third
    show ?thesis unfolding receive_loop_third [OF third] using r .
  next
    case add
    show ?thesis
      unfolding receive_loop_add [OF add] Let_def s
      using a n4 by simp
  qed
qed


lemma tpai_init_facts:
  "tpai_buffer_size tpai_init = 0" "length (tpai_buffer tpai_init) = 69"
  by (simp_all add: tpai_init_def tp_appa_defs)

lemma frame_bytes_read_display_request:
  "frame_bytes 0x01 [] = [0x55, 0x55, 0x01, 0x00, 0xAB]"
  by (simp add: frame_bytes_def)

text \<open>
  Claim C1 fails on the code. The receiver takes the checksum over the first \<open>L\<close> bytes of
  the buffer (\<^verbatim>\<open>sr_tp_appa_checksum(buffer, buffer[3])\<close>) instead of the 4 header bytes plus
  the \<open>L\<close> payload bytes. The stream 55 55 01 00 00, whose trailing byte is not the sum
  0xAB of its header, is accepted and delivered; the well-formed frame 55 55 01 00 AB is
  rejected, and the rejection is reported as \<^verbatim>\<open>SR_ERR_IO\<close>, not as a data error.
\<close>

theorem receive_checksum_failing_input:
  "snd (sr_tp_appa_receive tpai_init p (Inr [0x55, 0x55, 0x01, 0x00, 0x00]))
     = (p\<lparr>pkt_command := 0x01, pkt_length := 0x00\<rparr>, Inr True)
   \<and> frame_bytes 0x01 [] = [0x55, 0x55, 0x01, 0x00, 0xAB]
   \<and> snd (sr_tp_appa_receive tpai_init p (Inr (frame_bytes 0x01 []))) = (p, Inl SR_ERR_IO)"
proof -
  have a: "receive_loop tpai_init p ([0x55, 0x55, 0x01, of_nat (length ([] :: u8 list))] @ [] @ 0x00 # [])
      = (reset_to tpai_init ([0x55, 0x55, 0x01, 0x00] @ [] @ 0x00 # drop 5 (tpai_buffer tpai_init)),
         p\<lparr>pkt_command := 0x01, pkt_length := 0x00, pkt_data := pkt_data p\<rparr>, Inr True)"
    by (subst receive_loop_frame) (simp_all add: tpai_init_facts Let_def)
  have b: "receive_loop tpai_init p ([0x55, 0x55, 0x01, of_nat (length ([] :: u8 list))] @ [] @ 0xAB # [])
      = (reset_to tpai_init ([0x55, 0x55, 0x01, 0x00] @ [] @ 0xAB # drop 5 (tpai_buffer tpai_init)),
         p, Inl SR_ERR_IO)"
    by (subst receive_loop_frame) (simp_all add: tpai_init_facts Let_def)
  show ?thesis
    using a b by (simp add: sr_tp_appa_receive_def frame_bytes_read_display_request)
qed












lemma receive_loop_no_start:
  "tpai_buffer_size t = 0 \<Longrightarrow> SR_TP_APPA_START_BYTE \<notin> set rd \<Longrightarrow>
   snd (receive_loop t p rd) = (p, Inr False)"
proof (induction rd)
  case Nil
  show ?case by simp
next
  case (Cons b rd)
  have "receive_loop t p (b # rd) = receive_loop t p rd"
    using Cons.prems by (intro receive_loop_skip) auto
  with Cons show ?case by simp
qed

text \<open>
  The receiver of the serial driver carries its buffer from call to call: how a stream is
  cut into reads does not change what reaches the decoder.
\<close>

lemma appadmm_receive_loop_append:
  "appadmm_receive_loop devc (a @ b) =
     (let (d1, f1) = appadmm_receive_loop devc a;
          (d2, f2) = appadmm_receive_loop d1 b
      in (d2, f1 @ f2))"
  by (induction a arbitrary: devc) (simp_all add: Let_def split: prod.splits)

lemma appadmm_receive_reads_concat:
  "appadmm_receive_reads devc rds = snd (appadmm_receive_loop devc (concat rds))"
  by (induction rds arbitrary: devc)
     (simp_all add: appadmm_receive_def appadmm_receive_loop_append Let_def split: prod.splits)

lemma appadmm_receive_prefix:
  "appadmm_receive devc_init (Inr [0x55, 0x55, 0x01])
     = (\<lparr>recv_buffer = [0x55, 0x55, 0x01] @ replicate 66 0, recv_buffer_len = 3\<rparr>, [], Inr ())"
  by code_simp

text \<open>
  Claim C3 fails on the code. Every call of \<^verbatim>\<open>sr_tp_appa_receive\<close> that processed a read
  returns with an empty buffer, because \<^verbatim>\<open>sr_tp_appa_buffer_reset\<close> runs unconditionally
  before \<^verbatim>\<open>return retr\<close>. A frame whose first three bytes arrive in one read and whose
  remaining bytes arrive in the next is never delivered, while the same bytes in one read
  are. The receiver \<^verbatim>\<open>appadmm_receive\<close> of the serial driver hands the frame to its decoder
  for the same two reads.
\<close>

theorem receive_drops_partial_frame:
  "tpai_buffer_size (fst (sr_tp_appa_receive t p (Inr rd))) = 0
   \<and> snd (sr_tp_appa_receive tpai_init packet_init (Inr [0x55, 0x55, 0x01]))
       = (packet_init, Inr False)
   \<and> receive_reads tpai_init packet_init
         [[0x55, 0x55, 0x01], [0x0C] @ replicate 12 0 @ [0xB7]] = []
   \<and> receive_reads tpai_init packet_init
         [[0x55, 0x55, 0x01] @ [0x0C] @ replicate 12 0 @ [0xB7]]
       = [packet_init\<lparr>pkt_command := 0x01, pkt_length := 12\<rparr>]
   \<and> appadmm_receive_reads devc_init
         [[0x55, 0x55, 0x01], [0x0C] @ replicate 12 0 @ [0xB7]]
       = [[0x55, 0x55, 0x01, 0x0C] @ replicate 12 0 @ [0xB7]]"
proof -
  have a: "tpai_buffer_size (fst (sr_tp_appa_receive t p (Inr rd))) = 0" for t p rd
    by (simp add: sr_tp_appa_receive_def receive_loop_resets)
  have b: "snd (sr_tp_appa_receive tpai_init packet_init (Inr [0x55, 0x55, 0x01]))
       = (packet_init, Inr False)"
    unfolding sr_tp_appa_receive_def
    using receive_loop_short [of tpai_init "[0x55, 0x55, 0x01]" packet_init]
    by (simp add: tpai_init_facts del: receive_loop.simps)
  have c: "snd (receive_loop t' packet_init ([0x0C] @ replicate 12 0 @ [0xB7]))
       = (packet_init, Inr False)" if "tpai_buffer_size t' = 0" for t'
    using that by (intro receive_loop_no_start) (auto simp: tp_appa_defs)
  have d: "replicate 12 0 @ drop 12 (pkt_data packet_init) = pkt_data packet_init"
    by (simp add: packet_init_def tp_appa_defs flip: replicate_add)
  have s: "sum_list (take 12 ([0x55, 0x55, 0x01, 0x0C] @ replicate 12 (0 :: u8))) = 0xB7"
    by (simp add: sum_list_replicate)
  have e: "receive_reads tpai_init packet_init
         [[0x55, 0x55, 0x01] @ [0x0C] @ replicate 12 0 @ [0xB7]]
       = [packet_init\<lparr>pkt_command := 0x01, pkt_length := 12\<rparr>]"
    using receive_loop_frame [OF tpai_init_facts, of "0x01" "replicate 12 0" packet_init "0xB7" "[]"]
      s d
    by (simp add: sr_tp_appa_receive_def Let_def del: receive_loop.simps)
  obtain t1 where t1: "sr_tp_appa_receive tpai_init packet_init (Inr [0x55, 0x55, 0x01])
       = (t1, packet_init, Inr False)"
    using b by (cases "sr_tp_appa_receive tpai_init packet_init (Inr [0x55, 0x55, 0x01])") simp
  have z: "tpai_buffer_size t1 = 0"
    using a [of tpai_init packet_init "[0x55, 0x55, 0x01]"] t1 by simp
  obtain t2 where t2: "sr_tp_appa_receive t1 packet_init (Inr (0x0C # replicate 12 0 @ [0xB7]))
       = (t2, packet_init, Inr False)"
    using c [OF z]
    by (cases "sr_tp_appa_receive t1 packet_init (Inr (0x0C # replicate 12 0 @ [0xB7]))")
       (simp add: sr_tp_appa_receive_def del: receive_loop.simps)
  have f: "receive_reads tpai_init packet_init
         [[0x55, 0x55, 0x01], [0x0C] @ replicate 12 0 @ [0xB7]] = []"
    using t1 t2 by simp
  have g: "appadmm_receive_reads devc_init
         [[0x55, 0x55, 0x01], [0x0C] @ replicate 12 0 @ [0xB7]]
       = [[0x55, 0x55, 0x01, 0x0C] @ replicate 12 0 @ [0xB7]]"
    by code_simp
  from a b e f g show ?thesis by (intro conjI)
qed

lemma checksum_header:
  "sr_tp_appa_checksum [a, b, c, d] 4 = a + b + c + d"
  by (simp add: sr_tp_appa_checksum_sum)

lemma checksum_empty: "sr_tp_appa_checksum d 0 = 0"
  by (simp add: sr_tp_appa_checksum_def)

lemma receive_loop_header3:
  assumes "tpai_buffer_size t = 0" and "length (tpai_buffer t) = 69" and "unat c \<le> 64"
  shows "receive_loop t p (0x55 # 0x55 # c # xs) =
     receive_loop (t\<lparr>tpai_buffer := 0x55 # 0x55 # c # drop 3 (tpai_buffer t),
                     tpai_buffer_size := 3\<rparr>) p xs"
proof -
  have three: "Suc (Suc (Suc 0)) = 3" by simp
  show ?thesis
    using assms by (simp add: buffer_add_conv tp_appa_defs Let_def three)
qed

text \<open>
  Claim C4 fails on the code. For the Read Display request (command 0x01, no payload) the
  sender transmits 55 55 01 followed by the unassigned \<^verbatim>\<open>header[3]\<close> and the checksum;
  whatever value that byte has, the receiver does not return the packet for these bytes.
\<close>

theorem send_receive_roundtrip_fails:
  "sr_tp_appa_send header_3 \<lparr>pkt_command = 0x01, pkt_length = 0, pkt_data = d\<rparr>
     = Inr [0x55, 0x55, 0x01, header_3, 0xAB + header_3]
   \<and> snd (snd (sr_tp_appa_receive tpai_init p
                  (Inr [0x55, 0x55, 0x01, header_3, 0xAB + header_3]))) \<noteq> Inr True"
proof -
  have snd: "sr_tp_appa_send header_3 \<lparr>pkt_command = 0x01, pkt_length = 0, pkt_data = d\<rparr>
     = Inr [0x55, 0x55, 0x01, header_3, 0xAB + header_3]"
    by (simp add: sr_tp_appa_send_def tp_appa_defs checksum_header checksum_empty Let_def)
  have "snd (snd (receive_loop tpai_init p [0x55, 0x55, 0x01, header_3, 0xAB + header_3]))
          \<noteq> Inr True"
  proof (cases "unat header_3 > 64")
    case True
    let ?t3 = "tpai_init\<lparr>tpai_buffer := 0x55 # 0x55 # 0x01 # drop 3 (tpai_buffer tpai_init),
                           tpai_buffer_size := 3\<rparr>"
    have "receive_loop tpai_init p [0x55, 0x55, 0x01, header_3, 0xAB + header_3]
        = receive_loop ?t3 p [header_3, 0xAB + header_3]"
      by (rule receive_loop_header3) (simp_all add: tpai_init_facts)
    also have "\<dots> = receive_loop (sr_tp_appa_buffer_reset ?t3) p [0xAB + header_3]"
      using True by (intro receive_loop_third) (simp_all add: tp_appa_defs)
    finally show ?thesis
      using receive_loop_short [of "sr_tp_appa_buffer_reset ?t3" "[0xAB + header_3]" p]
      by (simp del: receive_loop.simps)
  next
    case False
    let ?t4 = "tpai_init\<lparr>tpai_buffer := 0x55 # 0x55 # 0x01 # header_3
                                             # drop 4 (tpai_buffer tpai_init),
                           tpai_buffer_size := 4\<rparr>"
    have h4: "receive_loop tpai_init p [0x55, 0x55, 0x01, header_3, 0xAB + header_3]
        = receive_loop ?t4 p [0xAB + header_3]"
      using False by (intro receive_loop_header) (simp_all add: tpai_init_facts)
    show ?thesis
    proof (cases "header_3 = 0")
      case True
      have "receive_loop ?t4 p ([] @ (0xAB + header_3) # []) =
        (let buf = take (4 + 0) (tpai_buffer ?t4) @ [] @ (0xAB + header_3)
                     # drop (5 + unat header_3) (tpai_buffer ?t4)
         in if sum_list (take (unat header_3) buf) = 0xAB + header_3
            then (reset_to ?t4 buf,
               p\<lparr>pkt_command := buf ! 2, pkt_length := header_3,
                 pkt_data := take (unat header_3) (drop 4 buf) @ drop (unat header_3) (pkt_data p)\<rparr>,
               Inr True)
            else (reset_to ?t4 buf, p, Inl SR_ERR_IO))"
        using True by (intro receive_loop_payload) (simp_all add: tpai_init_facts)
      then show ?thesis
        unfolding h4 using True by (simp add: Let_def del: receive_loop.simps)
    next
      case False
      then have n0: "unat header_3 \<noteq> 0" by (simp add: unat_eq_0)
      have "receive_loop ?t4 p [0xAB + header_3]
            = receive_loop (buffer_add (0xAB + header_3) ?t4) p []"
        using n0 \<open>\<not> 64 < unat header_3\<close>
        by (subst receive_loop_add)
           (simp_all add: tp_appa_defs Let_def buffer_add_conv tpai_init_facts
              del: receive_loop.simps)
      then show ?thesis
        unfolding h4 by simp
    qed
  qed
  with snd show ?thesis by (simp add: sr_tp_appa_receive_def del: receive_loop.simps)
qed

end
